theory Spec2Isabelle
  imports Main "HOL-Library.Word"
begin

section \<open>Raw transaction utilities: data model\<close>

text \<open>
  A shallow embedding of \<^verbatim>\<open>src/rpc/rawtransaction_util.cpp\<close>. Byte vectors are lists of
  8-bit words, hashes are 256-bit words, \<^verbatim>\<open>uint32_t\<close> is a 32-bit word. Container sizes
  (\<^verbatim>\<open>size_t\<close>) and the \<^verbatim>\<open>unsigned int\<close> output index that is compared against them are
  natural numbers: a decoded transaction has far fewer than \<open>2^32\<close> outputs.
  Exceptions are values: every function that can throw returns the exception, and a
  function that mutates a reference argument returns the argument's state at the throw.
  The transaction types, their constructors and their constants are declared in other
  files; they are given here with the fields and default values this file relies on.
\<close>

type_synonym byte = "8 word"
type_synonym bytes = "byte list"
type_synonym CScript = "byte list"
type_synonym uint256 = "256 word"
type_synonym CAmount = int
type_synonym CPubKey = "byte list"
type_synonym CScriptWitness = "bytes list"

datatype RPCErrorCode =
    RPC_MISC_ERROR
  | RPC_TYPE_ERROR
  | RPC_INVALID_ADDRESS_OR_KEY
  | RPC_INVALID_PARAMETER
  | RPC_DESERIALIZATION_ERROR

text \<open>The exceptions this file throws or lets through.\<close>

datatype error =
    JSONRPCError RPCErrorCode string
  | runtime_error string
  | NonFatalCheckError string
  | out_of_range string
  | assertion_failure string
  | undefined_behaviour string

record COutPoint =
  outpoint_hash :: uint256
  outpoint_n :: "32 word"

record CTxIn =
  prevout :: COutPoint
  scriptSig :: CScript
  nSequence :: "32 word"
  m_is_pegin :: bool

text \<open>
  A confidential field (asset, value or nonce) is null, explicit, or a commitment whose
  bytes were assigned directly to \<^verbatim>\<open>vchCommitment\<close>.
\<close>

datatype 'a confidential = ConfNull | ConfExplicit 'a | ConfCommitment bytes

record CTxOut =
  nAsset :: "uint256 confidential"
  nValue :: "CAmount confidential"
  nNonce :: "uint256 confidential"
  scriptPubKey :: CScript

record CTxInWitness =
  vchIssuanceAmountRangeproof :: bytes
  vchInflationKeysRangeproof :: bytes
  scriptWitness :: CScriptWitness
  m_pegin_witness :: CScriptWitness

text \<open>
  \<^verbatim>\<open>CMutableTransaction\<close>, with \<^verbatim>\<open>witness.vtxinwit\<close> as the field \<open>vtxinwit\<close>. The version
  and the output witnesses are never read or written by this file.
\<close>

record CMutableTransaction =
  vin :: "CTxIn list"
  vout :: "CTxOut list"
  vtxinwit :: "CTxInWitness list"
  nLockTime :: "32 word"

definition SEQUENCE_FINAL :: "32 word" where
  "SEQUENCE_FINAL = 0xffffffff"

definition MAX_BIP125_RBF_SEQUENCE :: "32 word" where
  "MAX_BIP125_RBF_SEQUENCE = 0xfffffffd"

definition LOCKTIME_MAX :: int where
  "LOCKTIME_MAX = 0xFFFFFFFF"

definition MAX_MONEY :: CAmount where
  "MAX_MONEY = 21000000 * 100000000"

definition OP_RETURN :: byte where
  "OP_RETURN = 0x6a"

definition conf_IsNull :: "'a confidential \<Rightarrow> bool" where
  "conf_IsNull v = (case v of ConfNull \<Rightarrow> True | ConfExplicit _ \<Rightarrow> False | ConfCommitment bs \<Rightarrow> bs = [])"

definition COutPoint_null :: COutPoint where
  "COutPoint_null = \<lparr>outpoint_hash = 0, outpoint_n = 0xffffffff\<rparr>"

text \<open>The constructor \<^verbatim>\<open>CTxIn(prevout, scriptSig, nSequence)\<close> and the default one.\<close>

definition CTxIn_new :: "COutPoint \<Rightarrow> CScript \<Rightarrow> 32 word \<Rightarrow> CTxIn" where
  "CTxIn_new p s q = \<lparr>prevout = p, scriptSig = s, nSequence = q, m_is_pegin = False\<rparr>"

definition CTxIn_default :: CTxIn where
  "CTxIn_default = CTxIn_new COutPoint_null [] SEQUENCE_FINAL"

definition CTxInWitness_default :: CTxInWitness where
  "CTxInWitness_default =
     \<lparr>vchIssuanceAmountRangeproof = [], vchInflationKeysRangeproof = [],
      scriptWitness = [], m_pegin_witness = []\<rparr>"

definition CTxInWitness_IsNull :: "CTxInWitness \<Rightarrow> bool" where
  "CTxInWitness_IsNull w \<longleftrightarrow>
     vchIssuanceAmountRangeproof w = [] \<and> vchInflationKeysRangeproof w = [] \<and>
     scriptWitness w = [] \<and> m_pegin_witness w = []"

text \<open>The constructor \<^verbatim>\<open>CTxOut(asset, amount, script)\<close> and the default (null) output.\<close>

definition CTxOut_new :: "uint256 \<Rightarrow> CAmount \<Rightarrow> CScript \<Rightarrow> CTxOut" where
  "CTxOut_new a v s =
     \<lparr>nAsset = ConfExplicit a, nValue = ConfExplicit v, nNonce = ConfNull, scriptPubKey = s\<rparr>"

definition CTxOut_default :: CTxOut where
  "CTxOut_default = \<lparr>nAsset = ConfNull, nValue = ConfNull, nNonce = ConfNull, scriptPubKey = []\<rparr>"

definition CMutableTransaction_default :: CMutableTransaction where
  "CMutableTransaction_default = \<lparr>vin = [], vout = [], vtxinwit = [], nLockTime = 0\<rparr>"

text \<open>\<^verbatim>\<open>std::vector::resize\<close>: truncate, or pad with default-constructed elements.\<close>

definition resize :: "nat \<Rightarrow> 'a \<Rightarrow> 'a list \<Rightarrow> 'a list" where
  "resize k d xs = take k xs @ replicate (k - length xs) d"

section \<open>External collaborators\<close>

text \<open>
  Functions of other translation units are parameters. \<open>node_env\<close> collects the script,
  chain-state and verifier services; the type \<open>'dest\<close> is \<^verbatim>\<open>CTxDestination\<close>.
  \<open>IsWitnessProgram\<close> returns the version and program it writes to its out-parameters;
  \<open>IsValidPeginWitness\<close> returns \<open>None\<close> for a valid witness and the message it writes to
  \<^verbatim>\<open>err\<close> otherwise; its last argument is the depth-check flag. \<open>fedpegscripts\<close> is what
  \<^verbatim>\<open>GetValidFedpegScripts\<close> returns for the active tip. \<open>CScript_less\<close> is the comparison
  of \<^verbatim>\<open>CScript\<close> that orders a \<^verbatim>\<open>std::set<CScript>\<close>.
\<close>

record 'dest node_env =
  calculate_contract :: "CScript \<Rightarrow> CScript \<Rightarrow> CScript"
  WitnessV0ScriptHash :: "CScript \<Rightarrow> 'dest"
  ScriptHash :: "CScript \<Rightarrow> 'dest"
  GetScriptForDestination :: "'dest \<Rightarrow> CScript"
  IsPayToScriptHash :: "CScript \<Rightarrow> bool"
  IsPayToWitnessScriptHash :: "CScript \<Rightarrow> bool"
  IsWitnessProgram :: "CScript \<Rightarrow> (int \<times> bytes) option"
  fedpegscripts :: "(CScript \<times> CScript) list"
  IsValidPeginWitness ::
    "CScriptWitness \<Rightarrow> (CScript \<times> CScript) list \<Rightarrow> COutPoint \<Rightarrow> bool \<Rightarrow> string option"
  parent_pegged_asset_hex :: string
  ParentChainHasPow :: bool
  CScript_less :: "CScript \<Rightarrow> CScript \<Rightarrow> bool"

text \<open>
  The peg-in builder is a template over the parent chain's transaction and Merkle-block
  types. \<open>parent_ops\<close> is what the template needs of them: stream decoding (\<open>None\<close> when
  the stream operator throws; the Merkle block comes with the bytes left in the stream),
  the output scripts, the hash, \<^verbatim>\<open>txn.ExtractMatches\<close> (the computed root and the matched
  hashes), the header's Merkle root, the pegged amount of an output, the witness
  constructor, and the header check the caller applies.
\<close>

record ('tx, 'mb) parent_ops =
  decode_tx :: "bytes \<Rightarrow> 'tx option"
  decode_merkle_block :: "bytes \<Rightarrow> ('mb \<times> bytes) option"
  vout_scriptPubKeys :: "'tx \<Rightarrow> CScript list"
  GetHash :: "'tx \<Rightarrow> uint256"
  ExtractMatches :: "'mb \<Rightarrow> uint256 \<times> uint256 list"
  hashMerkleRoot :: "'mb \<Rightarrow> uint256"
  GetAmountFromParentChainPegin :: "'tx \<Rightarrow> nat \<Rightarrow> CAmount option"
  CreatePeginWitness :: "CAmount \<Rightarrow> CScript \<Rightarrow> 'tx \<Rightarrow> 'mb \<Rightarrow> CScriptWitness"
  CheckParentProof :: "'mb \<Rightarrow> bool"

section \<open>Claim matcher\<close>

text \<open>The inner loop of \<^verbatim>\<open>GetPeginTxnOutputIndex\<close>: the first output, from \<open>nOut\<close> on, with the script.\<close>

fun scan_vout :: "CScript \<Rightarrow> CScript list \<Rightarrow> nat \<Rightarrow> nat option" where
  "scan_vout mainchain_script [] nOut = None"
| "scan_vout mainchain_script (spk # rest) nOut =
     (if spk = mainchain_script then Some nOut
      else scan_vout mainchain_script rest (Suc nOut))"

text \<open>
  Lines 30 to 41: for each configuration in list order, lines 31 to 34 derive the
  destination script and lines 35 to 39 scan the outputs for it.
\<close>

fun GetPeginTxnOutputIndex ::
  "'dest node_env \<Rightarrow> CScript list \<Rightarrow> CScript \<Rightarrow> (CScript \<times> CScript) list \<Rightarrow> nat" where
  "GetPeginTxnOutputIndex E txn_vout witnessProgram [] = length txn_vout"
| "GetPeginTxnOutputIndex E txn_vout witnessProgram (scripts # rest) =
     (let mainchain_script =
            GetScriptForDestination E
              (WitnessV0ScriptHash E (calculate_contract E (snd scripts) witnessProgram));
          mainchain_script' =
            (if IsPayToScriptHash E (fst scripts)
             then GetScriptForDestination E (ScriptHash E mainchain_script)
             else mainchain_script)
      in (case scan_vout mainchain_script' txn_vout 0 of
            Some nOut \<Rightarrow> nOut
          | None \<Rightarrow> GetPeginTxnOutputIndex E txn_vout witnessProgram rest))"

unbundle bit_operations_syntax

section \<open>Peg-in input builder\<close>

text \<open>
  \<^verbatim>\<open>std::set<CScript>\<close> is modelled by the sequence its iterator yields: strictly ascending
  under the element type's comparison, which is a parameter. \<open>std_set_insert\<close> is
  \<^verbatim>\<open>std::set::insert\<close>: an element equivalent to one already present is dropped.
\<close>

fun std_set_insert :: "('a \<Rightarrow> 'a \<Rightarrow> bool) \<Rightarrow> 'a \<Rightarrow> 'a list \<Rightarrow> 'a list" where
  "std_set_insert lt x [] = [x]"
| "std_set_insert lt x (y # ys) =
     (if lt x y then x # y # ys
      else if lt y x then y # std_set_insert lt x ys
      else y # ys)"

text \<open>
  The loop over \<^verbatim>\<open>claim_scripts\<close> in \<^verbatim>\<open>CreatePegInInputInner\<close>: it returns \<^verbatim>\<open>nOut\<close> and
  \<^verbatim>\<open>witness_script\<close> as they are after the loop.
\<close>

fun match_claim_scripts ::
  "'dest node_env \<Rightarrow> CScript list \<Rightarrow> (CScript \<times> CScript) list \<Rightarrow> CScript list \<Rightarrow> nat \<times> CScript" where
  "match_claim_scripts E txn_vout fps [] = (length txn_vout, [])"
| "match_claim_scripts E txn_vout fps (script # rest) =
     (let nOut = GetPeginTxnOutputIndex E txn_vout script fps
      in if nOut \<noteq> length txn_vout then (nOut, script)
         else match_claim_scripts E txn_vout fps rest)"

definition err_already_used :: error where
  "err_already_used = JSONRPCError RPC_INVALID_PARAMETER
     ''Attempting to add a peg-in to an input that already has a scriptSig or witness''"

definition err_tx_malformed :: error where
  "err_tx_malformed = JSONRPCError RPC_TYPE_ERROR
     ''The included bitcoinTx is malformed. Are you sure that is the whole string?''"

definition err_proof_malformed :: error where
  "err_proof_malformed = JSONRPCError RPC_TYPE_ERROR
     ''The included txoutproof is malformed. Are you sure that is the whole string?''"

definition err_invalid_proof :: error where
  "err_invalid_proof = JSONRPCError RPC_INVALID_PARAMETER ''Invalid tx out proof''"

definition err_proof_not_tx :: error where
  "err_proof_not_tx = JSONRPCError RPC_INVALID_PARAMETER
     ''The txoutproof must contain bitcoinTx and only bitcoinTx''"

definition err_claim_script_mismatch :: error where
  "err_claim_script_mismatch = JSONRPCError RPC_INVALID_PARAMETER
     ''Given claim_script does not match the given Bitcoin transaction.''"

definition err_no_output :: error where
  "err_no_output = JSONRPCError RPC_INVALID_PARAMETER
     ''Failed to find output in bitcoinTx to the mainchain_address from getpeginaddress''"

definition err_not_v0 :: error where
  "err_not_v0 = JSONRPCError RPC_INVALID_PARAMETER
     ''Given or recovered script is not a v0 witness program.''"

definition err_not_explicit :: "'dest node_env \<Rightarrow> error" where
  "err_not_explicit E = JSONRPCError RPC_INVALID_PARAMETER
     (''Amounts to pegin must be explicit and asset must be '' @ parent_pegged_asset_hex E)"

definition err_witness_invalid :: "string \<Rightarrow> error" where
  "err_witness_invalid err = JSONRPCError RPC_INVALID_PARAMETER
     (''Constructed peg-in witness is invalid: '' @ err)"

text \<open>
  The tail of \<^verbatim>\<open>CreatePegInInputInner\<close>, from ``Add/replace input in mtx'' on. The index
  is a \<^verbatim>\<open>uint32_t\<close>, so \<^verbatim>\<open>input_idx + 1\<close> wraps at \<open>2^32\<close>; a write past the end of a
  vector is undefined behaviour, reported as such.
\<close>

definition install_pegin_input ::
  "'dest node_env \<Rightarrow> ('tx, 'mb) parent_ops \<Rightarrow> CMutableTransaction \<Rightarrow> 32 word \<Rightarrow> 'tx \<Rightarrow> 'mb \<Rightarrow>
   uint256 \<Rightarrow> nat \<Rightarrow> CScript \<Rightarrow> CAmount \<Rightarrow> CMutableTransaction \<times> (error + 'tx \<times> 'mb)" where
  "install_pegin_input E P mtx input_idx txBTCRef merkleBlock txHash nOut witness_script val =
     (let i = unat input_idx;
          vin1 = (if length (vin mtx) \<le> i
                  then resize (unat (input_idx + 1)) CTxIn_default (vin mtx) else vin mtx)
      in if \<not> i < length vin1
         then (mtx\<lparr>vin := vin1\<rparr>, Inl (undefined_behaviour ''mtx.vin[input_idx]''))
         else
           let mtx1 = mtx\<lparr>vin := vin1[i := CTxIn_new
                          \<lparr>outpoint_hash = txHash, outpoint_n = of_nat nOut\<rparr> [] (NOT 0)]\<rparr>;
               pegin_witness = CreatePeginWitness P val witness_script txBTCRef merkleBlock
           in case IsValidPeginWitness E pegin_witness (fedpegscripts E)
                     (prevout (vin mtx1 ! i)) False of
                Some err \<Rightarrow> (mtx1, Inl (err_witness_invalid err))
              | None \<Rightarrow>
                  let mtx2 = mtx1\<lparr>vin := (vin mtx1)[i := (vin mtx1 ! i)\<lparr>m_is_pegin := True\<rparr>]\<rparr>;
                      txinwit = CTxInWitness_default\<lparr>m_pegin_witness := pegin_witness\<rparr>;
                      wit1 = (if length (vtxinwit mtx2) \<le> i
                              then resize (unat (input_idx + 1)) CTxInWitness_default (vtxinwit mtx2)
                              else vtxinwit mtx2)
                  in if \<not> i < length wit1
                     then (mtx2\<lparr>vtxinwit := wit1\<rparr>,
                           Inl (undefined_behaviour ''mtx.witness.vtxinwit[input_idx]''))
                     else (mtx2\<lparr>vtxinwit := wit1[i := txinwit]\<rparr>, Inr (txBTCRef, merkleBlock)))"

text \<open>
  \<^verbatim>\<open>CreatePegInInputInner\<close>. The result is the transaction as the call leaves it, with
  either the exception or the decoded parent transaction and Merkle block (the
  out-parameters \<^verbatim>\<open>txBTCRef\<close> and \<^verbatim>\<open>merkleBlock\<close>).
\<close>

definition CreatePegInInputInner ::
  "'dest node_env \<Rightarrow> ('tx, 'mb) parent_ops \<Rightarrow> CMutableTransaction \<Rightarrow> 32 word \<Rightarrow> CScript list \<Rightarrow>
   bytes \<Rightarrow> bytes \<Rightarrow> CMutableTransaction \<times> (error + 'tx \<times> 'mb)" where
  "CreatePegInInputInner E P mtx input_idx claim_scripts txData txOutProofData =
     (if (length (vin mtx) > unat input_idx \<and> scriptSig (vin mtx ! unat input_idx) \<noteq> []) \<or>
         (length (vtxinwit mtx) > unat input_idx \<and>
          \<not> CTxInWitness_IsNull (vtxinwit mtx ! unat input_idx))
      then (mtx, Inl err_already_used)
      else (case decode_tx P txData of
        None \<Rightarrow> (mtx, Inl err_tx_malformed)
      | Some txBTCRef \<Rightarrow>
     (case decode_merkle_block P txOutProofData of
        None \<Rightarrow> (mtx, Inl err_proof_malformed)
      | Some (merkleBlock, ssTxOutProof) \<Rightarrow>
     (if ssTxOutProof \<noteq> [] then (mtx, Inl err_invalid_proof)
      else (case ExtractMatches P merkleBlock of (root, txHashes) \<Rightarrow>
     (if root \<noteq> hashMerkleRoot P merkleBlock then (mtx, Inl err_invalid_proof)
      else if length txHashes \<noteq> 1 \<or> txHashes ! 0 \<noteq> GetHash P txBTCRef
      then (mtx, Inl err_proof_not_tx)
      else (case match_claim_scripts E (vout_scriptPubKeys P txBTCRef) (fedpegscripts E)
                   claim_scripts of
        (nOut, witness_script) \<Rightarrow>
     (if nOut = length (vout_scriptPubKeys P txBTCRef)
      then (if length claim_scripts = 1 then (mtx, Inl err_claim_script_mismatch)
            else (mtx, Inl err_no_output))
      else if \<not> witness_script \<noteq> []
      then (mtx, Inl (NonFatalCheckError ''witness_script != CScript()''))
      else (case IsWitnessProgram E witness_script of
        None \<Rightarrow> (mtx, Inl err_not_v0)
      | Some (version, witness_program) \<Rightarrow>
     (if version \<noteq> 0 then (mtx, Inl err_not_v0)
      else (case GetAmountFromParentChainPegin P txBTCRef nOut of
        None \<Rightarrow> (mtx, Inl (err_not_explicit E))
      | Some val \<Rightarrow>
          install_pegin_input E P mtx input_idx txBTCRef merkleBlock (txHashes ! 0) nOut
            witness_script val)))))))))))"

text \<open>Both overloads of \<^verbatim>\<open>CreatePegInInput\<close> forward to the template.\<close>

definition CreatePegInInput ::
  "'dest node_env \<Rightarrow> ('tx, 'mb) parent_ops \<Rightarrow> CMutableTransaction \<Rightarrow> 32 word \<Rightarrow> CScript list \<Rightarrow>
   bytes \<Rightarrow> bytes \<Rightarrow> CMutableTransaction \<times> (error + 'tx \<times> 'mb)" where
  "CreatePegInInput E P mtx input_idx claim_scripts txData txOutProofData =
     CreatePegInInputInner E P mtx input_idx claim_scripts txData txOutProofData"

section \<open>JSON values\<close>

text \<open>
  \<^verbatim>\<open>UniValue\<close>: a number keeps its text, an object keeps its keys in insertion order and
  may hold a key twice (\<^verbatim>\<open>pushKVs\<close> does not look for duplicates); a lookup by key finds
  the first entry. The typed getters throw \<^verbatim>\<open>std::runtime_error\<close> on the wrong type.
\<close>

datatype UniValue =
    VNULL
  | VOBJ "(string \<times> UniValue) list"
  | VARR "UniValue list"
  | VSTR string
  | VNUM string
  | VBOOL bool

datatype VType = TNULL | TOBJ | TARR | TSTR | TNUM | TBOOL

definition isNull :: "UniValue \<Rightarrow> bool" where
  "isNull v = (case v of VNULL \<Rightarrow> True | _ \<Rightarrow> False)"

definition isObject :: "UniValue \<Rightarrow> bool" where
  "isObject v = (case v of VOBJ _ \<Rightarrow> True | _ \<Rightarrow> False)"

definition isNum :: "UniValue \<Rightarrow> bool" where
  "isNum v = (case v of VNUM _ \<Rightarrow> True | _ \<Rightarrow> False)"

definition get_obj :: "UniValue \<Rightarrow> error + UniValue" where
  "get_obj v = (case v of VOBJ _ \<Rightarrow> Inr v
                | _ \<Rightarrow> Inl (runtime_error ''JSON value is not an object as expected''))"

definition get_array :: "UniValue \<Rightarrow> error + UniValue" where
  "get_array v = (case v of VARR _ \<Rightarrow> Inr v
                  | _ \<Rightarrow> Inl (runtime_error ''JSON value is not an array as expected''))"

definition get_str :: "UniValue \<Rightarrow> error + string" where
  "get_str v = (case v of VSTR s \<Rightarrow> Inr s
                | _ \<Rightarrow> Inl (runtime_error ''JSON value is not a string as expected''))"

definition getValStr :: "UniValue \<Rightarrow> string" where
  "getValStr v = (case v of VSTR s \<Rightarrow> s | VNUM s \<Rightarrow> s
                  | VBOOL b \<Rightarrow> (if b then ''1'' else []) | _ \<Rightarrow> [])"

definition getKeys :: "UniValue \<Rightarrow> error + string list" where
  "getKeys v = (case v of VOBJ kvs \<Rightarrow> Inr (map fst kvs)
                | _ \<Rightarrow> Inl (runtime_error ''JSON value is not an object as expected''))"

text \<open>The \<^verbatim>\<open>values\<close> vector: what \<^verbatim>\<open>size()\<close> counts and \<^verbatim>\<open>operator[](size_t)\<close> indexes.\<close>

definition uv_values :: "UniValue \<Rightarrow> UniValue list" where
  "uv_values v = (case v of VOBJ kvs \<Rightarrow> map snd kvs | VARR vs \<Rightarrow> vs | _ \<Rightarrow> [])"

text \<open>\<^verbatim>\<open>find_value(obj, name)\<close> and \<^verbatim>\<open>obj[name]\<close>: the first entry with the key, else null.\<close>

definition find_value :: "UniValue \<Rightarrow> string \<Rightarrow> UniValue" where
  "find_value obj name =
     (case obj of
        VOBJ kvs \<Rightarrow> (case map_of kvs name of Some v \<Rightarrow> v | None \<Rightarrow> VNULL)
      | _ \<Rightarrow> VNULL)"

definition uv_exists :: "UniValue \<Rightarrow> string \<Rightarrow> bool" where
  "uv_exists obj name = (case obj of VOBJ kvs \<Rightarrow> name \<in> set (map fst kvs) | _ \<Rightarrow> False)"

definition pushKVs :: "UniValue \<Rightarrow> UniValue \<Rightarrow> UniValue" where
  "pushKVs this obj =
     (case (this, obj) of (VOBJ kvs, VOBJ kvs') \<Rightarrow> VOBJ (kvs @ kvs') | _ \<Rightarrow> this)"

text \<open>\<^verbatim>\<open>pushKV\<close> replaces the value of a key already present, else appends.\<close>

fun replace_first :: "string \<Rightarrow> UniValue \<Rightarrow> (string \<times> UniValue) list \<Rightarrow> (string \<times> UniValue) list" where
  "replace_first k v [] = []"
| "replace_first k v (kv # kvs) =
     (if fst kv = k then (k, v) # kvs else kv # replace_first k v kvs)"

definition pushKV :: "UniValue \<Rightarrow> string \<Rightarrow> UniValue \<Rightarrow> UniValue" where
  "pushKV this k v =
     (case this of
        VOBJ kvs \<Rightarrow> (if k \<in> set (map fst kvs) then VOBJ (replace_first k v kvs)
                     else VOBJ (kvs @ [(k, v)]))
      | _ \<Rightarrow> this)"

definition push_back :: "UniValue \<Rightarrow> UniValue \<Rightarrow> UniValue" where
  "push_back this v = (case this of VARR vs \<Rightarrow> VARR (vs @ [v]) | _ \<Rightarrow> this)"

definition push_backV :: "UniValue \<Rightarrow> UniValue list \<Rightarrow> UniValue" where
  "push_backV this vec = (case this of VARR vs \<Rightarrow> VARR (vs @ vec) | _ \<Rightarrow> this)"

text \<open>
  A coin: the output (\<^verbatim>\<open>out\<close> in the source), the height and the coinbase flag. The
  default-constructed coin has a null output, height 0 and no coinbase flag.
\<close>

record Coin =
  coin_out :: CTxOut
  nHeight :: nat
  fCoinBase :: bool

definition Coin_default :: Coin where
  "Coin_default = \<lparr>coin_out = CTxOut_default, nHeight = 0, fCoinBase = False\<rparr>"

text \<open>
  The RPC helpers of other translation units. The integer parsers read the text of a
  number (\<open>None\<close> when it is not an integer of the width); \<open>push_data\<close> is what
  \<^verbatim>\<open>CScript::operator<<\<close> appends for a byte vector; \<open>RPCTypeCheckObj\<close> returns the error
  it throws, if any.
\<close>

record 'dest rpc_util =
  ParseInt32 :: "string \<Rightarrow> int option"
  ParseInt64 :: "string \<Rightarrow> int option"
  ParseHashO :: "UniValue \<Rightarrow> string \<Rightarrow> error + uint256"
  ParseHexV :: "UniValue \<Rightarrow> string \<Rightarrow> error + bytes"
  ParseHexO :: "UniValue \<Rightarrow> string \<Rightarrow> error + bytes"
  IsHex :: "string \<Rightarrow> bool"
  ParseHex :: "string \<Rightarrow> bytes"
  AmountFromValue :: "UniValue \<Rightarrow> error + CAmount"
  DecodeDestination :: "string \<Rightarrow> 'dest"
  IsValidDestination :: "'dest \<Rightarrow> bool"
  IsBlindDestination :: "'dest \<Rightarrow> bool"
  GetDestinationBlindingKey :: "'dest \<Rightarrow> CPubKey"
  push_data :: "bytes \<Rightarrow> CScript"
  policyAsset :: uint256
  RPCTypeCheckObj :: "UniValue \<Rightarrow> (string \<times> VType) list \<Rightarrow> bool \<Rightarrow> error option"
  ScriptToAsmStr :: "CScript \<Rightarrow> string"
  IsSpent :: "Coin \<Rightarrow> bool"

definition get_int :: "'dest rpc_util \<Rightarrow> UniValue \<Rightarrow> error + int" where
  "get_int U v =
     (case v of
        VNUM s \<Rightarrow> (case ParseInt32 U s of Some i \<Rightarrow> Inr i
                   | None \<Rightarrow> Inl (runtime_error ''JSON integer out of range''))
      | _ \<Rightarrow> Inl (runtime_error ''JSON value is not an integer as expected''))"

definition get_int64 :: "'dest rpc_util \<Rightarrow> UniValue \<Rightarrow> error + int" where
  "get_int64 U v =
     (case v of
        VNUM s \<Rightarrow> (case ParseInt64 U s of Some i \<Rightarrow> Inr i
                   | None \<Rightarrow> Inl (runtime_error ''JSON integer out of range''))
      | _ \<Rightarrow> Inl (runtime_error ''JSON value is not an integer as expected''))"

section \<open>Transaction constructor\<close>

text \<open>
  Modelled from the spec: \<^verbatim>\<open>SignalsOptInRBF\<close> is defined outside this file. The spec has a
  transaction signal replaceability when some input's sequence number is below
  final minus one, that is, at most \<open>MAX_BIP125_RBF_SEQUENCE\<close> (final minus two).
\<close>

fun SignalsOptInRBF :: "CTxIn list \<Rightarrow> bool" where
  "SignalsOptInRBF [] = False"
| "SignalsOptInRBF (txin # rest) =
     (if nSequence txin \<le> MAX_BIP125_RBF_SEQUENCE then True else SignalsOptInRBF rest)"

definition err_param :: "string \<Rightarrow> error" where
  "err_param msg = JSONRPCError RPC_INVALID_PARAMETER msg"

text \<open>Lines 189 to 207: the sequence number of one input object \<open>obj\<close> (\<^verbatim>\<open>o\<close> in the source).\<close>

definition input_sequence :: "'dest rpc_util \<Rightarrow> bool \<Rightarrow> 32 word \<Rightarrow> UniValue \<Rightarrow> error + 32 word" where
  "input_sequence U rbf lock_time obj =
     (let nSequence' = (if rbf then MAX_BIP125_RBF_SEQUENCE
                        else if lock_time \<noteq> 0 then SEQUENCE_FINAL - 1
                        else SEQUENCE_FINAL);
          sequenceObj = find_value obj ''sequence''
      in if isNum sequenceObj
         then (case get_int64 U sequenceObj of
                 Inl e \<Rightarrow> Inl e
               | Inr seqNr64 \<Rightarrow>
                   if seqNr64 < 0 \<or> seqNr64 > uint SEQUENCE_FINAL
                   then Inl (err_param ''Invalid parameter, sequence number is out of range'')
                   else Inr (word_of_int seqNr64))
         else Inr nSequence')"

text \<open>
  The peg-in call of one parent-chain variant: \<^verbatim>\<open>CreatePegInInput\<close>, then the header check
  (\<^verbatim>\<open>CheckParentProofOfWork\<close> or \<^verbatim>\<open>CheckProofSignedParent\<close>) on the decoded Merkle block.
\<close>

definition pegin_call ::
  "'dest node_env \<Rightarrow> ('tx, 'mb) parent_ops \<Rightarrow> CMutableTransaction \<Rightarrow> nat \<Rightarrow> CScript list \<Rightarrow>
   bytes \<Rightarrow> bytes \<Rightarrow> error + CMutableTransaction" where
  "pegin_call E P rawTx idx claim_scripts txData txOutProofData =
     (case CreatePegInInput E P rawTx (of_nat idx) claim_scripts txData txOutProofData of
        (rawTx', Inl e) \<Rightarrow> Inl e
      | (rawTx', Inr (tx_btc, merkle_block)) \<Rightarrow>
          if \<not> CheckParentProof P merkle_block then Inl (err_param ''Invalid tx out proof'')
          else Inr rawTx')"

text \<open>Lines 212 to 246: the peg-in fields of the input object \<open>obj\<close> (\<^verbatim>\<open>o\<close> in the source) at index \<open>idx\<close>.\<close>

definition input_pegin ::
  "'dest rpc_util \<Rightarrow> 'dest node_env \<Rightarrow> ('btx, 'bmb) parent_ops \<Rightarrow> ('etx, 'emb) parent_ops \<Rightarrow>
   bool \<Rightarrow> CMutableTransaction \<Rightarrow> nat \<Rightarrow> UniValue \<Rightarrow> error + CMutableTransaction" where
  "input_pegin U E Pb Pe allow_peg_in rawTx idx obj =
     (let pegin_tx = find_value obj ''pegin_bitcoin_tx'';
          pegin_tx_proof = find_value obj ''pegin_txout_proof'';
          pegin_script = find_value obj ''pegin_claim_script''
      in if \<not> isNull pegin_tx \<and> \<not> isNull pegin_tx_proof \<and> \<not> isNull pegin_script \<and> allow_peg_in
         then (case get_str pegin_script of
                 Inl e \<Rightarrow> Inl e
               | Inr script_hex \<Rightarrow>
            (if \<not> IsHex U script_hex then Inl (err_param ''Given claim_script is not hex.'')
             else (let claim_script = ParseHex U script_hex;
                       claim_scripts = std_set_insert (CScript_less E) claim_script []
                   in (case get_str pegin_tx of
                         Inl e \<Rightarrow> Inl e
                       | Inr tx_hex \<Rightarrow>
                    (case get_str pegin_tx_proof of
                       Inl e \<Rightarrow> Inl e
                     | Inr proof_hex \<Rightarrow>
                         if ParentChainHasPow E
                         then pegin_call E Pb rawTx idx claim_scripts
                                (ParseHex U tx_hex) (ParseHex U proof_hex)
                         else pegin_call E Pe rawTx idx claim_scripts
                                (ParseHex U tx_hex) (ParseHex U proof_hex))))))
         else if \<not> isNull pegin_tx \<or> \<not> isNull pegin_tx_proof \<or> \<not> isNull pegin_script
         then (if allow_peg_in
               then Inl (err_param ''Some but not all pegin_ arguments provided'')
               else Inl (err_param
                 ''pegin_ arguments provided but this command does not support peg-ins''))
         else Inr rawTx)"

text \<open>One iteration of the loop over \<^verbatim>\<open>inputs\<close> (lines 177 to 246).\<close>

definition ConstructTransaction_input ::
  "'dest rpc_util \<Rightarrow> 'dest node_env \<Rightarrow> ('btx, 'bmb) parent_ops \<Rightarrow> ('etx, 'emb) parent_ops \<Rightarrow>
   bool \<Rightarrow> bool \<Rightarrow> CMutableTransaction \<Rightarrow> nat \<Rightarrow> UniValue \<Rightarrow> error + CMutableTransaction" where
  "ConstructTransaction_input U E Pb Pe rbf allow_peg_in rawTx idx input =
     (case get_obj input of
        Inl e \<Rightarrow> Inl e
      | Inr obj \<Rightarrow>
     (case ParseHashO U obj ''txid'' of
        Inl e \<Rightarrow> Inl e
      | Inr txid \<Rightarrow>
     (if \<not> isNum (find_value obj ''vout'')
      then Inl (err_param ''Invalid parameter, missing vout key'')
      else (case get_int U (find_value obj ''vout'') of
        Inl e \<Rightarrow> Inl e
      | Inr nOutput \<Rightarrow>
     (if nOutput < 0 then Inl (err_param ''Invalid parameter, vout cannot be negative'')
      else (case input_sequence U rbf (nLockTime rawTx) obj of
        Inl e \<Rightarrow> Inl e
      | Inr nSequence' \<Rightarrow>
          input_pegin U E Pb Pe allow_peg_in
            (rawTx\<lparr>vin := vin rawTx @
               [CTxIn_new \<lparr>outpoint_hash = txid, outpoint_n = word_of_int nOutput\<rparr> [] nSequence']\<rparr>)
            idx obj))))))"

fun ConstructTransaction_inputs ::
  "'dest rpc_util \<Rightarrow> 'dest node_env \<Rightarrow> ('btx, 'bmb) parent_ops \<Rightarrow> ('etx, 'emb) parent_ops \<Rightarrow>
   bool \<Rightarrow> bool \<Rightarrow> CMutableTransaction \<Rightarrow> nat \<Rightarrow> UniValue list \<Rightarrow> error + CMutableTransaction" where
  "ConstructTransaction_inputs U E Pb Pe rbf allow_peg_in rawTx idx [] = Inr rawTx"
| "ConstructTransaction_inputs U E Pb Pe rbf allow_peg_in rawTx idx (input # rest) =
     (case ConstructTransaction_input U E Pb Pe rbf allow_peg_in rawTx idx input of
        Inl e \<Rightarrow> Inl e
      | Inr rawTx' \<Rightarrow>
          ConstructTransaction_inputs U E Pb Pe rbf allow_peg_in rawTx' (Suc idx) rest)"

text \<open>Lines 249 to 263: an array of single-key objects becomes one object.\<close>

fun outputs_to_dict :: "UniValue list \<Rightarrow> UniValue \<Rightarrow> error + UniValue" where
  "outputs_to_dict [] outputs_dict = Inr outputs_dict"
| "outputs_to_dict (output # rest) outputs_dict =
     (if \<not> isObject output
      then Inl (err_param ''Invalid parameter, key-value pair not an object as expected'')
      else if length (uv_values output) \<noteq> 1
      then Inl (err_param ''Invalid parameter, key-value pair must contain exactly one key'')
      else outputs_to_dict rest (pushKVs outputs_dict output))"

text \<open>
  The variables the loop over the output keys updates: \<^verbatim>\<open>rawTx.vout\<close>, the caller's
  public-key vector (\<open>None\<close> for a null pointer), \<^verbatim>\<open>fee_out\<close>, \<^verbatim>\<open>destinations\<close>, \<^verbatim>\<open>has_data\<close>.
\<close>

record 'dest output_state =
  os_vout :: "CTxOut list"
  os_pubkeys :: "CPubKey list option"
  os_fee_out :: CTxOut
  os_destinations :: "'dest list"
  os_has_data :: bool

definition push_pubkey :: "CPubKey \<Rightarrow> CPubKey list option \<Rightarrow> CPubKey list option" where
  "push_pubkey k pks = (case pks of None \<Rightarrow> None | Some l \<Rightarrow> Some (l @ [k]))"

definition push_out :: "CTxOut \<Rightarrow> CPubKey \<Rightarrow> 'dest output_state \<Rightarrow> 'dest output_state" where
  "push_out out k st =
     st\<lparr>os_vout := os_vout st @ [out], os_pubkeys := push_pubkey k (os_pubkeys st)\<rparr>"

text \<open>The \<^verbatim>\<open>vdata\<close> loop: each element is pushed onto the script.\<close>

fun vdata_script :: "'dest rpc_util \<Rightarrow> UniValue list \<Rightarrow> CScript \<Rightarrow> error + CScript" where
  "vdata_script U [] datascript = Inr datascript"
| "vdata_script U (v # rest) datascript =
     (case get_str v of
        Inl e \<Rightarrow> Inl e
      | Inr str \<Rightarrow>
          (case ParseHexV U (VSTR str) ''Data'' of
             Inl e \<Rightarrow> Inl e
           | Inr data \<Rightarrow> vdata_script U rest (datascript @ push_data U data)))"

text \<open>Lines 274 to 279: the asset of the output named \<open>name\<close>.\<close>

definition output_asset :: "'dest rpc_util \<Rightarrow> UniValue \<Rightarrow> string \<Rightarrow> error + uint256" where
  "output_asset U assets name =
     (if \<not> isNull assets \<and> \<not> isNull (find_value assets name)
      then ParseHashO U assets name
      else Inr (policyAsset U))"

text \<open>One iteration of the loop over \<^verbatim>\<open>outputs.getKeys()\<close> (lines 272 to 345).\<close>

definition ConstructTransaction_output ::
  "'dest rpc_util \<Rightarrow> 'dest node_env \<Rightarrow> UniValue \<Rightarrow> UniValue \<Rightarrow> 'dest output_state \<Rightarrow> string \<Rightarrow>
   error + 'dest output_state" where
  "ConstructTransaction_output U E assets outputs st name =
     (case output_asset U assets name of
        Inl e \<Rightarrow> Inl e
      | Inr asset \<Rightarrow>
     (if name = ''data'' then
        (if os_has_data st then Inl (err_param ''Invalid parameter, duplicate key: data'')
         else (case ParseHexV U (VSTR (getValStr (find_value outputs name))) ''Data'' of
                 Inl e \<Rightarrow> Inl e
               | Inr data \<Rightarrow>
                   Inr (push_out (CTxOut_new asset 0 ([OP_RETURN] @ push_data U data)) []
                          (st\<lparr>os_has_data := True\<rparr>))))
      else if name = ''vdata'' then
        (case get_array (find_value outputs name) of
           Inl e \<Rightarrow> Inl e
         | Inr vdata \<Rightarrow>
             (case vdata_script U (uv_values vdata) [OP_RETURN] of
                Inl e \<Rightarrow> Inl e
              | Inr datascript \<Rightarrow> Inr (push_out (CTxOut_new asset 0 datascript) [] st)))
      else if name = ''fee'' then
        (case AmountFromValue U (find_value outputs name) of
           Inl e \<Rightarrow> Inl e
         | Inr nAmount \<Rightarrow> Inr (st\<lparr>os_fee_out := CTxOut_new asset nAmount []\<rparr>))
      else if name = ''burn'' then
        (case AmountFromValue U (find_value outputs name) of
           Inl e \<Rightarrow> Inl e
         | Inr nAmount \<Rightarrow> Inr (push_out (CTxOut_new asset nAmount [OP_RETURN]) [] st))
      else
        (let destination = DecodeDestination U name
         in if \<not> IsValidDestination U destination
            then Inl (JSONRPCError RPC_INVALID_ADDRESS_OR_KEY (''Invalid Bitcoin address: '' @ name))
            else if destination \<in> set (os_destinations st)
            then Inl (err_param (''Invalid parameter, duplicated address: '' @ name))
            else (case AmountFromValue U (find_value outputs name) of
                    Inl e \<Rightarrow> Inl e
                  | Inr nAmount \<Rightarrow>
                      (let out = CTxOut_new asset nAmount (GetScriptForDestination E destination);
                           blind_pub = (if IsBlindDestination U destination
                                        then GetDestinationBlindingKey U destination else []);
                           out = (if IsBlindDestination U destination \<and> os_pubkeys st = None
                                  then out\<lparr>nNonce := ConfCommitment blind_pub\<rparr> else out)
                       in Inr (push_out out blind_pub
                                 (st\<lparr>os_destinations := os_destinations st @ [destination]\<rparr>)))))))"

text \<open>
  The loop over the output keys. It returns the state at the end, or the state at the
  start of the iteration that throws, with the exception.
\<close>

fun ConstructTransaction_outputs ::
  "'dest rpc_util \<Rightarrow> 'dest node_env \<Rightarrow> UniValue \<Rightarrow> UniValue \<Rightarrow> 'dest output_state \<Rightarrow>
   string list \<Rightarrow> 'dest output_state \<times> error option" where
  "ConstructTransaction_outputs U E assets outputs st [] = (st, None)"
| "ConstructTransaction_outputs U E assets outputs st (name # rest) =
     (case ConstructTransaction_output U E assets outputs st name of
        Inl e \<Rightarrow> (st, Some e)
      | Inr st' \<Rightarrow> ConstructTransaction_outputs U E assets outputs st' rest)"

text \<open>\<^verbatim>\<open>CConfidentialValue::GetAmount\<close> asserts that the value is explicit.\<close>

definition GetAmount :: "CAmount confidential \<Rightarrow> error + CAmount" where
  "GetAmount v = (case v of ConfExplicit a \<Rightarrow> Inr a
                  | _ \<Rightarrow> Inl (assertion_failure ''IsExplicit()''))"

text \<open>Lines 348 to 354: the fee output is appended when its amount is positive.\<close>

definition add_fee_output :: "'dest output_state \<Rightarrow> error + 'dest output_state" where
  "add_fee_output st =
     (if conf_IsNull (nValue (os_fee_out st)) then Inr st
      else (case GetAmount (nValue (os_fee_out st)) of
              Inl e \<Rightarrow> Inl e
            | Inr a \<Rightarrow> if a > 0 then Inr (push_out (os_fee_out st) [] st) else Inr st))"

text \<open>Lines 148 to 174: the arguments as the loops use them.\<close>

definition parse_inputs :: "UniValue \<Rightarrow> error + UniValue" where
  "parse_inputs inputs_in = (if isNull inputs_in then Inr (VARR []) else get_array inputs_in)"

definition parse_outputs :: "UniValue \<Rightarrow> error + UniValue" where
  "parse_outputs outputs_in =
     (if isObject outputs_in then get_obj outputs_in else get_array outputs_in)"

definition parse_locktime :: "'dest rpc_util \<Rightarrow> UniValue \<Rightarrow> error + 32 word" where
  "parse_locktime U locktime =
     (if \<not> isNull locktime
      then (case get_int64 U locktime of
              Inl e \<Rightarrow> Inl e
            | Inr lock_time \<Rightarrow>
                if lock_time < 0 \<or> lock_time > LOCKTIME_MAX
                then Inl (err_param ''Invalid parameter, locktime out of range'')
                else Inr (word_of_int lock_time))
      else Inr 0)"

definition parse_assets :: "UniValue \<Rightarrow> error + UniValue" where
  "parse_assets assets_in = (if \<not> isNull assets_in then get_obj assets_in else Inr VNULL)"

text \<open>
  Everything \<^verbatim>\<open>ConstructTransaction\<close> does before its last check (lines 148 to 354). The
  result is the caller's public-key vector as the call leaves it, with the exception or
  the transaction built so far.
\<close>

definition ConstructTransaction_build ::
  "'dest rpc_util \<Rightarrow> 'dest node_env \<Rightarrow> ('btx, 'bmb) parent_ops \<Rightarrow> ('etx, 'emb) parent_ops \<Rightarrow>
   UniValue \<Rightarrow> UniValue \<Rightarrow> UniValue \<Rightarrow> bool \<Rightarrow> UniValue \<Rightarrow> CPubKey list option \<Rightarrow> bool \<Rightarrow>
   CPubKey list option \<times> (error + CMutableTransaction)" where
  "ConstructTransaction_build U E Pb Pe inputs_in outputs_in locktime rbf assets_in
       output_pubkeys_out allow_peg_in =
     (if isNull outputs_in
      then (output_pubkeys_out, Inl (err_param ''Invalid parameter, output argument must be non-null''))
      else (case parse_inputs inputs_in of
        Inl e \<Rightarrow> (output_pubkeys_out, Inl e)
      | Inr inputs \<Rightarrow>
     (case parse_outputs outputs_in of
        Inl e \<Rightarrow> (output_pubkeys_out, Inl e)
      | Inr outputs_arg \<Rightarrow>
     (case parse_locktime U locktime of
        Inl e \<Rightarrow> (output_pubkeys_out, Inl e)
      | Inr lock_time \<Rightarrow>
     (case parse_assets assets_in of
        Inl e \<Rightarrow> (output_pubkeys_out, Inl e)
      | Inr assets \<Rightarrow>
     (case ConstructTransaction_inputs U E Pb Pe rbf allow_peg_in
             (CMutableTransaction_default\<lparr>nLockTime := lock_time\<rparr>) 0 (uv_values inputs) of
        Inl e \<Rightarrow> (output_pubkeys_out, Inl e)
      | Inr rawTx \<Rightarrow>
     (case (if \<not> isObject outputs_in then outputs_to_dict (uv_values outputs_arg) (VOBJ [])
            else Inr outputs_arg) of
        Inl e \<Rightarrow> (output_pubkeys_out, Inl e)
      | Inr outputs \<Rightarrow>
     (case getKeys outputs of
        Inl e \<Rightarrow> (output_pubkeys_out, Inl e)
      | Inr keys \<Rightarrow>
     (case ConstructTransaction_outputs U E assets outputs
             \<lparr>os_vout = vout rawTx, os_pubkeys = output_pubkeys_out,
              os_fee_out = CTxOut_default, os_destinations = [], os_has_data = False\<rparr> keys of
        (st, Some e) \<Rightarrow> (os_pubkeys st, Inl e)
      | (st, None) \<Rightarrow>
     (case add_fee_output st of
        Inl e \<Rightarrow> (os_pubkeys st, Inl e)
      | Inr st' \<Rightarrow> (os_pubkeys st', Inr (rawTx\<lparr>vout := os_vout st'\<rparr>))))))))))))"

text \<open>\<^verbatim>\<open>ConstructTransaction\<close>: the construction, then the check of lines 356 to 358.\<close>

definition ConstructTransaction ::
  "'dest rpc_util \<Rightarrow> 'dest node_env \<Rightarrow> ('btx, 'bmb) parent_ops \<Rightarrow> ('etx, 'emb) parent_ops \<Rightarrow>
   UniValue \<Rightarrow> UniValue \<Rightarrow> UniValue \<Rightarrow> bool \<Rightarrow> UniValue \<Rightarrow> CPubKey list option \<Rightarrow> bool \<Rightarrow>
   CPubKey list option \<times> (error + CMutableTransaction)" where
  "ConstructTransaction U E Pb Pe inputs_in outputs_in locktime rbf assets_in
       output_pubkeys_out allow_peg_in =
     (case ConstructTransaction_build U E Pb Pe inputs_in outputs_in locktime rbf assets_in
             output_pubkeys_out allow_peg_in of
        (pubkeys, Inl e) \<Rightarrow> (pubkeys, Inl e)
      | (pubkeys, Inr rawTx) \<Rightarrow>
          if rbf \<and> length (vin rawTx) > 0 \<and> \<not> SignalsOptInRBF (vin rawTx)
          then (pubkeys, Inl (err_param
                 ''Invalid parameter combination: Sequence number(s) contradict replaceable option''))
          else (pubkeys, Inr rawTx))"

section \<open>Previous-output reconciler\<close>

definition err_deser :: "string \<Rightarrow> error" where
  "err_deser msg = JSONRPCError RPC_DESERIALIZATION_ERROR msg"

definition err_expected_object :: error where
  "err_expected_object = err_deser
     (''expected object with {'' @ [CHR 0x22] @ ''txid'' @ [CHR 0x27, CHR 0x22] @ '','' @
      [CHR 0x22] @ ''vout'' @ [CHR 0x22] @ '','' @ [CHR 0x22] @ ''scriptPubKey'' @ [CHR 0x22] @ ''}'')"

definition err_script_mismatch :: "'dest rpc_util \<Rightarrow> CScript \<Rightarrow> CScript \<Rightarrow> error" where
  "err_script_mismatch U recorded supplied = err_deser
     (''Previous output scriptPubKey mismatch:'' @ [CHR 0x0A] @ ScriptToAsmStr U recorded @
      [CHR 0x0A] @ ''vs:'' @ [CHR 0x0A] @ ScriptToAsmStr U supplied)"

text \<open>Lines 419 to 428: the coin built from the record \<open>prevOut\<close> and its script.\<close>

definition new_coin :: "'dest rpc_util \<Rightarrow> UniValue \<Rightarrow> CScript \<Rightarrow> error + Coin" where
  "new_coin U prevOut spk =
     (let newcoin = Coin_default\<lparr>coin_out := CTxOut_default
                      \<lparr>scriptPubKey := spk, nValue := ConfExplicit MAX_MONEY\<rparr>\<rparr>
      in if uv_exists prevOut ''amount''
         then (case AmountFromValue U (find_value prevOut ''amount'') of
                 Inl e \<Rightarrow> Inl e
               | Inr a \<Rightarrow> Inr (newcoin\<lparr>coin_out := (coin_out newcoin)\<lparr>nValue := ConfExplicit a\<rparr>,
                                       nHeight := 1\<rparr>))
         else if uv_exists prevOut ''amountcommitment''
         then (case ParseHexO U prevOut ''amountcommitment'' of
                 Inl e \<Rightarrow> Inl e
               | Inr c \<Rightarrow> Inr (newcoin\<lparr>coin_out := (coin_out newcoin)\<lparr>nValue := ConfCommitment c\<rparr>,
                                       nHeight := 1\<rparr>))
         else Inr (newcoin\<lparr>nHeight := 1\<rparr>))"

text \<open>
  Lines 386 to 430 for one element \<open>p\<close> of \<^verbatim>\<open>prevTxs\<close>: the record is parsed and the coin
  recorded. Every throw comes before the assignment to \<^verbatim>\<open>coins[out]\<close>. The result is the
  new map with the parsed record and script.
\<close>

definition prevout_coin ::
  "'dest rpc_util \<Rightarrow> (COutPoint \<rightharpoonup> Coin) \<Rightarrow> UniValue \<Rightarrow>
   error + (COutPoint \<rightharpoonup> Coin) \<times> UniValue \<times> CScript" where
  "prevout_coin U coins p =
     (if \<not> isObject p then Inl err_expected_object
      else (case get_obj p of
        Inl e \<Rightarrow> Inl e
      | Inr prevOut \<Rightarrow>
     (case RPCTypeCheckObj U prevOut
             [(''txid'', TSTR), (''vout'', TNUM), (''scriptPubKey'', TSTR)] False of
        Some e \<Rightarrow> Inl e
      | None \<Rightarrow>
     (case ParseHashO U prevOut ''txid'' of
        Inl e \<Rightarrow> Inl e
      | Inr txid \<Rightarrow>
     (case get_int U (find_value prevOut ''vout'') of
        Inl e \<Rightarrow> Inl e
      | Inr nOut \<Rightarrow>
     (if nOut < 0 then Inl (err_deser ''vout cannot be negative'')
      else (case ParseHexO U prevOut ''scriptPubKey'' of
        Inl e \<Rightarrow> Inl e
      | Inr spk \<Rightarrow>
     (let outp = \<lparr>outpoint_hash = txid, outpoint_n = word_of_int nOut\<rparr>
      in (case coins outp of
            None \<Rightarrow> (case new_coin U prevOut spk of
                       Inl e \<Rightarrow> Inl e
                     | Inr newcoin \<Rightarrow> Inr (coins(outp \<mapsto> newcoin), prevOut, spk))
          | Some coin \<Rightarrow>
              if \<not> IsSpent U coin \<and> scriptPubKey (coin_out coin) \<noteq> spk
              then Inl (err_script_mismatch U (scriptPubKey (coin_out coin)) spk)
              else (case new_coin U prevOut spk of
                      Inl e \<Rightarrow> Inl e
                    | Inr newcoin \<Rightarrow> Inr (coins(outp \<mapsto> newcoin), prevOut, spk)))))))))))"

text \<open>
  Lines 456 to 499, after both scripts went to the key store: the consistency checks on
  the redeem and witness scripts. The result is the exception thrown, if any.
\<close>

definition check_redeem_scripts ::
  "'dest rpc_util \<Rightarrow> 'dest node_env \<Rightarrow> CScript \<Rightarrow> UniValue \<Rightarrow> UniValue \<Rightarrow> CScript \<Rightarrow> CScript \<Rightarrow>
   error option" where
  "check_redeem_scripts U E spk rs ws script witness_output_script =
     (case (if \<not> isNull ws \<and> \<not> isNull rs
            then (case get_str ws of
                    Inl e \<Rightarrow> Some e
                  | Inr ws_str \<Rightarrow>
                 (case get_str rs of
                    Inl e \<Rightarrow> Some e
                  | Inr rs_str \<Rightarrow>
                      if ws_str \<noteq> rs_str
                      then (case ParseHexV U rs ''redeemScript'' of
                              Inl e \<Rightarrow> Some e
                            | Inr redeemScript \<Rightarrow>
                                if redeemScript \<noteq> witness_output_script
                                then Some (err_param
                                  ''redeemScript does not correspond to witnessScript'')
                                else None)
                      else None))
            else None) of
        Some e \<Rightarrow> Some e
      | None \<Rightarrow>
          if IsPayToScriptHash E spk
          then (if spk = GetScriptForDestination E (ScriptHash E script) then None
                else if spk = GetScriptForDestination E (ScriptHash E witness_output_script)
                then None
                else Some (err_param ''redeemScript/witnessScript does not match scriptPubKey''))
          else if IsPayToWitnessScriptHash E spk
          then (if spk \<noteq> GetScriptForDestination E (WitnessV0ScriptHash E script)
                then Some (err_param ''redeemScript/witnessScript does not match scriptPubKey'')
                else None)
          else None)"

text \<open>
  Lines 432 to 500: the key store (the scripts given to \<^verbatim>\<open>AddCScript\<close>, in order; \<open>None\<close>
  for a null pointer) as the iteration leaves it, and the exception thrown, if any.
\<close>

definition prevout_scripts ::
  "'dest rpc_util \<Rightarrow> 'dest node_env \<Rightarrow> CScript list option \<Rightarrow> UniValue \<Rightarrow> CScript \<Rightarrow>
   CScript list option \<times> error option" where
  "prevout_scripts U E keystore prevOut spk =
     (case keystore of
        None \<Rightarrow> (keystore, None)
      | Some added \<Rightarrow>
     (if \<not> (IsPayToScriptHash E spk \<or> IsPayToWitnessScriptHash E spk) then (keystore, None)
      else (case RPCTypeCheckObj U prevOut
                   [(''redeemScript'', TSTR), (''witnessScript'', TSTR)] True of
        Some e \<Rightarrow> (keystore, Some e)
      | None \<Rightarrow>
     (let rs = find_value prevOut ''redeemScript'';
          ws = find_value prevOut ''witnessScript''
      in if isNull rs \<and> isNull ws
         then (keystore, Some (err_param ''Missing redeemScript/witnessScript''))
         else (case (if \<not> isNull ws then ParseHexV U ws ''witnessScript''
                     else ParseHexV U rs ''redeemScript'') of
                 Inl e \<Rightarrow> (keystore, Some e)
               | Inr script \<Rightarrow>
                   (let witness_output_script =
                          GetScriptForDestination E (WitnessV0ScriptHash E script)
                    in (Some (added @ [script, witness_output_script]),
                        check_redeem_scripts U E spk rs ws script witness_output_script)))))))"

text \<open>One iteration of the loop of \<^verbatim>\<open>ParsePrevouts\<close>, and the loop.\<close>

definition ParsePrevouts_entry ::
  "'dest rpc_util \<Rightarrow> 'dest node_env \<Rightarrow> CScript list option \<times> (COutPoint \<rightharpoonup> Coin) \<Rightarrow> UniValue \<Rightarrow>
   (CScript list option \<times> (COutPoint \<rightharpoonup> Coin)) \<times> error option" where
  "ParsePrevouts_entry U E st p =
     (case prevout_coin U (snd st) p of
        Inl e \<Rightarrow> (st, Some e)
      | Inr (coins', prevOut, spk) \<Rightarrow>
          (case prevout_scripts U E (fst st) prevOut spk of
             (keystore', err) \<Rightarrow> ((keystore', coins'), err)))"

fun ParsePrevouts_loop ::
  "'dest rpc_util \<Rightarrow> 'dest node_env \<Rightarrow> CScript list option \<times> (COutPoint \<rightharpoonup> Coin) \<Rightarrow>
   UniValue list \<Rightarrow> (CScript list option \<times> (COutPoint \<rightharpoonup> Coin)) \<times> error option" where
  "ParsePrevouts_loop U E st [] = (st, None)"
| "ParsePrevouts_loop U E st (p # rest) =
     (case ParsePrevouts_entry U E st p of
        (st', Some e) \<Rightarrow> (st', Some e)
      | (st', None) \<Rightarrow> ParsePrevouts_loop U E st' rest)"

text \<open>
  \<^verbatim>\<open>ParsePrevouts\<close>: the key store and the coin map as the call leaves them, and the
  exception thrown, if any.
\<close>

definition ParsePrevouts ::
  "'dest rpc_util \<Rightarrow> 'dest node_env \<Rightarrow> UniValue \<Rightarrow> CScript list option \<Rightarrow> (COutPoint \<rightharpoonup> Coin) \<Rightarrow>
   (CScript list option \<times> (COutPoint \<rightharpoonup> Coin)) \<times> error option" where
  "ParsePrevouts U E prevTxsUnival keystore coins =
     (if \<not> isNull prevTxsUnival
      then (case get_array prevTxsUnival of
              Inl e \<Rightarrow> ((keystore, coins), Some e)
            | Inr prevTxs \<Rightarrow> ParsePrevouts_loop U E (keystore, coins) (uv_values prevTxs))
      else ((keystore, coins), None))"

section \<open>Signing orchestrator\<close>

text \<open>
  \<^verbatim>\<open>std::map<int, std::string>\<close> is modelled by the sequence its iterator yields: the
  entries in ascending key order. \<open>std_map_set\<close> is the assignment \<^verbatim>\<open>m[k] = v\<close>.
\<close>

fun std_map_set :: "int \<Rightarrow> 'v \<Rightarrow> (int \<times> 'v) list \<Rightarrow> (int \<times> 'v) list" where
  "std_map_set k v [] = [(k, v)]"
| "std_map_set k v (kv # kvs) =
     (if k < fst kv then (k, v) # kv # kvs
      else if k = fst kv then (k, v) # kvs
      else kv # std_map_set k v kvs)"

definition Needs_more_confirmations :: string where
  "Needs_more_confirmations = ''Needs more confirmations.''"

text \<open>
  The loop of \<^verbatim>\<open>ValidateTransactionPeginInputs\<close> from input \<open>i\<close> on, over the inputs
  \<open>txins\<close> still to visit. The result is the error map as the loop leaves it, with the
  exception of \<^verbatim>\<open>CHECK_NONFATAL\<close> or the flag \<^verbatim>\<open>immature_pegin\<close>.
\<close>

fun validate_pegin_loop ::
  "'dest node_env \<Rightarrow> CMutableTransaction \<Rightarrow> nat \<Rightarrow> CTxIn list \<Rightarrow> bool \<Rightarrow> (int \<times> string) list \<Rightarrow>
   (int \<times> string) list \<times> (error + bool)" where
  "validate_pegin_loop E mtx i [] immature_pegin input_errors = (input_errors, Inr immature_pegin)"
| "validate_pegin_loop E mtx i (txin # rest) immature_pegin input_errors =
     (if m_is_pegin txin \<and>
         (length (vtxinwit mtx) \<le> i \<or>
          IsValidPeginWitness E (m_pegin_witness (vtxinwit mtx ! i)) (fedpegscripts E)
            (prevout txin) False \<noteq> None)
      then validate_pegin_loop E mtx (Suc i) rest immature_pegin
             (std_map_set (int i) ''Peg-in input has invalid proof.'' input_errors)
      else if m_is_pegin txin
      then (case IsValidPeginWitness E (m_pegin_witness (vtxinwit mtx ! i)) (fedpegscripts E)
                   (prevout txin) True of
              None \<Rightarrow> validate_pegin_loop E mtx (Suc i) rest immature_pegin input_errors
            | Some err \<Rightarrow>
                if \<not> err = Needs_more_confirmations
                then (input_errors,
                      Inl (NonFatalCheckError
                        (''err == '' @ [CHR 0x22] @ Needs_more_confirmations @ [CHR 0x22])))
                else validate_pegin_loop E mtx (Suc i) rest True input_errors)
      else validate_pegin_loop E mtx (Suc i) rest immature_pegin input_errors)"

definition ValidateTransactionPeginInputs ::
  "'dest node_env \<Rightarrow> CMutableTransaction \<Rightarrow> (int \<times> string) list \<Rightarrow>
   (int \<times> string) list \<times> (error + bool)" where
  "ValidateTransactionPeginInputs E mtx input_errors =
     validate_pegin_loop E mtx 0 (vin mtx) False input_errors"

text \<open>
  The signer and the encoders of other translation units. \<open>sign\<close> is the five-argument
  \<^verbatim>\<open>SignTransaction\<close>: it returns the transaction and the error map as it leaves them,
  and its completeness result. \<open>'ks\<close> is the signing provider.
\<close>

record 'ks signer_env =
  ParseSighashString :: "UniValue \<Rightarrow> error + int"
  sign :: "CMutableTransaction \<Rightarrow> 'ks \<Rightarrow> (COutPoint \<rightharpoonup> Coin) \<Rightarrow> int \<Rightarrow> (int \<times> string) list \<Rightarrow>
           CMutableTransaction \<times> bool \<times> (int \<times> string) list"
  EncodeHexTx :: "CMutableTransaction \<Rightarrow> string"
  HexStr :: "bytes \<Rightarrow> string"
  hash_ToString :: "uint256 \<Rightarrow> string"
  CTxOut_ToString :: "CTxOut \<Rightarrow> string"
  num_ToString :: "nat \<Rightarrow> string"

text \<open>\<^verbatim>\<open>std::vector::at\<close> with an \<^verbatim>\<open>int\<close> index converted to \<^verbatim>\<open>size_t\<close>: a negative one is out of range.\<close>

definition vector_at :: "'a list \<Rightarrow> int \<Rightarrow> error + 'a" where
  "vector_at xs k = (if 0 \<le> k \<and> nat k < length xs then Inr (xs ! nat k)
                     else Inl (out_of_range ''vector''))"

text \<open>\<^verbatim>\<open>TxInErrorToJSON\<close>: the entry pushed to \<^verbatim>\<open>vErrorsRet\<close>.\<close>

definition TxInErrorToJSON ::
  "'ks signer_env \<Rightarrow> CTxIn \<Rightarrow> CTxInWitness \<Rightarrow> UniValue \<Rightarrow> string \<Rightarrow> UniValue" where
  "TxInErrorToJSON S txin txinwit vErrorsRet strMessage =
     (let entry = VOBJ [];
          entry = pushKV entry ''txid'' (VSTR (hash_ToString S (outpoint_hash (prevout txin))));
          entry = pushKV entry ''vout'' (VNUM (num_ToString S (unat (outpoint_n (prevout txin)))));
          witness = VARR (map (\<lambda>item. VSTR (HexStr S item)) (scriptWitness txinwit));
          entry = pushKV entry ''witness'' witness;
          entry = pushKV entry ''scriptSig'' (VSTR (HexStr S (scriptSig txin)));
          entry = pushKV entry ''sequence'' (VNUM (num_ToString S (unat (nSequence txin))));
          entry = pushKV entry ''error'' (VSTR strMessage)
      in push_back vErrorsRet entry)"

text \<open>The loop over \<^verbatim>\<open>input_errors\<close> in \<^verbatim>\<open>SignTransactionResultToJSON\<close>.\<close>

fun errors_to_json ::
  "'ks signer_env \<Rightarrow> CMutableTransaction \<Rightarrow> (COutPoint \<rightharpoonup> Coin) \<Rightarrow> (int \<times> string) list \<Rightarrow>
   UniValue \<Rightarrow> error + UniValue" where
  "errors_to_json S mtx coins [] vErrors = Inr vErrors"
| "errors_to_json S mtx coins (err_pair # rest) vErrors =
     (if snd err_pair = ''Missing amount''
      then (case vector_at (vin mtx) (fst err_pair) of
              Inl e \<Rightarrow> Inl e
            | Inr txin \<Rightarrow>
                (case coins (prevout txin) of
                   None \<Rightarrow> Inl (out_of_range ''map::at'')
                 | Some coin \<Rightarrow> Inl (JSONRPCError RPC_TYPE_ERROR
                     (''Missing amount for '' @ CTxOut_ToString S (coin_out coin)))))
      else (case vector_at (vin mtx) (fst err_pair) of
              Inl e \<Rightarrow> Inl e
            | Inr txin \<Rightarrow>
                (case vector_at (vtxinwit mtx) (fst err_pair) of
                   Inl e \<Rightarrow> Inl e
                 | Inr txinwit \<Rightarrow>
                     errors_to_json S mtx coins rest
                       (TxInErrorToJSON S txin txinwit vErrors (snd err_pair)))))"

definition getValues :: "UniValue \<Rightarrow> error + UniValue list" where
  "getValues v = (case v of VOBJ kvs \<Rightarrow> Inr (map snd kvs) | VARR vs \<Rightarrow> Inr vs
                  | _ \<Rightarrow> Inl (runtime_error ''JSON value is not an object or array as expected''))"

definition immature_warning :: string where
  "immature_warning = ''Possibly immature peg-in input(s) detected, signed anyways.''"

text \<open>
  \<^verbatim>\<open>SignTransactionResultToJSON\<close>: the caller's \<^verbatim>\<open>result\<close> as the call leaves it, and the
  exception thrown, if any.
\<close>

definition SignTransactionResultToJSON ::
  "'ks signer_env \<Rightarrow> CMutableTransaction \<Rightarrow> bool \<Rightarrow> (COutPoint \<rightharpoonup> Coin) \<Rightarrow> (int \<times> string) list \<Rightarrow>
   bool \<Rightarrow> UniValue \<Rightarrow> UniValue \<times> error option" where
  "SignTransactionResultToJSON S mtx complete coins input_errors immature_pegin result =
     (case errors_to_json S mtx coins input_errors (VARR []) of
        Inl e \<Rightarrow> (result, Some e)
      | Inr vErrors \<Rightarrow>
     (let result1 = pushKV result ''hex'' (VSTR (EncodeHexTx S mtx));
          result2 = pushKV result1 ''complete'' (VBOOL complete)
      in (case (if uv_values vErrors \<noteq> []
                then (if uv_exists result2 ''errors''
                      then (case getValues (find_value result2 ''errors'') of
                              Inl e \<Rightarrow> Inl e
                            | Inr vals \<Rightarrow>
                                Inr (pushKV result2 ''errors'' (push_backV vErrors vals)))
                      else Inr (pushKV result2 ''errors'' vErrors))
                else Inr result2) of
            Inl e \<Rightarrow> (result2, Some e)
          | Inr result3 \<Rightarrow>
              if immature_pegin
              then (pushKV result3 ''warning'' (VSTR immature_warning), None)
              else (result3, None))))"

text \<open>
  The orchestrating \<^verbatim>\<open>SignTransaction\<close>: the transaction and \<^verbatim>\<open>result\<close> as the call leaves
  them, and the exception thrown, if any.
\<close>

definition SignTransaction ::
  "'dest node_env \<Rightarrow> 'ks signer_env \<Rightarrow> CMutableTransaction \<Rightarrow> 'ks \<Rightarrow> (COutPoint \<rightharpoonup> Coin) \<Rightarrow>
   UniValue \<Rightarrow> UniValue \<Rightarrow> (CMutableTransaction \<times> UniValue) \<times> error option" where
  "SignTransaction E S mtx keystore coins hashType result =
     (case ParseSighashString S hashType of
        Inl e \<Rightarrow> ((mtx, result), Some e)
      | Inr nHashType \<Rightarrow>
     (case ValidateTransactionPeginInputs E mtx [] of
        (input_errors, Inl e) \<Rightarrow> ((mtx, result), Some e)
      | (input_errors, Inr immature_pegin) \<Rightarrow>
     (case sign S mtx keystore coins nHashType input_errors of
        (mtx', complete, input_errors') \<Rightarrow>
     (case SignTransactionResultToJSON S mtx' complete coins input_errors' immature_pegin
             result of
        (result', err) \<Rightarrow> ((mtx', result'), err)))))"


section \<open>An example environment\<close>

text \<open>
  A small concrete instance of the collaborators, used to run the functions above on
  explicit inputs. Hashes are replaced by the hashed script itself; the destination
  scripts have the usual shapes (\<open>OP_0 <len> <program>\<close> and \<open>OP_HASH160 <len> <hash> OP_EQUAL\<close>).
  The example verifier accepts every non-empty witness stack and, with the depth check
  on, reports a witness whose first element is a single zero byte as immature.
\<close>

datatype example_dest =
    ExNoDestination
  | ExScriptHash CScript
  | ExWitnessV0ScriptHash CScript
  | ExBlinded CPubKey CScript

definition example_script_for :: "example_dest \<Rightarrow> CScript" where
  "example_script_for d =
     (case d of
        ExNoDestination \<Rightarrow> []
      | ExScriptHash h \<Rightarrow> [0xa9, of_nat (length h)] @ h @ [0x87]
      | ExWitnessV0ScriptHash h \<Rightarrow> [0x00, of_nat (length h)] @ h
      | ExBlinded k s \<Rightarrow> s)"

definition example_IsWitnessProgram :: "CScript \<Rightarrow> (int \<times> bytes) option" where
  "example_IsWitnessProgram s =
     (if 4 \<le> length s \<and> length s \<le> 42 \<and> (s ! 0 = 0 \<or> (0x51 \<le> s ! 0 \<and> s ! 0 \<le> 0x60)) \<and>
         unat (s ! 1) + 2 = length s
      then Some (if s ! 0 = 0 then 0 else int (unat (s ! 0)) - 0x50, drop 2 s)
      else None)"

definition example_IsValidPeginWitness ::
  "CScriptWitness \<Rightarrow> (CScript \<times> CScript) list \<Rightarrow> COutPoint \<Rightarrow> bool \<Rightarrow> string option" where
  "example_IsValidPeginWitness w fps outp check_depth =
     (if w = [] then Some ''Not enough stack items.''
      else if check_depth \<and> hd w = [0] then Some ''Needs more confirmations.''
      else None)"

text \<open>The example comparison of scripts: by length, then bytewise.\<close>

definition example_less :: "CScript \<Rightarrow> CScript \<Rightarrow> bool" where
  "example_less a b \<longleftrightarrow>
     length a < length b \<or> (length a = length b \<and> (map unat a, map unat b) \<in> lexord {(x, y). x < y})"

text \<open>Two federation configurations: a script-hash wrapped one, then a native one.\<close>

definition example_fedpegscripts :: "(CScript \<times> CScript) list" where
  "example_fedpegscripts = [([0xa9, 1, 0x11, 0x87], [0x51]), ([0x00, 1, 0x22], [0x52])]"

definition example_env :: "example_dest node_env" where
  "example_env =
     \<lparr>calculate_contract = (\<lambda>fed claim. fed @ claim),
      WitnessV0ScriptHash = ExWitnessV0ScriptHash,
      ScriptHash = ExScriptHash,
      GetScriptForDestination = example_script_for,
      IsPayToScriptHash = (\<lambda>s. s \<noteq> [] \<and> hd s = 0xa9 \<and> last s = 0x87),
      IsPayToWitnessScriptHash = (\<lambda>s. s \<noteq> [] \<and> hd s = 0x00),
      IsWitnessProgram = example_IsWitnessProgram,
      fedpegscripts = example_fedpegscripts,
      IsValidPeginWitness = example_IsValidPeginWitness,
      parent_pegged_asset_hex = ''00'',
      ParentChainHasPow = True,
      CScript_less = example_less\<rparr>"

record example_tx =
  ex_hash :: uint256
  ex_vout :: "(CScript \<times> CAmount option) list"

record example_merkle_block =
  ex_header_root :: uint256
  ex_computed_root :: uint256
  ex_matches :: "uint256 list"
  ex_header_valid :: bool

text \<open>Two claim scripts (version-0 witness programs) and a parent transaction paying both.\<close>

definition claim_A :: CScript where
  "claim_A = [0x00, 0x02, 0xaa, 0x01]"

definition claim_B :: CScript where
  "claim_B = [0x00, 0x02, 0xaa, 0x02]"

definition example_parent_tx :: example_tx where
  "example_parent_tx =
     \<lparr>ex_hash = 7,
      ex_vout = [([0x76], Some 5),
                 ([0x00, 5, 0x52, 0x00, 0x02, 0xaa, 0x02], Some 30),
                 ([0xa9, 7, 0x00, 5, 0x51, 0x00, 0x02, 0xaa, 0x01, 0x87], Some 40)]\<rparr>"

definition example_merkle_block :: example_merkle_block where
  "example_merkle_block =
     \<lparr>ex_header_root = 9, ex_computed_root = 9, ex_matches = [7], ex_header_valid = True\<rparr>"

text \<open>
  The example streams: the byte \<open>1\<close> decodes to the parent transaction; a leading byte
  \<open>2\<close> decodes to its Merkle block, \<open>3\<close> to a block whose computed root differs from the
  header's, \<open>4\<close> to a block matching two transactions; what follows the byte is left in
  the stream.
\<close>

definition example_decode_merkle_block :: "bytes \<Rightarrow> (example_merkle_block \<times> bytes) option" where
  "example_decode_merkle_block bs =
     (case bs of
        [] \<Rightarrow> None
      | b # rest \<Rightarrow>
          if b = 2 then Some (example_merkle_block, rest)
          else if b = 3 then Some (example_merkle_block\<lparr>ex_computed_root := 8\<rparr>, rest)
          else if b = 4 then Some (example_merkle_block\<lparr>ex_matches := [7, 6]\<rparr>, rest)
          else None)"

definition example_ops :: "(example_tx, example_merkle_block) parent_ops" where
  "example_ops =
     \<lparr>decode_tx = (\<lambda>bs. if bs = [1] then Some example_parent_tx else None),
      decode_merkle_block = example_decode_merkle_block,
      vout_scriptPubKeys = (\<lambda>tx. map fst (ex_vout tx)),
      GetHash = ex_hash,
      ExtractMatches = (\<lambda>mb. (ex_computed_root mb, ex_matches mb)),
      hashMerkleRoot = ex_header_root,
      GetAmountFromParentChainPegin =
        (\<lambda>tx nOut. if nOut < length (ex_vout tx) then snd (ex_vout tx ! nOut) else None),
      CreatePeginWitness = (\<lambda>val script tx mb. [[of_int val], script]),
      CheckParentProof = ex_header_valid\<rparr>"

text \<open>
  The example RPC helpers: decimal integers, hexadecimal byte strings (a hash is any
  non-empty hexadecimal string, read as a number), whole-coin amounts, and destinations
  named by the hexadecimal text of a witness script hash.
\<close>

definition example_digit :: "char \<Rightarrow> nat option" where
  "example_digit c =
     (let k = (of_char c :: nat)
      in if 48 \<le> k \<and> k \<le> 57 then Some (k - 48)
         else if 97 \<le> k \<and> k \<le> 102 then Some (k - 87)
         else None)"

fun example_number :: "nat \<Rightarrow> string \<Rightarrow> nat \<Rightarrow> nat option" where
  "example_number base [] acc = Some acc"
| "example_number base (c # cs) acc =
     (case example_digit c of
        None \<Rightarrow> None
      | Some d \<Rightarrow> if d < base then example_number base cs (acc * base + d) else None)"

definition example_ParseInt :: "nat \<Rightarrow> string \<Rightarrow> int option" where
  "example_ParseInt width s =
     (case s of
        [] \<Rightarrow> None
      | c # cs \<Rightarrow>
          (case (if c = CHR ''-'' then (if cs = [] then None
                                       else map_option (\<lambda>k. - int k) (example_number 10 cs 0))
                 else map_option int (example_number 10 s 0)) of
             None \<Rightarrow> None
           | Some i \<Rightarrow> if - (2 ^ (width - 1)) \<le> i \<and> i < 2 ^ (width - 1) then Some i else None))"

definition example_IsHex :: "string \<Rightarrow> bool" where
  "example_IsHex s \<longleftrightarrow> s \<noteq> [] \<and> even (length s) \<and> example_number 16 s 0 \<noteq> None"

fun example_ParseHex :: "string \<Rightarrow> bytes" where
  "example_ParseHex (a # b # rest) =
     (case example_number 16 [a, b] 0 of
        None \<Rightarrow> []
      | Some k \<Rightarrow> of_nat k # example_ParseHex rest)"
| "example_ParseHex _ = []"

definition example_ParseHexV :: "UniValue \<Rightarrow> string \<Rightarrow> error + bytes" where
  "example_ParseHexV v strName =
     (let strHex = (case v of VSTR s \<Rightarrow> s | _ \<Rightarrow> [])
      in if \<not> (strHex = [] \<or> example_IsHex strHex)
         then Inl (JSONRPCError RPC_INVALID_PARAMETER
                (strName @ '' must be hexadecimal string (not '' @ [CHR 0x27] @ strHex @
                 [CHR 0x27] @ '')''))
         else Inr (example_ParseHex strHex))"

definition example_ParseHashO :: "UniValue \<Rightarrow> string \<Rightarrow> error + uint256" where
  "example_ParseHashO obj strKey =
     (case find_value obj strKey of
        VSTR s \<Rightarrow>
          (case (if example_IsHex s then example_number 16 s 0 else None) of
             Some k \<Rightarrow> Inr (of_nat k)
           | None \<Rightarrow> Inl (JSONRPCError RPC_INVALID_PARAMETER
                        (strKey @ '' must be hexadecimal string (not '' @ [CHR 0x27] @ s @
                         [CHR 0x27] @ '')'')))
      | _ \<Rightarrow> Inl (JSONRPCError RPC_INVALID_PARAMETER (strKey @ '' must be hexadecimal string'')))"

definition example_AmountFromValue :: "UniValue \<Rightarrow> error + CAmount" where
  "example_AmountFromValue v =
     (case v of
        VNUM s \<Rightarrow>
          (case example_number 10 s 0 of
             None \<Rightarrow> Inl (JSONRPCError RPC_TYPE_ERROR ''Invalid amount'')
           | Some k \<Rightarrow> if int k * 100000000 \<le> MAX_MONEY \<and> s \<noteq> [] then Inr (int k * 100000000)
                       else Inl (JSONRPCError RPC_TYPE_ERROR ''Amount out of range''))
      | VSTR s \<Rightarrow>
          (case example_number 10 s 0 of
             None \<Rightarrow> Inl (JSONRPCError RPC_TYPE_ERROR ''Invalid amount'')
           | Some k \<Rightarrow> if int k * 100000000 \<le> MAX_MONEY \<and> s \<noteq> [] then Inr (int k * 100000000)
                       else Inl (JSONRPCError RPC_TYPE_ERROR ''Amount out of range''))
      | _ \<Rightarrow> Inl (JSONRPCError RPC_TYPE_ERROR ''Amount is not a number or string''))"

definition example_type :: "UniValue \<Rightarrow> VType" where
  "example_type v = (case v of VNULL \<Rightarrow> TNULL | VOBJ _ \<Rightarrow> TOBJ | VARR _ \<Rightarrow> TARR
                     | VSTR _ \<Rightarrow> TSTR | VNUM _ \<Rightarrow> TNUM | VBOOL _ \<Rightarrow> TBOOL)"

fun example_RPCTypeCheckObj :: "UniValue \<Rightarrow> (string \<times> VType) list \<Rightarrow> bool \<Rightarrow> error option" where
  "example_RPCTypeCheckObj obj [] fAllowNull = None"
| "example_RPCTypeCheckObj obj (t # ts) fAllowNull =
     (let v = find_value obj (fst t)
      in if \<not> fAllowNull \<and> isNull v
         then Some (JSONRPCError RPC_TYPE_ERROR (''Missing '' @ fst t))
         else if \<not> (example_type v = snd t \<or> (fAllowNull \<and> isNull v))
         then Some (JSONRPCError RPC_TYPE_ERROR (''Unexpected type for '' @ fst t))
         else example_RPCTypeCheckObj obj ts fAllowNull)"

definition example_CTxOut_IsNull :: "CTxOut \<Rightarrow> bool" where
  "example_CTxOut_IsNull out \<longleftrightarrow>
     conf_IsNull (nAsset out) \<and> conf_IsNull (nValue out) \<and> conf_IsNull (nNonce out) \<and>
     scriptPubKey out = []"

definition example_util :: "example_dest rpc_util" where
  "example_util =
     \<lparr>ParseInt32 = example_ParseInt 32,
      ParseInt64 = example_ParseInt 64,
      ParseHashO = example_ParseHashO,
      ParseHexV = example_ParseHexV,
      ParseHexO = (\<lambda>obj strKey. example_ParseHexV (find_value obj strKey) strKey),
      IsHex = example_IsHex,
      ParseHex = example_ParseHex,
      AmountFromValue = example_AmountFromValue,
      DecodeDestination =
        (\<lambda>name. if example_IsHex name then ExWitnessV0ScriptHash (example_ParseHex name)
                 else ExNoDestination),
      IsValidDestination = (\<lambda>d. d \<noteq> ExNoDestination),
      IsBlindDestination = (\<lambda>d. case d of ExBlinded k s \<Rightarrow> True | _ \<Rightarrow> False),
      GetDestinationBlindingKey = (\<lambda>d. case d of ExBlinded k s \<Rightarrow> k | _ \<Rightarrow> []),
      push_data = (\<lambda>data. of_nat (length data) # data),
      policyAsset = 1,
      RPCTypeCheckObj = example_RPCTypeCheckObj,
      ScriptToAsmStr = map (\<lambda>b. char_of (unat b)),
      IsSpent = (\<lambda>coin. example_CTxOut_IsNull (coin_out coin))\<rparr>"

text \<open>
  Example requests: an input with no sequence field, one with the sequence \<open>final\<close>, one
  with a sequence beyond \<open>final\<close>, and a peg-in input for the example parent transaction.
\<close>

definition input_plain :: UniValue where
  "input_plain = VOBJ [(''txid'', VSTR ''0a''), (''vout'', VNUM ''0'')]"

definition input_final :: UniValue where
  "input_final = VOBJ [(''txid'', VSTR ''0b''), (''vout'', VNUM ''1''),
                       (''sequence'', VNUM ''4294967295'')]"

definition input_seq5 :: UniValue where
  "input_seq5 = VOBJ [(''txid'', VSTR ''0c''), (''vout'', VNUM ''2''), (''sequence'', VNUM ''5'')]"

definition input_beyond :: UniValue where
  "input_beyond = VOBJ [(''txid'', VSTR ''0b''), (''vout'', VNUM ''1''),
                        (''sequence'', VNUM ''4294967296'')]"

text \<open>An input whose sequence number is 2 to the power 63.\<close>

definition input_huge :: UniValue where
  "input_huge = VOBJ [(''txid'', VSTR ''0b''), (''vout'', VNUM ''1''),
                      (''sequence'', VNUM ''9223372036854775808'')]"

definition input_pegin_B :: UniValue where
  "input_pegin_B = VOBJ [(''txid'', VSTR ''0d''), (''vout'', VNUM ''0''),
                         (''sequence'', VNUM ''5''),
                         (''pegin_bitcoin_tx'', VSTR ''01''),
                         (''pegin_txout_proof'', VSTR ''02''),
                         (''pegin_claim_script'', VSTR ''0002aa02'')]"


definition outputs_fee_zero :: UniValue where
  "outputs_fee_zero = VOBJ [(''aa01'', VNUM ''3''), (''fee'', VNUM ''0''), (''burn'', VNUM ''1'')]"


definition example_used_mtx :: CMutableTransaction where
  "example_used_mtx =
     CMutableTransaction_default
       \<lparr>vin := [CTxIn_new \<lparr>outpoint_hash = 1, outpoint_n = 0\<rparr> [0x51] SEQUENCE_FINAL]\<rparr>"

text \<open>The transaction built from the first three example inputs with lock-time 7.\<close>

definition example_built_tx :: CMutableTransaction where
  "example_built_tx =
     \<lparr>vin =
         [\<lparr>prevout = \<lparr>outpoint_hash = 10, outpoint_n = 0\<rparr>, scriptSig = [],
             nSequence = 4294967294, m_is_pegin = False\<rparr>,
          \<lparr>prevout = \<lparr>outpoint_hash = 11, outpoint_n = 1\<rparr>, scriptSig = [],
             nSequence = 4294967295, m_is_pegin = False\<rparr>,
          \<lparr>prevout = \<lparr>outpoint_hash = 12, outpoint_n = 2\<rparr>, scriptSig = [],
             nSequence = 5, m_is_pegin = False\<rparr>],
      vout =
         [\<lparr>nAsset = ConfExplicit 1, nValue = ConfExplicit 300000000,
             nNonce = ConfNull, scriptPubKey = [0, 2, 170, 1]\<rparr>,
          \<lparr>nAsset = ConfExplicit 1, nValue = ConfExplicit 100000000,
             nNonce = ConfNull, scriptPubKey = [106]\<rparr>],
      vtxinwit = [], nLockTime = 7\<rparr>"

text \<open>The transaction holding the example peg-in input alone.\<close>

definition example_pegin_tx :: CMutableTransaction where
  "example_pegin_tx =
     \<lparr>vin = [\<lparr>prevout = \<lparr>outpoint_hash = 7, outpoint_n = 1\<rparr>, scriptSig = [],
               nSequence = 4294967295, m_is_pegin = True\<rparr>],
      vout = [],
      vtxinwit = [\<lparr>vchIssuanceAmountRangeproof = [], vchInflationKeysRangeproof = [],
                    scriptWitness = [], m_pegin_witness = [[30], [0, 2, 170, 2]]\<rparr>],
      nLockTime = 0\<rparr>"


text \<open>Two previous-output records for one outpoint, with different scripts.\<close>

definition prevout_first :: UniValue where
  "prevout_first = VOBJ [(''txid'', VSTR ''0a''), (''vout'', VNUM ''0''),
                         (''scriptPubKey'', VSTR ''51''), (''amount'', VNUM ''3'')]"

definition prevout_other_script :: UniValue where
  "prevout_other_script = VOBJ [(''txid'', VSTR ''0a''), (''vout'', VNUM ''0''),
                                (''scriptPubKey'', VSTR ''52'')]"

text \<open>
  The example signer leaves the transaction as it is and reports completeness when no
  error is recorded. The example immature transaction holds the example peg-in input
  with a witness that the example verifier rejects only under the depth check.
\<close>

definition example_signer :: "unit signer_env" where
  "example_signer =
     \<lparr>ParseSighashString = (\<lambda>v. if isNull v then Inr 1
          else Inl (JSONRPCError RPC_INVALID_PARAMETER ''not a valid sighash parameter.'')),
      sign = (\<lambda>mtx keystore coins nHashType input_errors. (mtx, input_errors = [], input_errors)),
      EncodeHexTx = (\<lambda>mtx. ''00''),
      HexStr = (\<lambda>bs. []),
      hash_ToString = (\<lambda>h. []),
      CTxOut_ToString = (\<lambda>out. []),
      num_ToString = (\<lambda>k. [])\<rparr>"

definition example_immature_mtx :: CMutableTransaction where
  "example_immature_mtx =
     example_pegin_tx\<lparr>vtxinwit := [CTxInWitness_default\<lparr>m_pegin_witness := [[0], [0, 2, 0xaa, 2]]\<rparr>]\<rparr>"

text \<open>The transaction holding the peg-in input built from \<open>claim_A\<close>.\<close>

definition example_pegin_tx_A :: CMutableTransaction where
  "example_pegin_tx_A =
     \<lparr>vin = [\<lparr>prevout = \<lparr>outpoint_hash = 7, outpoint_n = 2\<rparr>, scriptSig = [],
               nSequence = 4294967295, m_is_pegin = True\<rparr>],
      vout = [],
      vtxinwit = [\<lparr>vchIssuanceAmountRangeproof = [], vchInflationKeysRangeproof = [],
                    scriptWitness = [], m_pegin_witness = [[40], [0, 2, 170, 1]]\<rparr>],
      nLockTime = 0\<rparr>"

section \<open>Notions used in the statements\<close>

text \<open>An input object carries the three peg-in fields.\<close>

definition has_pegin_fields :: "UniValue \<Rightarrow> bool" where
  "has_pegin_fields obj \<longleftrightarrow>
     \<not> isNull (find_value obj ''pegin_bitcoin_tx'') \<and>
     \<not> isNull (find_value obj ''pegin_txout_proof'') \<and>
     \<not> isNull (find_value obj ''pegin_claim_script'')"

text \<open>What one iteration of the input loop leaves at index \<open>idx\<close>.\<close>

definition input_result :: "'dest rpc_util \<Rightarrow> bool \<Rightarrow> bool \<Rightarrow> 32 word \<Rightarrow> UniValue \<Rightarrow> CTxIn \<Rightarrow> bool" where
  "input_result U rbf allow_peg_in lock_time input txin \<longleftrightarrow>
     (if has_pegin_fields input \<and> allow_peg_in
      then nSequence txin = 0xffffffff \<and> m_is_pegin txin
      else input_sequence U rbf lock_time input = Inr (nSequence txin) \<and> \<not> m_is_pegin txin)"







text \<open>The coin that lines 419 to 428 build around a value.\<close>

definition synthetic_coin :: "CScript \<Rightarrow> CAmount confidential \<Rightarrow> Coin" where
  "synthetic_coin spk v =
     \<lparr>coin_out = \<lparr>nAsset = ConfNull, nValue = v, nNonce = ConfNull, scriptPubKey = spk\<rparr>,
      nHeight = 1, fCoinBase = False\<rparr>"

text \<open>The set a caller builds by inserting the scripts of a list, first to last.\<close>

definition std_set_of :: "('a \<Rightarrow> 'a \<Rightarrow> bool) \<Rightarrow> 'a list \<Rightarrow> 'a list" where
  "std_set_of lt xs = foldl (\<lambda>s x. std_set_insert lt x s) [] xs"

text \<open>A strict total order, as \<^verbatim>\<open>std::set\<close> requires of its comparison.\<close>

definition strict_total_order :: "('a \<Rightarrow> 'a \<Rightarrow> bool) \<Rightarrow> bool" where
  "strict_total_order lt \<longleftrightarrow>
     (\<forall>a. \<not> lt a a) \<and> (\<forall>a b c. lt a b \<longrightarrow> lt b c \<longrightarrow> lt a c) \<and> (\<forall>a b. a \<noteq> b \<longrightarrow> lt a b \<or> lt b a)"

section \<open>Properties of the claim matcher\<close>

lemma scan_vout_None: "ms \<notin> set xs \<Longrightarrow> scan_vout ms xs k = None"
  by (induction xs arbitrary: k) auto

lemma scan_vout_first:
  "ms \<notin> set opre \<Longrightarrow> scan_vout ms (opre @ ms # opost) k = Some (k + length opre)"
  by (induction opre arbitrary: k) auto

text \<open>
  C2. For each federation configuration \<open>scripts\<close>, in list order, the claim matcher looks
  for the destination script written out in the hypothesis: the script of the version-0
  witness-script-hash destination of the contract of the configuration's second script
  with the claim script, and, when the configuration's first script is
  pay-to-script-hash, the script of the script-hash destination of that script instead.
  If no configuration's destination script occurs among the outputs, the result is the
  output count. Otherwise, for the first configuration in list order whose destination
  script occurs among the outputs, the result is the index of the first output carrying
  that script, whatever later configurations and later outputs hold.
\<close>

theorem GetPeginTxnOutputIndex_first_match:
  assumes expected: "\<And>scripts. expected scripts =
      (if IsPayToScriptHash E (fst scripts)
       then GetScriptForDestination E
              (ScriptHash E
                 (GetScriptForDestination E
                    (WitnessV0ScriptHash E (calculate_contract E (snd scripts) wp))))
       else GetScriptForDestination E
              (WitnessV0ScriptHash E (calculate_contract E (snd scripts) wp)))"
  shows "((\<forall>cfg\<in>set fps. expected cfg \<notin> set txn_vout) \<longrightarrow>
            GetPeginTxnOutputIndex E txn_vout wp fps = length txn_vout) \<and>
         (\<forall>pre cfg post opre opost.
            fps = pre @ cfg # post \<and>
            (\<forall>c\<in>set pre. expected c \<notin> set txn_vout) \<and>
            txn_vout = opre @ expected cfg # opost \<and>
            expected cfg \<notin> set opre \<longrightarrow>
            GetPeginTxnOutputIndex E txn_vout wp fps = length opre \<and>
            length opre < length txn_vout \<and>
            txn_vout ! GetPeginTxnOutputIndex E txn_vout wp fps = expected cfg)"
proof -
  have step: "GetPeginTxnOutputIndex E txn_vout wp (scripts # rest) =
      (case scan_vout (expected scripts) txn_vout 0 of
         Some nOut \<Rightarrow> nOut
       | None \<Rightarrow> GetPeginTxnOutputIndex E txn_vout wp rest)" for scripts rest
    by (simp add: Let_def expected)
  have no_match: "GetPeginTxnOutputIndex E txn_vout wp cs = length txn_vout"
    if "\<forall>cfg\<in>set cs. expected cfg \<notin> set txn_vout" for cs
    using that
  proof (induction cs)
    case Nil
    show ?case by simp
  next
    case (Cons c cs)
    from Cons.prems have "scan_vout (expected c) txn_vout 0 = None"
      by (simp add: scan_vout_None)
    with Cons show ?case by (simp only: step) simp
  qed
  have skip: "GetPeginTxnOutputIndex E txn_vout wp (pre @ rest) =
      GetPeginTxnOutputIndex E txn_vout wp rest"
    if "\<forall>c\<in>set pre. expected c \<notin> set txn_vout" for pre rest
    using that
  proof (induction pre)
    case Nil
    show ?case by simp
  next
    case (Cons c pre)
    from Cons.prems have "scan_vout (expected c) txn_vout 0 = None"
      by (simp add: scan_vout_None)
    with Cons show ?case by (simp only: step append_Cons) simp
  qed
  show ?thesis
  proof (intro conjI allI impI)
    assume "\<forall>cfg\<in>set fps. expected cfg \<notin> set txn_vout"
    then show "GetPeginTxnOutputIndex E txn_vout wp fps = length txn_vout"
      by (rule no_match)
  next
    fix pre cfg post opre opost
    assume a: "fps = pre @ cfg # post \<and>
        (\<forall>c\<in>set pre. expected c \<notin> set txn_vout) \<and>
        txn_vout = opre @ expected cfg # opost \<and>
        expected cfg \<notin> set opre"
    from a have fps: "fps = pre @ cfg # post"
      and pre: "\<forall>c\<in>set pre. expected c \<notin> set txn_vout" by blast+
    have sk: "GetPeginTxnOutputIndex E txn_vout wp fps =
        GetPeginTxnOutputIndex E txn_vout wp (cfg # post)"
      unfolding fps by (rule skip [OF pre])
    from a have "scan_vout (expected cfg) txn_vout 0 = Some (length opre)"
      using scan_vout_first [of "expected cfg" opre opost 0] by simp
    with sk show r: "GetPeginTxnOutputIndex E txn_vout wp fps = length opre"
      by (simp only: step) simp
    from a show "length opre < length txn_vout" by simp
    from a r show "txn_vout ! GetPeginTxnOutputIndex E txn_vout wp fps = expected cfg"
      by simp
  qed
qed

lemmas example_defs =
  example_env_def example_ops_def example_fedpegscripts_def example_script_for_def
  example_IsWitnessProgram_def example_IsValidPeginWitness_def example_parent_tx_def
  example_merkle_block_def example_decode_merkle_block_def claim_A_def claim_B_def
  Let_def

lemma example_vout:
  "map fst (ex_vout example_parent_tx) =
     [[0x76], [0, 5, 0x52, 0, 2, 0xaa, 2], [0xa9, 7, 0, 5, 0x51, 0, 2, 0xaa, 1, 0x87]]"
  by (simp add: example_defs)

theorem GetPeginTxnOutputIndex_first_match_witness:
  "IsPayToScriptHash example_env (fst (example_fedpegscripts ! 0)) \<and>
   \<not> IsPayToScriptHash example_env (fst (example_fedpegscripts ! 1)) \<and>
   GetScriptForDestination example_env
     (ScriptHash example_env
        (GetScriptForDestination example_env
           (WitnessV0ScriptHash example_env
              (calculate_contract example_env (snd (example_fedpegscripts ! 0)) claim_A)))) =
     [0xa9, 7, 0, 5, 0x51, 0, 2, 0xaa, 1, 0x87] \<and>
   GetScriptForDestination example_env
     (WitnessV0ScriptHash example_env
        (calculate_contract example_env (snd (example_fedpegscripts ! 1)) claim_B)) =
     [0, 5, 0x52, 0, 2, 0xaa, 2] \<and>
   map fst (ex_vout example_parent_tx) =
     [[0x76], [0, 5, 0x52, 0, 2, 0xaa, 2], [0xa9, 7, 0, 5, 0x51, 0, 2, 0xaa, 1, 0x87]] \<and>
   GetPeginTxnOutputIndex example_env (map fst (ex_vout example_parent_tx)) claim_A
     example_fedpegscripts = 2 \<and>
   GetPeginTxnOutputIndex example_env (map fst (ex_vout example_parent_tx)) claim_B
     example_fedpegscripts = 1 \<and>
   GetPeginTxnOutputIndex example_env (map fst (ex_vout example_parent_tx)) [0, 1, 2, 3]
     example_fedpegscripts = 3"
proof -
  let ?vout = "map fst (ex_vout example_parent_tx)"
  let ?cfg0 = "([0xa9, 1, 0x11, 0x87], [0x51]) :: CScript \<times> CScript"
  let ?cfg1 = "([0x00, 1, 0x22], [0x52]) :: CScript \<times> CScript"
  define expected where "expected = (\<lambda>wp scripts.
      if IsPayToScriptHash example_env (fst scripts)
      then GetScriptForDestination example_env
             (ScriptHash example_env
                (GetScriptForDestination example_env
                   (WitnessV0ScriptHash example_env
                      (calculate_contract example_env (snd scripts) wp))))
      else GetScriptForDestination example_env
             (WitnessV0ScriptHash example_env
                (calculate_contract example_env (snd scripts) wp)))"
  have h: "expected wp scripts =
      (if IsPayToScriptHash example_env (fst scripts)
       then GetScriptForDestination example_env
              (ScriptHash example_env
                 (GetScriptForDestination example_env
                    (WitnessV0ScriptHash example_env
                       (calculate_contract example_env (snd scripts) wp))))
       else GetScriptForDestination example_env
              (WitnessV0ScriptHash example_env
                 (calculate_contract example_env (snd scripts) wp)))" for wp scripts
    by (simp add: expected_def)
  have fpsA: "example_fedpegscripts = [] @ ?cfg0 # [?cfg1]"
    by (simp add: example_fedpegscripts_def)
  have fpsB: "example_fedpegscripts = [?cfg0] @ ?cfg1 # []"
    by (simp add: example_fedpegscripts_def)
  have eA: "expected claim_A ?cfg0 = [0xa9, 7, 0, 5, 0x51, 0, 2, 0xaa, 1, 0x87]"
    by (simp add: h example_defs)
  have eB: "expected claim_B ?cfg1 = [0, 5, 0x52, 0, 2, 0xaa, 2]"
    by (simp add: h example_defs)
  have eB0: "expected claim_B ?cfg0 = [0xa9, 7, 0, 5, 0x51, 0, 2, 0xaa, 2, 0x87]"
    by (simp add: h example_defs)
  have eN0: "expected [0, 1, 2, 3] ?cfg0 = [0xa9, 7, 0, 5, 0x51, 0, 1, 2, 3, 0x87]"
    by (simp add: h example_defs)
  have eN1: "expected [0, 1, 2, 3] ?cfg1 = [0, 5, 0x52, 0, 1, 2, 3]"
    by (simp add: h example_defs)
  have pA: "example_fedpegscripts = [] @ ?cfg0 # [?cfg1] \<and>
      (\<forall>c\<in>set []. expected claim_A c \<notin> set ?vout) \<and>
      ?vout = [[0x76], [0, 5, 0x52, 0, 2, 0xaa, 2]] @ expected claim_A ?cfg0 # [] \<and>
      expected claim_A ?cfg0 \<notin> set [[0x76], [0, 5, 0x52, 0, 2, 0xaa, 2]]"
    using fpsA by (simp only: eA example_vout) simp
  have pB: "example_fedpegscripts = [?cfg0] @ ?cfg1 # [] \<and>
      (\<forall>c\<in>set [?cfg0]. expected claim_B c \<notin> set ?vout) \<and>
      ?vout = [[0x76]] @ expected claim_B ?cfg1 #
                [[0xa9, 7, 0, 5, 0x51, 0, 2, 0xaa, 1, 0x87]] \<and>
      expected claim_B ?cfg1 \<notin> set [[0x76]]"
    using fpsB by (simp only: eB eB0 example_vout list.set ball_simps) simp
  have pN: "\<forall>cfg\<in>set example_fedpegscripts. expected [0, 1, 2, 3] cfg \<notin> set ?vout"
    by (simp only: example_fedpegscripts_def example_vout list.set ball_simps eN0 eN1) simp
  have c1: "IsPayToScriptHash example_env (fst (example_fedpegscripts ! 0)) \<and>
      \<not> IsPayToScriptHash example_env (fst (example_fedpegscripts ! 1))"
    by (simp add: example_defs)
  have c2: "GetScriptForDestination example_env
     (ScriptHash example_env
        (GetScriptForDestination example_env
           (WitnessV0ScriptHash example_env
              (calculate_contract example_env (snd (example_fedpegscripts ! 0)) claim_A)))) =
     [0xa9, 7, 0, 5, 0x51, 0, 2, 0xaa, 1, 0x87] \<and>
   GetScriptForDestination example_env
     (WitnessV0ScriptHash example_env
        (calculate_contract example_env (snd (example_fedpegscripts ! 1)) claim_B)) =
     [0, 5, 0x52, 0, 2, 0xaa, 2]"
    by (simp add: example_defs)
  note tA = GetPeginTxnOutputIndex_first_match
      [where expected = "expected claim_A" and E = example_env and wp = claim_A
         and fps = example_fedpegscripts and txn_vout = ?vout, OF h]
  note tB = GetPeginTxnOutputIndex_first_match
      [where expected = "expected claim_B" and E = example_env and wp = claim_B
         and fps = example_fedpegscripts and txn_vout = ?vout, OF h]
  note tN = GetPeginTxnOutputIndex_first_match
      [where expected = "expected [0, 1, 2, 3]" and E = example_env and wp = "[0, 1, 2, 3]"
         and fps = example_fedpegscripts and txn_vout = ?vout, OF h]
  from tA [THEN conjunct2, rule_format, OF pA]
  have rA: "GetPeginTxnOutputIndex example_env ?vout claim_A example_fedpegscripts = 2"
    by simp
  from tB [THEN conjunct2, rule_format, OF pB]
  have rB: "GetPeginTxnOutputIndex example_env ?vout claim_B example_fedpegscripts = 1"
    by simp
  from tN [THEN conjunct1, THEN mp, OF pN]
  have rN: "GetPeginTxnOutputIndex example_env ?vout [0, 1, 2, 3] example_fedpegscripts = 3"
    by (simp add: example_vout)
  from c1 c2 rA rB rN show ?thesis by (simp only: example_vout) simp
qed

section \<open>Properties of the peg-in input builder\<close>

text \<open>
  C4. If the input at \<open>input_idx\<close> exists and has a non-empty \<open>scriptSig\<close>, or the witness
  slot at \<open>input_idx\<close> exists and is not null, \<open>CreatePegInInput\<close> throws the
  invalid-parameter error of the reuse guard, whatever the two buffers hold (nothing is
  decoded), and the transaction is returned as it was.
\<close>

theorem CreatePegInInput_rejects_used_input:
  "(unat input_idx < length (vin mtx) \<and> scriptSig (vin mtx ! unat input_idx) \<noteq> []) \<or>
   (unat input_idx < length (vtxinwit mtx) \<and>
    \<not> CTxInWitness_IsNull (vtxinwit mtx ! unat input_idx)) \<Longrightarrow>
   CreatePegInInput E P mtx input_idx claim_scripts txData txOutProofData =
     (mtx, Inl (JSONRPCError RPC_INVALID_PARAMETER
        ''Attempting to add a peg-in to an input that already has a scriptSig or witness''))"
  unfolding CreatePegInInput_def CreatePegInInputInner_def err_already_used_def
  by (simp only: if_P)

theorem CreatePegInInput_rejects_used_input_witness:
  "CreatePegInInput example_env example_ops example_used_mtx 0 [claim_B] [1] [2] =
     (example_used_mtx, Inl (JSONRPCError RPC_INVALID_PARAMETER
        ''Attempting to add a peg-in to an input that already has a scriptSig or witness'')) \<and>
   CreatePegInInput example_env example_ops example_used_mtx 0 [claim_B] [] [] =
     (example_used_mtx, Inl (JSONRPCError RPC_INVALID_PARAMETER
        ''Attempting to add a peg-in to an input that already has a scriptSig or witness''))"
proof -
  have h: "(unat (0 :: 32 word) < length (vin example_used_mtx) \<and>
            scriptSig (vin example_used_mtx ! unat (0 :: 32 word)) \<noteq> []) \<or>
           (unat (0 :: 32 word) < length (vtxinwit example_used_mtx) \<and>
            \<not> CTxInWitness_IsNull (vtxinwit example_used_mtx ! unat (0 :: 32 word)))"
    by (simp add: example_used_mtx_def CMutableTransaction_default_def CTxIn_new_def)
  show ?thesis
    using CreatePegInInput_rejects_used_input [OF h, of example_env example_ops "[claim_B]" "[1]" "[2]"]
      CreatePegInInput_rejects_used_input [OF h, of example_env example_ops "[claim_B]" "[]" "[]"]
    by simp
qed

text \<open>
  C1. Whenever the proof buffer does not decode, or decodes leaving bytes in the stream,
  or the root computed from the matches differs from the header's Merkle root, or the
  number of matched hashes is not one, or the parent transaction does not decode or its
  hash differs from the single matched hash, \<open>CreatePegInInput\<close> throws (one of the five
  errors raised up to that point) and returns the transaction unmodified.
\<close>

theorem CreatePegInInput_bad_proof:
  assumes "case decode_merkle_block P txOutProofData of
             None \<Rightarrow> True
           | Some (merkleBlock, rest) \<Rightarrow>
               rest \<noteq> [] \<or>
               fst (ExtractMatches P merkleBlock) \<noteq> hashMerkleRoot P merkleBlock \<or>
               length (snd (ExtractMatches P merkleBlock)) \<noteq> 1 \<or>
               (case decode_tx P txData of
                  None \<Rightarrow> True
                | Some tx \<Rightarrow> snd (ExtractMatches P merkleBlock) ! 0 \<noteq> GetHash P tx)"
  shows "CreatePegInInput E P mtx input_idx claim_scripts txData txOutProofData \<in>
           {(mtx, Inl err_already_used), (mtx, Inl err_tx_malformed),
            (mtx, Inl err_proof_malformed), (mtx, Inl err_invalid_proof),
            (mtx, Inl err_proof_not_tx)}"
  using assms
  unfolding CreatePegInInput_def CreatePegInInputInner_def
  by (auto split: option.splits prod.splits)

lemma example_decode_tx: "decode_tx example_ops [1] = Some example_parent_tx"
  by (simp add: example_ops_def)

lemma example_decode_mb:
  "decode_merkle_block example_ops [2] = Some (example_merkle_block, [])"
  "decode_merkle_block example_ops [2, 0] = Some (example_merkle_block, [0])"
  "decode_merkle_block example_ops [3] = Some (example_merkle_block\<lparr>ex_computed_root := 8\<rparr>, [])"
  "decode_merkle_block example_ops [4] = Some (example_merkle_block\<lparr>ex_matches := [7, 6]\<rparr>, [])"
  by (simp_all add: example_ops_def example_decode_merkle_block_def)

lemma example_guard_default:
  "\<not> ((length (vin CMutableTransaction_default) > unat (i :: 32 word) \<and>
        scriptSig (vin CMutableTransaction_default ! unat i) \<noteq> []) \<or>
       (length (vtxinwit CMutableTransaction_default) > unat i \<and>
        \<not> CTxInWitness_IsNull (vtxinwit CMutableTransaction_default ! unat i)))"
  by (simp add: CMutableTransaction_default_def)

theorem CreatePegInInput_bad_proof_witness:
  "CreatePegInInput example_env example_ops CMutableTransaction_default 0 [claim_B] [1] [2, 0] =
     (CMutableTransaction_default, Inl err_invalid_proof) \<and>
   CreatePegInInput example_env example_ops CMutableTransaction_default 0 [claim_B] [1] [3] =
     (CMutableTransaction_default, Inl err_invalid_proof) \<and>
   CreatePegInInput example_env example_ops CMutableTransaction_default 0 [claim_B] [1] [4] =
     (CMutableTransaction_default, Inl err_proof_not_tx) \<and>
   CreatePegInInput example_env example_ops CMutableTransaction_default 0 [claim_B] [1] [] =
     (CMutableTransaction_default, Inl err_proof_malformed)"
proof -
  let ?run = "CreatePegInInput example_env example_ops CMutableTransaction_default 0 [claim_B] [1]"
  let ?bad = "\<lambda>d. case decode_merkle_block example_ops d of
             None \<Rightarrow> True
           | Some (merkleBlock, rest) \<Rightarrow>
               rest \<noteq> [] \<or>
               fst (ExtractMatches example_ops merkleBlock) \<noteq> hashMerkleRoot example_ops merkleBlock \<or>
               length (snd (ExtractMatches example_ops merkleBlock)) \<noteq> 1 \<or>
               (case decode_tx example_ops [1] of
                  None \<Rightarrow> True
                | Some tx \<Rightarrow> snd (ExtractMatches example_ops merkleBlock) ! 0 \<noteq> GetHash example_ops tx)"
  have h2: "?bad [2, 0]" by (simp add: example_decode_mb)
  have h3: "?bad [3]" by (simp add: example_decode_mb) (simp add: example_ops_def example_merkle_block_def)
  have h4: "?bad [4]" by (simp add: example_decode_mb) (simp add: example_ops_def example_merkle_block_def)
  have h0: "?bad []" by (simp add: example_ops_def example_decode_merkle_block_def)
  have e2: "?run [2, 0] = (CMutableTransaction_default, Inl err_invalid_proof)"
    unfolding CreatePegInInput_def CreatePegInInputInner_def
    by (simp only: example_guard_default if_False example_decode_tx example_decode_mb option.case prod.case) simp
  have e3: "?run [3] = (CMutableTransaction_default, Inl err_invalid_proof)"
    unfolding CreatePegInInput_def CreatePegInInputInner_def
    by (simp only: example_guard_default if_False example_decode_tx example_decode_mb option.case prod.case)
       (simp add: example_ops_def example_merkle_block_def)
  have e4: "?run [4] = (CMutableTransaction_default, Inl err_proof_not_tx)"
    unfolding CreatePegInInput_def CreatePegInInputInner_def
    by (simp only: example_guard_default if_False example_decode_tx example_decode_mb option.case prod.case)
       (simp add: example_ops_def example_merkle_block_def)
  have e0: "?run [] = (CMutableTransaction_default, Inl err_proof_malformed)"
    unfolding CreatePegInInput_def CreatePegInInputInner_def
    by (simp only: example_guard_default if_False example_decode_tx option.case prod.case)
       (simp add: example_ops_def example_decode_merkle_block_def)
  show ?thesis
    using CreatePegInInput_bad_proof [OF h2, of example_env CMutableTransaction_default 0 "[claim_B]"]
      CreatePegInInput_bad_proof [OF h3, of example_env CMutableTransaction_default 0 "[claim_B]"]
      CreatePegInInput_bad_proof [OF h4, of example_env CMutableTransaction_default 0 "[claim_B]"]
      CreatePegInInput_bad_proof [OF h0, of example_env CMutableTransaction_default 0 "[claim_B]"]
      e2 e3 e4 e0
    by simp
qed

lemma install_pegin_input_Inr:
  assumes "install_pegin_input E P mtx input_idx tx mb h nOut ws val = (mtx', Inr r)"
  shows "unat input_idx < length (vin mtx')"
    and "vin mtx' ! unat input_idx =
           \<lparr>prevout = \<lparr>outpoint_hash = h, outpoint_n = of_nat nOut\<rparr>, scriptSig = [],
            nSequence = 0xffffffff, m_is_pegin = True\<rparr>"
    and "vout mtx' = vout mtx" and "nLockTime mtx' = nLockTime mtx"
    and "unat input_idx < length (vin mtx) \<Longrightarrow>
           vin mtx' = (vin mtx)[unat input_idx := vin mtx' ! unat input_idx]"
    and "unat input_idx < length (vtxinwit mtx')"
    and "vtxinwit mtx' ! unat input_idx =
           CTxInWitness_default\<lparr>m_pegin_witness := CreatePeginWitness P val ws tx mb\<rparr>"
    and "r = (tx, mb)"
  using assms
  unfolding install_pegin_input_def Let_def CTxIn_new_def
  by (auto split: if_splits option.splits)


lemma CreatePegInInput_Inr:
  assumes "CreatePegInInput E P mtx input_idx claim_scripts txData txOutProofData = (mtx', Inr r)"
  shows "unat input_idx < length (vin mtx')"
    and "nSequence (vin mtx' ! unat input_idx) = 0xffffffff"
    and "m_is_pegin (vin mtx' ! unat input_idx)"
    and "vout mtx' = vout mtx" and "nLockTime mtx' = nLockTime mtx"
    and "unat input_idx < length (vin mtx) \<Longrightarrow>
           vin mtx' = (vin mtx)[unat input_idx := vin mtx' ! unat input_idx]"
proof -
  from assms obtain tx mb h nOut ws val where
    i: "install_pegin_input E P mtx input_idx tx mb h nOut ws val = (mtx', Inr r)"
    unfolding CreatePegInInput_def CreatePegInInputInner_def
    by (auto split: if_splits option.splits prod.splits)
  note f = install_pegin_input_Inr [OF i]
  show "unat input_idx < length (vin mtx')" by (rule f(1))
  show "nSequence (vin mtx' ! unat input_idx) = 0xffffffff" by (simp add: f(2))
  show "m_is_pegin (vin mtx' ! unat input_idx)" by (simp add: f(2))
  show "vout mtx' = vout mtx" by (rule f(3))
  show "nLockTime mtx' = nLockTime mtx" by (rule f(4))
  show "unat input_idx < length (vin mtx) \<Longrightarrow>
           vin mtx' = (vin mtx)[unat input_idx := vin mtx' ! unat input_idx]" by (rule f(5))
qed

section \<open>Properties of the transaction constructor\<close>

lemma pegin_call_Inr:
  assumes "pegin_call E P rawTx idx claim_scripts txData txOutProofData = Inr rawTx'"
    and "idx < length (vin rawTx)" and "idx < 2 ^ 32"
  shows "vin rawTx' = (vin rawTx)[idx := vin rawTx' ! idx]"
    and "nSequence (vin rawTx' ! idx) = 0xffffffff"
    and "m_is_pegin (vin rawTx' ! idx)"
    and "vout rawTx' = vout rawTx" and "nLockTime rawTx' = nLockTime rawTx"
proof -
  have u: "unat (of_nat idx :: 32 word) = idx"
    using assms(3) by (simp add: unat_of_nat)
  from assms(1) obtain r where
    c: "CreatePegInInput E P rawTx (of_nat idx) claim_scripts txData txOutProofData = (rawTx', Inr r)"
    unfolding pegin_call_def by (auto split: prod.splits sum.splits if_splits)
  note f = CreatePegInInput_Inr [OF c, unfolded u]
  show "vin rawTx' = (vin rawTx)[idx := vin rawTx' ! idx]" using f(6) assms(2) by simp
  show "nSequence (vin rawTx' ! idx) = 0xffffffff" by (rule f(2))
  show "m_is_pegin (vin rawTx' ! idx)" by (rule f(3))
  show "vout rawTx' = vout rawTx" by (rule f(4))
  show "nLockTime rawTx' = nLockTime rawTx" by (rule f(5))
qed

lemma input_pegin_cases:
  assumes "input_pegin U E Pb Pe allow_peg_in rawTx idx obj = Inr rawTx'"
  shows "(\<not> (has_pegin_fields obj \<and> allow_peg_in) \<and> rawTx' = rawTx) \<or>
         (has_pegin_fields obj \<and> allow_peg_in \<and>
          ((\<exists>cs a b. pegin_call E Pb rawTx idx cs a b = Inr rawTx') \<or>
           (\<exists>cs a b. pegin_call E Pe rawTx idx cs a b = Inr rawTx')))"
  using assms unfolding input_pegin_def has_pegin_fields_def Let_def
  by (auto split: if_splits sum.splits)

lemma input_pegin_Inr:
  assumes "input_pegin U E Pb Pe allow_peg_in rawTx idx obj = Inr rawTx'"
    and "idx < length (vin rawTx)" and "idx < 2 ^ 32"
  shows "vout rawTx' = vout rawTx" and "nLockTime rawTx' = nLockTime rawTx"
    and "has_pegin_fields obj \<and> allow_peg_in \<Longrightarrow>
           vin rawTx' = (vin rawTx)[idx := vin rawTx' ! idx] \<and>
           nSequence (vin rawTx' ! idx) = 0xffffffff \<and> m_is_pegin (vin rawTx' ! idx)"
    and "\<not> (has_pegin_fields obj \<and> allow_peg_in) \<Longrightarrow> rawTx' = rawTx"
proof -
  from input_pegin_cases [OF assms(1)]
  consider (plain) "\<not> (has_pegin_fields obj \<and> allow_peg_in)" "rawTx' = rawTx"
    | (btc) cs a b where "has_pegin_fields obj \<and> allow_peg_in"
        "pegin_call E Pb rawTx idx cs a b = Inr rawTx'"
    | (elem) cs a b where "has_pegin_fields obj \<and> allow_peg_in"
        "pegin_call E Pe rawTx idx cs a b = Inr rawTx'"
    by blast
  then have "vout rawTx' = vout rawTx \<and> nLockTime rawTx' = nLockTime rawTx \<and>
    (has_pegin_fields obj \<and> allow_peg_in \<longrightarrow>
           vin rawTx' = (vin rawTx)[idx := vin rawTx' ! idx] \<and>
           nSequence (vin rawTx' ! idx) = 0xffffffff \<and> m_is_pegin (vin rawTx' ! idx)) \<and>
    (\<not> (has_pegin_fields obj \<and> allow_peg_in) \<longrightarrow> rawTx' = rawTx)"
  proof cases
    case plain
    then show ?thesis by blast
  next
    case btc
    from pegin_call_Inr [OF btc(2) assms(2,3)] btc(1) show ?thesis by simp
  next
    case elem
    from pegin_call_Inr [OF elem(2) assms(2,3)] elem(1) show ?thesis by simp
  qed
  then show "vout rawTx' = vout rawTx" and "nLockTime rawTx' = nLockTime rawTx"
    and "has_pegin_fields obj \<and> allow_peg_in \<Longrightarrow>
           vin rawTx' = (vin rawTx)[idx := vin rawTx' ! idx] \<and>
           nSequence (vin rawTx' ! idx) = 0xffffffff \<and> m_is_pegin (vin rawTx' ! idx)"
    and "\<not> (has_pegin_fields obj \<and> allow_peg_in) \<Longrightarrow> rawTx' = rawTx"
    by blast+
qed

lemma ConstructTransaction_input_Inr:
  assumes "ConstructTransaction_input U E Pb Pe rbf allow_peg_in rawTx idx input = Inr rawTx'"
    and "length (vin rawTx) = idx" and "idx < 2 ^ 32"
  shows "vout rawTx' = vout rawTx" and "nLockTime rawTx' = nLockTime rawTx"
    and "length (vin rawTx') = Suc idx"
    and "take idx (vin rawTx') = vin rawTx"
    and "input_result U rbf allow_peg_in (nLockTime rawTx) input (vin rawTx' ! idx)"
proof -
  from assms(1) obtain obj txid nOutput sq where
    o: "get_obj input = Inr obj" and
    s: "input_sequence U rbf (nLockTime rawTx) obj = Inr sq" and
    p: "input_pegin U E Pb Pe allow_peg_in
          (rawTx\<lparr>vin := vin rawTx @
             [CTxIn_new \<lparr>outpoint_hash = txid, outpoint_n = word_of_int nOutput\<rparr> [] sq]\<rparr>)
          idx obj = Inr rawTx'"
    unfolding ConstructTransaction_input_def
    by (auto split: sum.splits if_splits)
  from o have io: "obj = input" by (auto simp: get_obj_def split: UniValue.splits)
  let ?r = "rawTx\<lparr>vin := vin rawTx @
             [CTxIn_new \<lparr>outpoint_hash = txid, outpoint_n = word_of_int nOutput\<rparr> [] sq]\<rparr>"
  have l: "idx < length (vin ?r)" using assms(2) by simp
  note f = input_pegin_Inr [OF p l assms(3)]
  show "vout rawTx' = vout rawTx" using f(1) by simp
  show "nLockTime rawTx' = nLockTime rawTx" using f(2) by simp
  show "length (vin rawTx') = Suc idx"
  proof (cases "has_pegin_fields obj \<and> allow_peg_in")
    case True
    from f(3) [OF True] have "length (vin rawTx') = length (vin ?r)"
      by (metis length_list_update)
    then show ?thesis using assms(2) by simp
  next
    case False
    from f(4) [OF False] show ?thesis using assms(2) by simp
  qed
  show "take idx (vin rawTx') = vin rawTx"
  proof (cases "has_pegin_fields obj \<and> allow_peg_in")
    case True
    from f(3) [OF True] have "take idx (vin rawTx') = take idx (vin ?r)"
      by (metis order_refl take_update_cancel)
    then show ?thesis using assms(2) by simp
  next
    case False
    from f(4) [OF False] show ?thesis using assms(2) by simp
  qed
  show "input_result U rbf allow_peg_in (nLockTime rawTx) input (vin rawTx' ! idx)"
  proof (cases "has_pegin_fields obj \<and> allow_peg_in")
    case True
    from f(3) [OF True] True show ?thesis by (simp add: input_result_def io)
  next
    case False
    from f(4) [OF False] False s assms(2) show ?thesis
      by (auto simp: input_result_def io CTxIn_new_def nth_append)
  qed
qed

lemma ConstructTransaction_inputs_Inr:
  assumes "ConstructTransaction_inputs U E Pb Pe rbf allow_peg_in rawTx idx inputs = Inr rawTx'"
    and "length (vin rawTx) = idx" and "idx + length inputs \<le> 2 ^ 32"
  shows "vout rawTx' = vout rawTx \<and> nLockTime rawTx' = nLockTime rawTx \<and>
         length (vin rawTx') = idx + length inputs \<and>
         take idx (vin rawTx') = vin rawTx \<and>
         (\<forall>k < length inputs.
            input_result U rbf allow_peg_in (nLockTime rawTx) (inputs ! k) (vin rawTx' ! (idx + k)))"
  using assms
proof (induction inputs arbitrary: rawTx idx)
  case Nil
  then show ?case by simp
next
  case (Cons input rest)
  from Cons.prems(1) obtain r1 where
    s1: "ConstructTransaction_input U E Pb Pe rbf allow_peg_in rawTx idx input = Inr r1" and
    s2: "ConstructTransaction_inputs U E Pb Pe rbf allow_peg_in r1 (Suc idx) rest = Inr rawTx'"
    by (auto split: sum.splits)
  from Cons.prems(3) have i: "idx < 2 ^ 32" by simp
  note f = ConstructTransaction_input_Inr [OF s1 Cons.prems(2) i]
  from Cons.prems(3) have b: "Suc idx + length rest \<le> 2 ^ 32" by simp
  note ih = Cons.IH [OF s2 f(3) b]
  from ih have t: "take (Suc idx) (vin rawTx') = vin r1" by simp
  have t0: "take idx (vin rawTx') = vin rawTx"
  proof -
    have "take idx (vin rawTx') = take idx (take (Suc idx) (vin rawTx'))" by simp
    also have "\<dots> = take idx (vin r1)" by (simp only: t)
    also have "\<dots> = vin rawTx" by (rule f(4))
    finally show ?thesis .
  qed
  have at: "vin rawTx' ! idx = vin r1 ! idx"
  proof -
    have "vin r1 ! idx = take (Suc idx) (vin rawTx') ! idx" by (simp only: t)
    then show ?thesis by simp
  qed
  have "\<forall>k < length (input # rest).
      input_result U rbf allow_peg_in (nLockTime rawTx) ((input # rest) ! k) (vin rawTx' ! (idx + k))"
  proof (intro allI impI)
    fix k assume k: "k < length (input # rest)"
    show "input_result U rbf allow_peg_in (nLockTime rawTx) ((input # rest) ! k) (vin rawTx' ! (idx + k))"
    proof (cases k)
      case 0
      with f(5) at show ?thesis by simp
    next
      case (Suc j)
      with k ih f(2) show ?thesis by simp
    qed
  qed
  with ih f t0 show ?case by simp
qed

lemma parse_inputs_values:
  "parse_inputs inputs_in = Inr inputs \<Longrightarrow> uv_values inputs = uv_values inputs_in"
  by (auto simp: parse_inputs_def get_array_def isNull_def uv_values_def
      split: if_splits UniValue.splits)

lemma ConstructTransaction_build_Inr:
  assumes "snd (ConstructTransaction_build U E Pb Pe inputs_in outputs_in locktime rbf assets_in
                  output_pubkeys_out allow_peg_in) = Inr tx"
  shows "\<exists>lock_time rawTx.
           parse_locktime U locktime = Inr lock_time \<and>
           ConstructTransaction_inputs U E Pb Pe rbf allow_peg_in
             (CMutableTransaction_default\<lparr>nLockTime := lock_time\<rparr>) 0 (uv_values inputs_in) =
             Inr rawTx \<and>
           vin tx = vin rawTx \<and> nLockTime tx = nLockTime rawTx \<and> vtxinwit tx = vtxinwit rawTx"
  using assms
  unfolding ConstructTransaction_build_def
  by (auto split: if_splits sum.splits prod.splits option.splits dest: parse_inputs_values)

lemma ConstructTransaction_Inr:
  assumes "snd (ConstructTransaction U E Pb Pe inputs_in outputs_in locktime rbf assets_in
                  output_pubkeys_out allow_peg_in) = Inr tx"
  shows "snd (ConstructTransaction_build U E Pb Pe inputs_in outputs_in locktime rbf assets_in
                  output_pubkeys_out allow_peg_in) = Inr tx"
    and "\<not> (rbf \<and> length (vin tx) > 0 \<and> \<not> SignalsOptInRBF (vin tx))"
  using assms
  unfolding ConstructTransaction_def
  by (auto split: if_splits sum.splits prod.splits)

lemma SignalsOptInRBF_iff:
  "SignalsOptInRBF txins \<longleftrightarrow> (\<exists>txin\<in>set txins. nSequence txin \<le> MAX_BIP125_RBF_SEQUENCE)"
  by (induction txins) auto

lemma ConstructTransaction_build_vin:
  assumes "snd (ConstructTransaction_build U E Pb Pe inputs_in outputs_in locktime rbf assets_in
                  output_pubkeys_out allow_peg_in) = Inr tx"
    and "length (uv_values inputs_in) \<le> 2 ^ 32"
  shows "length (vin tx) = length (uv_values inputs_in)"
    and "\<forall>k < length (uv_values inputs_in).
           input_result U rbf allow_peg_in (nLockTime tx) (uv_values inputs_in ! k) (vin tx ! k)"
proof -
  from ConstructTransaction_build_Inr [OF assms(1)]
  obtain lock_time rawTx where
    l: "ConstructTransaction_inputs U E Pb Pe rbf allow_peg_in
             (CMutableTransaction_default\<lparr>nLockTime := lock_time\<rparr>) 0 (uv_values inputs_in) =
             Inr rawTx" and
    e: "vin tx = vin rawTx" "nLockTime tx = nLockTime rawTx"
    by blast
  have z: "length (vin (CMutableTransaction_default\<lparr>nLockTime := lock_time\<rparr>)) = 0"
    by (simp add: CMutableTransaction_default_def)
  from assms(2) have b: "0 + length (uv_values inputs_in) \<le> 2 ^ 32" by simp
  from ConstructTransaction_inputs_Inr [OF l z b] e
  show "length (vin tx) = length (uv_values inputs_in)"
    and "\<forall>k < length (uv_values inputs_in).
           input_result U rbf allow_peg_in (nLockTime tx) (uv_values inputs_in ! k) (vin tx ! k)"
    by simp_all
qed

lemma ConstructTransaction_vin:
  assumes "snd (ConstructTransaction U E Pb Pe inputs_in outputs_in locktime rbf assets_in
                  output_pubkeys_out allow_peg_in) = Inr tx"
    and "length (uv_values inputs_in) \<le> 2 ^ 32"
  shows "length (vin tx) = length (uv_values inputs_in)"
    and "\<forall>k < length (uv_values inputs_in).
           input_result U rbf allow_peg_in (nLockTime tx) (uv_values inputs_in ! k) (vin tx ! k)"
  using ConstructTransaction_build_vin [OF ConstructTransaction_Inr(1) [OF assms(1)] assms(2)]
  by blast+

lemma only_pegins_do_not_signal:
  assumes "snd (ConstructTransaction_build U E Pb Pe inputs_in outputs_in locktime rbf assets_in
                  output_pubkeys_out allow_peg_in) = Inr tx"
    and "length (uv_values inputs_in) \<le> 2 ^ 32" and "allow_peg_in"
    and "\<forall>input\<in>set (uv_values inputs_in). has_pegin_fields input"
  shows "\<not> SignalsOptInRBF (vin tx)"
proof -
  note f = ConstructTransaction_build_vin [OF assms(1,2)]
  have "nSequence txin = 0xffffffff" if "txin \<in> set (vin tx)" for txin
  proof -
    from that obtain k where k: "k < length (vin tx)" "txin = vin tx ! k"
      by (auto simp: in_set_conv_nth)
    with f(1) have kk: "k < length (uv_values inputs_in)" by simp
    with assms(4) have "has_pegin_fields (uv_values inputs_in ! k)" by simp
    with f(2) kk assms(3) k(2) show ?thesis by (simp add: input_result_def)
  qed
  then show ?thesis
    by (auto simp: SignalsOptInRBF_iff MAX_BIP125_RBF_SEQUENCE_def)
qed

lemma input_sequence_cases:
  "input_sequence U rbf lock_time obj = Inr sq \<Longrightarrow>
     (\<not> isNum (find_value obj ''sequence'') \<longrightarrow>
        sq = (if rbf then 0xfffffffd else if lock_time \<noteq> 0 then 0xfffffffe else 0xffffffff)) \<and>
     (isNum (find_value obj ''sequence'') \<longrightarrow>
        (\<exists>v. get_int64 U (find_value obj ''sequence'') = Inr v \<and> 0 \<le> v \<and> v \<le> 0xffffffff \<and>
             sq = word_of_int v \<and> uint sq = v))"
  unfolding input_sequence_def Let_def SEQUENCE_FINAL_def MAX_BIP125_RBF_SEQUENCE_def
  by (auto split: if_splits sum.splits simp: uint_word_of_int take_bit_int_eq_self)

lemmas json_defs =
  isNull_def isObject_def isNum_def get_obj_def get_array_def get_str_def getValStr_def
  getKeys_def uv_values_def find_value_def uv_exists_def pushKVs_def pushKV_def
  get_int_def get_int64_def

lemmas example_util_defs =
  example_util_def example_digit_def example_ParseInt_def example_IsHex_def
  example_ParseHexV_def example_ParseHashO_def example_AmountFromValue_def
  example_type_def example_CTxOut_IsNull_def

lemmas construct_defs =
  ConstructTransaction_def ConstructTransaction_build_def parse_inputs_def parse_outputs_def
  parse_locktime_def parse_assets_def ConstructTransaction_input_def input_sequence_def
  input_pegin_def ConstructTransaction_output_def output_asset_def add_fee_output_def
  GetAmount_def push_out_def push_pubkey_def conf_IsNull_def err_param_def
  CMutableTransaction_default_def CTxOut_default_def CTxOut_new_def CTxIn_new_def
  SEQUENCE_FINAL_def MAX_BIP125_RBF_SEQUENCE_def LOCKTIME_MAX_def MAX_MONEY_def OP_RETURN_def

lemma example_construct_plain:
  "ConstructTransaction example_util example_env example_ops example_ops
     (VARR [input_plain, input_final, input_seq5]) outputs_fee_zero (VNUM ''7'') False VNULL None False =
   (None, Inr \<lparr>vin =
         [\<lparr>prevout = \<lparr>outpoint_hash = 10, outpoint_n = 0\<rparr>, scriptSig = [],
             nSequence = 4294967294, m_is_pegin = False\<rparr>,
          \<lparr>prevout = \<lparr>outpoint_hash = 11, outpoint_n = 1\<rparr>, scriptSig = [],
             nSequence = 4294967295, m_is_pegin = False\<rparr>,
          \<lparr>prevout = \<lparr>outpoint_hash = 12, outpoint_n = 2\<rparr>, scriptSig = [],
             nSequence = 5, m_is_pegin = False\<rparr>],
         vout =
           [\<lparr>nAsset = ConfExplicit 1, nValue = ConfExplicit 300000000,
               nNonce = ConfNull, scriptPubKey = [0, 2, 170, 1]\<rparr>,
            \<lparr>nAsset = ConfExplicit 1, nValue = ConfExplicit 100000000,
               nNonce = ConfNull, scriptPubKey = [106]\<rparr>],
         vtxinwit = [], nLockTime = 7\<rparr>)"
  by (simp add: construct_defs json_defs example_util_defs example_env_def example_script_for_def
      input_plain_def input_final_def input_seq5_def outputs_fee_zero_def)

text \<open>
  C8, as stated, fails. The input object \<open>input_huge\<close> carries the numeric sequence
  \<open>9223372036854775808\<close> (2 to the power 63), which is outside the range 0 to
  \<open>SEQUENCE_FINAL\<close>. \<^verbatim>\<open>get_int64\<close> cannot read it as a 64-bit integer and throws its own
  \<^verbatim>\<open>std::runtime_error\<close> before the range check of line 202 is reached, so the
  construction fails with that error and not with the invalid-parameter error.
\<close>

theorem sequence_beyond_int64_counterexample:
  "isNum (find_value input_huge ''sequence'') \<and>
   getValStr (find_value input_huge ''sequence'') = ''9223372036854775808'' \<and>
   ParseInt64 example_util ''9223372036854775808'' = None \<and>
   ConstructTransaction_input example_util example_env example_ops example_ops False False
     CMutableTransaction_default 0 input_huge =
     Inl (runtime_error ''JSON integer out of range'') \<and>
   ConstructTransaction example_util example_env example_ops example_ops
     (VARR [input_huge]) outputs_fee_zero VNULL False VNULL None False =
     (None, Inl (runtime_error ''JSON integer out of range'')) \<and>
   runtime_error ''JSON integer out of range'' \<noteq>
     JSONRPCError RPC_INVALID_PARAMETER ''Invalid parameter, sequence number is out of range''"
  by (simp add: construct_defs json_defs example_util_defs input_huge_def outputs_fee_zero_def)

text \<open>
  C8, amended. Take an input object whose \<open>txid\<close> and \<open>vout\<close> parse. The loop iteration
  pushes the input with the sequence number of lines 189 to 207 and goes on to the peg-in
  fields (\<open>input_pegin\<close>) with it. Without a numeric \<open>sequence\<close>, that number is
  \<open>MAX_BIP125_RBF_SEQUENCE\<close> when the RBF flag is set, else \<open>SEQUENCE_FINAL - 1\<close> when the
  lock-time is nonzero, else \<open>SEQUENCE_FINAL\<close>. With a numeric \<open>sequence\<close> that \<open>get_int64\<close>
  reads as \<open>v\<close>: when \<open>v\<close> lies between 0 and \<open>SEQUENCE_FINAL\<close> the number is \<open>v\<close>; when it
  does not, the iteration throws the invalid-parameter error. With a numeric \<open>sequence\<close>
  that \<open>get_int64\<close> does not read, the iteration throws the error of \<open>get_int64\<close>, which is
  the runtime error \<^verbatim>\<open>JSON integer out of range\<close>. In a transaction that
  \<open>ConstructTransaction\<close> returns, every input that is not built as a peg-in has the
  sequence number so described.
\<close>

theorem ConstructTransaction_sequence_numbers:
  "(get_obj input = Inr obj \<and> ParseHashO U obj ''txid'' = Inr txid \<and>
    isNum (find_value obj ''vout'') \<and> get_int U (find_value obj ''vout'') = Inr nOutput \<and>
    0 \<le> nOutput \<longrightarrow>
      (\<not> isNum (find_value obj ''sequence'') \<longrightarrow>
         ConstructTransaction_input U E Pb Pe rbf allow_peg_in rawTx idx input =
           input_pegin U E Pb Pe allow_peg_in
             (rawTx\<lparr>vin := vin rawTx @
                [CTxIn_new \<lparr>outpoint_hash = txid, outpoint_n = word_of_int nOutput\<rparr> []
                   (if rbf then MAX_BIP125_RBF_SEQUENCE
                    else if nLockTime rawTx \<noteq> 0 then SEQUENCE_FINAL - 1
                    else SEQUENCE_FINAL)]\<rparr>)
             idx obj) \<and>
      (isNum (find_value obj ''sequence'') \<and>
       get_int64 U (find_value obj ''sequence'') = Inr v \<and> 0 \<le> v \<and> v \<le> uint SEQUENCE_FINAL \<longrightarrow>
         ConstructTransaction_input U E Pb Pe rbf allow_peg_in rawTx idx input =
           input_pegin U E Pb Pe allow_peg_in
             (rawTx\<lparr>vin := vin rawTx @
                [CTxIn_new \<lparr>outpoint_hash = txid, outpoint_n = word_of_int nOutput\<rparr> []
                   (word_of_int v)]\<rparr>)
             idx obj \<and>
         uint (word_of_int v :: 32 word) = v) \<and>
      (isNum (find_value obj ''sequence'') \<and>
       get_int64 U (find_value obj ''sequence'') = Inr v \<and> (v < 0 \<or> uint SEQUENCE_FINAL < v) \<longrightarrow>
         ConstructTransaction_input U E Pb Pe rbf allow_peg_in rawTx idx input =
           Inl (JSONRPCError RPC_INVALID_PARAMETER
                  ''Invalid parameter, sequence number is out of range'')) \<and>
      (isNum (find_value obj ''sequence'') \<and>
       get_int64 U (find_value obj ''sequence'') = Inl e \<longrightarrow>
         e = runtime_error ''JSON integer out of range'' \<and>
         ParseInt64 U (getValStr (find_value obj ''sequence'')) = None \<and>
         ConstructTransaction_input U E Pb Pe rbf allow_peg_in rawTx idx input = Inl e)) \<and>
   (snd (ConstructTransaction U E Pb Pe inputs_in outputs_in locktime rbf assets_in
           output_pubkeys_out allow_peg_in) = Inr tx \<and>
    length (uv_values inputs_in) \<le> 2 ^ 32 \<and> i < length (uv_values inputs_in) \<and>
    \<not> (has_pegin_fields (uv_values inputs_in ! i) \<and> allow_peg_in) \<longrightarrow>
      (\<not> isNum (find_value (uv_values inputs_in ! i) ''sequence'') \<longrightarrow>
         nSequence (vin tx ! i) =
           (if rbf then MAX_BIP125_RBF_SEQUENCE
            else if nLockTime tx \<noteq> 0 then SEQUENCE_FINAL - 1 else SEQUENCE_FINAL)) \<and>
      (isNum (find_value (uv_values inputs_in ! i) ''sequence'') \<longrightarrow>
         (\<exists>w. get_int64 U (find_value (uv_values inputs_in ! i) ''sequence'') = Inr w \<and>
              0 \<le> w \<and> w \<le> uint SEQUENCE_FINAL \<and> uint (nSequence (vin tx ! i)) = w)))"
proof (intro conjI impI)
  assume "\<not> isNum (find_value obj ''sequence'')"
    and "get_obj input = Inr obj \<and> ParseHashO U obj ''txid'' = Inr txid \<and>
      isNum (find_value obj ''vout'') \<and> get_int U (find_value obj ''vout'') = Inr nOutput \<and>
      0 \<le> nOutput"
  then show "ConstructTransaction_input U E Pb Pe rbf allow_peg_in rawTx idx input =
      input_pegin U E Pb Pe allow_peg_in
        (rawTx\<lparr>vin := vin rawTx @
           [CTxIn_new \<lparr>outpoint_hash = txid, outpoint_n = word_of_int nOutput\<rparr> []
              (if rbf then MAX_BIP125_RBF_SEQUENCE
               else if nLockTime rawTx \<noteq> 0 then SEQUENCE_FINAL - 1
               else SEQUENCE_FINAL)]\<rparr>)
        idx obj"
    unfolding ConstructTransaction_input_def input_sequence_def Let_def by auto
next
  assume "isNum (find_value obj ''sequence'') \<and>
      get_int64 U (find_value obj ''sequence'') = Inr v \<and> 0 \<le> v \<and> v \<le> uint SEQUENCE_FINAL"
    and "get_obj input = Inr obj \<and> ParseHashO U obj ''txid'' = Inr txid \<and>
      isNum (find_value obj ''vout'') \<and> get_int U (find_value obj ''vout'') = Inr nOutput \<and>
      0 \<le> nOutput"
  then show "ConstructTransaction_input U E Pb Pe rbf allow_peg_in rawTx idx input =
      input_pegin U E Pb Pe allow_peg_in
        (rawTx\<lparr>vin := vin rawTx @
           [CTxIn_new \<lparr>outpoint_hash = txid, outpoint_n = word_of_int nOutput\<rparr> []
              (word_of_int v)]\<rparr>)
        idx obj"
    unfolding ConstructTransaction_input_def input_sequence_def Let_def by auto
next
  assume "isNum (find_value obj ''sequence'') \<and>
      get_int64 U (find_value obj ''sequence'') = Inr v \<and> 0 \<le> v \<and> v \<le> uint SEQUENCE_FINAL"
  then show "uint (word_of_int v :: 32 word) = v"
    by (simp add: SEQUENCE_FINAL_def uint_word_of_int take_bit_int_eq_self)
next
  assume "isNum (find_value obj ''sequence'') \<and>
      get_int64 U (find_value obj ''sequence'') = Inr v \<and> (v < 0 \<or> uint SEQUENCE_FINAL < v)"
    and "get_obj input = Inr obj \<and> ParseHashO U obj ''txid'' = Inr txid \<and>
      isNum (find_value obj ''vout'') \<and> get_int U (find_value obj ''vout'') = Inr nOutput \<and>
      0 \<le> nOutput"
  then show "ConstructTransaction_input U E Pb Pe rbf allow_peg_in rawTx idx input =
      Inl (JSONRPCError RPC_INVALID_PARAMETER
             ''Invalid parameter, sequence number is out of range'')"
    unfolding ConstructTransaction_input_def input_sequence_def Let_def err_param_def
    by auto
next
  assume "isNum (find_value obj ''sequence'') \<and>
      get_int64 U (find_value obj ''sequence'') = Inl e"
  then show "e = runtime_error ''JSON integer out of range''"
    by (auto simp: isNum_def get_int64_def split: UniValue.splits option.splits)
next
  assume "isNum (find_value obj ''sequence'') \<and>
      get_int64 U (find_value obj ''sequence'') = Inl e"
  then show "ParseInt64 U (getValStr (find_value obj ''sequence'')) = None"
    by (auto simp: isNum_def get_int64_def getValStr_def split: UniValue.splits option.splits)
next
  assume "isNum (find_value obj ''sequence'') \<and>
      get_int64 U (find_value obj ''sequence'') = Inl e"
    and "get_obj input = Inr obj \<and> ParseHashO U obj ''txid'' = Inr txid \<and>
      isNum (find_value obj ''vout'') \<and> get_int U (find_value obj ''vout'') = Inr nOutput \<and>
      0 \<le> nOutput"
  then show "ConstructTransaction_input U E Pb Pe rbf allow_peg_in rawTx idx input = Inl e"
    unfolding ConstructTransaction_input_def input_sequence_def Let_def by auto
next
  assume a: "snd (ConstructTransaction U E Pb Pe inputs_in outputs_in locktime rbf assets_in
           output_pubkeys_out allow_peg_in) = Inr tx \<and>
    length (uv_values inputs_in) \<le> 2 ^ 32 \<and> i < length (uv_values inputs_in) \<and>
    \<not> (has_pegin_fields (uv_values inputs_in ! i) \<and> allow_peg_in)"
  let ?obj = "uv_values inputs_in ! i"
  from a have r: "snd (ConstructTransaction U E Pb Pe inputs_in outputs_in locktime rbf assets_in
           output_pubkeys_out allow_peg_in) = Inr tx"
    and b: "length (uv_values inputs_in) \<le> 2 ^ 32" and i: "i < length (uv_values inputs_in)"
    and np: "\<not> (has_pegin_fields ?obj \<and> allow_peg_in)"
    by blast+
  from ConstructTransaction_vin(2) [OF r b] i
  have "input_result U rbf allow_peg_in (nLockTime tx) ?obj (vin tx ! i)" by blast
  with np have s: "input_sequence U rbf (nLockTime tx) ?obj = Inr (nSequence (vin tx ! i))"
    unfolding input_result_def by auto
  note c = input_sequence_cases [OF s]
  {
    assume "\<not> isNum (find_value ?obj ''sequence'')"
    with c show "nSequence (vin tx ! i) =
           (if rbf then MAX_BIP125_RBF_SEQUENCE
            else if nLockTime tx \<noteq> 0 then SEQUENCE_FINAL - 1 else SEQUENCE_FINAL)"
      by (simp add: MAX_BIP125_RBF_SEQUENCE_def SEQUENCE_FINAL_def)
  }
  {
    assume "isNum (find_value ?obj ''sequence'')"
    with c show "\<exists>w. get_int64 U (find_value ?obj ''sequence'') = Inr w \<and>
              0 \<le> w \<and> w \<le> uint SEQUENCE_FINAL \<and> uint (nSequence (vin tx ! i)) = w"
      by (auto simp: SEQUENCE_FINAL_def)
  }
qed

lemma example_has_no_pegin_fields:
  "\<not> has_pegin_fields input_plain" "\<not> has_pegin_fields input_final"
  "\<not> has_pegin_fields input_seq5" "has_pegin_fields input_pegin_B"
  by (simp_all add: has_pegin_fields_def json_defs input_plain_def input_final_def
      input_seq5_def input_pegin_B_def)

theorem ConstructTransaction_sequence_numbers_witness:
  "ConstructTransaction_input example_util example_env example_ops example_ops False False
     (CMutableTransaction_default\<lparr>nLockTime := 7\<rparr>) 0 input_plain =
     Inr (CMutableTransaction_default
            \<lparr>vin := [CTxIn_new \<lparr>outpoint_hash = 10, outpoint_n = 0\<rparr> [] 0xfffffffe],
             nLockTime := 7\<rparr>) \<and>
   ConstructTransaction_input example_util example_env example_ops example_ops True False
     (CMutableTransaction_default\<lparr>nLockTime := 7\<rparr>) 0 input_plain =
     Inr (CMutableTransaction_default
            \<lparr>vin := [CTxIn_new \<lparr>outpoint_hash = 10, outpoint_n = 0\<rparr> [] 0xfffffffd],
             nLockTime := 7\<rparr>) \<and>
   ConstructTransaction_input example_util example_env example_ops example_ops False False
     CMutableTransaction_default 0 input_plain =
     Inr (CMutableTransaction_default
            \<lparr>vin := [CTxIn_new \<lparr>outpoint_hash = 10, outpoint_n = 0\<rparr> [] 0xffffffff]\<rparr>) \<and>
   ConstructTransaction_input example_util example_env example_ops example_ops True False
     (CMutableTransaction_default\<lparr>nLockTime := 7\<rparr>) 0 input_seq5 =
     Inr (CMutableTransaction_default
            \<lparr>vin := [CTxIn_new \<lparr>outpoint_hash = 12, outpoint_n = 2\<rparr> [] 5],
             nLockTime := 7\<rparr>) \<and>
   ConstructTransaction_input example_util example_env example_ops example_ops False False
     CMutableTransaction_default 0 input_beyond =
     Inl (JSONRPCError RPC_INVALID_PARAMETER ''Invalid parameter, sequence number is out of range'') \<and>
   ConstructTransaction_input example_util example_env example_ops example_ops False False
     CMutableTransaction_default 0 input_huge =
     Inl (runtime_error ''JSON integer out of range'') \<and>
   snd (ConstructTransaction example_util example_env example_ops example_ops
          (VARR [input_plain, input_final, input_seq5]) outputs_fee_zero (VNUM ''7'') False
          VNULL None False) = Inr example_built_tx \<and>
   nSequence (vin example_built_tx ! 0) = 0xfffffffe \<and>
   uint (nSequence (vin example_built_tx ! 1)) = 4294967295 \<and>
   uint (nSequence (vin example_built_tx ! 2)) = 5"
proof -
  let ?ins = "VARR [input_plain, input_final, input_seq5]"
  let ?tx7 = "CMutableTransaction_default\<lparr>nLockTime := 7\<rparr>"
  have r: "snd (ConstructTransaction example_util example_env example_ops example_ops
          ?ins outputs_fee_zero (VNUM ''7'') False VNULL None False) = Inr example_built_tx"
    by (simp add: example_construct_plain example_built_tx_def)
  have v: "uv_values ?ins = [input_plain, input_final, input_seq5]"
    by (simp add: uv_values_def)
  have p: "get_obj input_plain = Inr input_plain"
    "ParseHashO example_util input_plain ''txid'' = Inr 10"
    "isNum (find_value input_plain ''vout'')"
    "get_int example_util (find_value input_plain ''vout'') = Inr 0"
    "\<not> isNum (find_value input_plain ''sequence'')"
    by (simp_all add: json_defs input_plain_def example_util_defs)
  have f: "isNum (find_value input_final ''sequence'')"
    "get_int64 example_util (find_value input_final ''sequence'') = Inr 4294967295"
    by (simp_all add: json_defs input_final_def example_util_defs)
  have s: "get_obj input_seq5 = Inr input_seq5"
    "ParseHashO example_util input_seq5 ''txid'' = Inr 12"
    "isNum (find_value input_seq5 ''vout'')"
    "get_int example_util (find_value input_seq5 ''vout'') = Inr 2"
    "isNum (find_value input_seq5 ''sequence'')"
    "get_int64 example_util (find_value input_seq5 ''sequence'') = Inr 5"
    by (simp_all add: json_defs input_seq5_def example_util_defs)
  have b: "get_obj input_beyond = Inr input_beyond"
    "ParseHashO example_util input_beyond ''txid'' = Inr 11"
    "isNum (find_value input_beyond ''vout'')"
    "get_int example_util (find_value input_beyond ''vout'') = Inr 1"
    "isNum (find_value input_beyond ''sequence'')"
    "get_int64 example_util (find_value input_beyond ''sequence'') = Inr 4294967296"
    by (simp_all add: json_defs input_beyond_def example_util_defs)
  have h: "get_obj input_huge = Inr input_huge"
    "ParseHashO example_util input_huge ''txid'' = Inr 11"
    "isNum (find_value input_huge ''vout'')"
    "get_int example_util (find_value input_huge ''vout'') = Inr 1"
    "isNum (find_value input_huge ''sequence'')"
    "get_int64 example_util (find_value input_huge ''sequence'') =
       Inl (runtime_error ''JSON integer out of range'')"
    by (simp_all add: json_defs input_huge_def example_util_defs)
  have np: "input_pegin example_util example_env example_ops example_ops False tx0 0 input_plain =
      Inr tx0"
    "input_pegin example_util example_env example_ops example_ops False tx0 0 input_seq5 =
      Inr tx0" for tx0
    by (simp_all add: input_pegin_def json_defs input_plain_def input_seq5_def)
  note t = ConstructTransaction_sequence_numbers
    [where U = example_util and E = example_env and Pb = example_ops and Pe = example_ops
       and inputs_in = ?ins and outputs_in = outputs_fee_zero and locktime = "VNUM ''7''"
       and assets_in = VNULL and output_pubkeys_out = None
       and allow_peg_in = False and tx = example_built_tx and idx = 0 and i = 0]
  from t [where rbf = False and input = input_plain and obj = input_plain and txid = 10
            and nOutput = 0 and rawTx = ?tx7] p
  have a1: "ConstructTransaction_input example_util example_env example_ops example_ops
      False False ?tx7 0 input_plain =
      Inr (CMutableTransaction_default
            \<lparr>vin := [CTxIn_new \<lparr>outpoint_hash = 10, outpoint_n = 0\<rparr> [] 0xfffffffe],
             nLockTime := 7\<rparr>)"
    by (simp add: np SEQUENCE_FINAL_def CMutableTransaction_default_def)
  from t [where rbf = True and input = input_plain and obj = input_plain and txid = 10
            and nOutput = 0 and rawTx = ?tx7] p
  have a2: "ConstructTransaction_input example_util example_env example_ops example_ops
      True False ?tx7 0 input_plain =
      Inr (CMutableTransaction_default
            \<lparr>vin := [CTxIn_new \<lparr>outpoint_hash = 10, outpoint_n = 0\<rparr> [] 0xfffffffd],
             nLockTime := 7\<rparr>)"
    by (simp add: np MAX_BIP125_RBF_SEQUENCE_def CMutableTransaction_default_def)
  from t [where rbf = False and input = input_plain and obj = input_plain and txid = 10
            and nOutput = 0 and rawTx = CMutableTransaction_default] p
  have a3: "ConstructTransaction_input example_util example_env example_ops example_ops
      False False CMutableTransaction_default 0 input_plain =
      Inr (CMutableTransaction_default
            \<lparr>vin := [CTxIn_new \<lparr>outpoint_hash = 10, outpoint_n = 0\<rparr> [] 0xffffffff]\<rparr>)"
    by (simp add: np SEQUENCE_FINAL_def CMutableTransaction_default_def)
  from t [where rbf = True and input = input_seq5 and obj = input_seq5 and txid = 12
            and nOutput = 2 and rawTx = ?tx7 and v = 5] s
  have a4: "ConstructTransaction_input example_util example_env example_ops example_ops
      True False ?tx7 0 input_seq5 =
      Inr (CMutableTransaction_default
            \<lparr>vin := [CTxIn_new \<lparr>outpoint_hash = 12, outpoint_n = 2\<rparr> [] 5],
             nLockTime := 7\<rparr>)"
    by (simp add: np SEQUENCE_FINAL_def CMutableTransaction_default_def)
  from t [where rbf = False and input = input_beyond and obj = input_beyond and txid = 11
            and nOutput = 1 and rawTx = CMutableTransaction_default and v = 4294967296] b
  have a5: "ConstructTransaction_input example_util example_env example_ops example_ops
      False False CMutableTransaction_default 0 input_beyond =
      Inl (JSONRPCError RPC_INVALID_PARAMETER
             ''Invalid parameter, sequence number is out of range'')"
    by (simp add: SEQUENCE_FINAL_def)
  from t [where rbf = False and input = input_huge and obj = input_huge and txid = 11
            and nOutput = 1 and rawTx = CMutableTransaction_default
            and e = "runtime_error ''JSON integer out of range''"] h
  have a6: "ConstructTransaction_input example_util example_env example_ops example_ops
      False False CMutableTransaction_default 0 input_huge =
      Inl (runtime_error ''JSON integer out of range'')"
    by simp
  note u = ConstructTransaction_sequence_numbers
    [where U = example_util and E = example_env and Pb = example_ops and Pe = example_ops
       and inputs_in = ?ins and outputs_in = outputs_fee_zero and locktime = "VNUM ''7''"
       and rbf = False and assets_in = VNULL and output_pubkeys_out = None
       and allow_peg_in = False and tx = example_built_tx]
  from u [where i = 0, THEN conjunct2] r v p(5)
  have a7: "nSequence (vin example_built_tx ! 0) = 0xfffffffe"
    by (simp add: example_built_tx_def SEQUENCE_FINAL_def)
  from u [where i = 1, THEN conjunct2] r v f
  have a8: "uint (nSequence (vin example_built_tx ! 1)) = 4294967295"
    by (simp add: SEQUENCE_FINAL_def)
  from u [where i = 2, THEN conjunct2] r v s(5,6)
  have a9: "uint (nSequence (vin example_built_tx ! 2)) = 5"
    by (simp add: SEQUENCE_FINAL_def)
  from a1 a2 a3 a4 a5 a6 r a7 a8 a9 show ?thesis by simp
qed

text \<open>
  C7. When the construction has built a transaction with the RBF flag set and at least
  one input, and no input's sequence number signals replaceability, \<open>ConstructTransaction\<close>
  throws the invalid-parameter error; when the flag is unset or there is no input it
  returns the transaction built. A transaction returned with the flag set and an input
  has an input whose sequence number is at most \<open>MAX_BIP125_RBF_SEQUENCE\<close>.
\<close>

theorem ConstructTransaction_rbf_check:
  "(ConstructTransaction_build U E Pb Pe inputs_in outputs_in locktime rbf assets_in
      output_pubkeys_out allow_peg_in = (pubkeys, Inr rawTx) \<and>
    rbf \<and> vin rawTx \<noteq> [] \<and> \<not> SignalsOptInRBF (vin rawTx) \<longrightarrow>
      ConstructTransaction U E Pb Pe inputs_in outputs_in locktime rbf assets_in
        output_pubkeys_out allow_peg_in =
        (pubkeys, Inl (JSONRPCError RPC_INVALID_PARAMETER
           ''Invalid parameter combination: Sequence number(s) contradict replaceable option''))) \<and>
   (ConstructTransaction_build U E Pb Pe inputs_in outputs_in locktime rbf assets_in
      output_pubkeys_out allow_peg_in = (pubkeys, Inr rawTx) \<and>
    (\<not> rbf \<or> vin rawTx = []) \<longrightarrow>
      ConstructTransaction U E Pb Pe inputs_in outputs_in locktime rbf assets_in
        output_pubkeys_out allow_peg_in = (pubkeys, Inr rawTx)) \<and>
   (snd (ConstructTransaction U E Pb Pe inputs_in outputs_in locktime rbf assets_in
           output_pubkeys_out allow_peg_in) = Inr tx \<and> rbf \<and> vin tx \<noteq> [] \<longrightarrow>
      (\<exists>txin\<in>set (vin tx). nSequence txin \<le> MAX_BIP125_RBF_SEQUENCE))"
proof (intro conjI impI)
  assume "ConstructTransaction_build U E Pb Pe inputs_in outputs_in locktime rbf assets_in
      output_pubkeys_out allow_peg_in = (pubkeys, Inr rawTx) \<and>
    rbf \<and> vin rawTx \<noteq> [] \<and> \<not> SignalsOptInRBF (vin rawTx)"
  then show "ConstructTransaction U E Pb Pe inputs_in outputs_in locktime rbf assets_in
        output_pubkeys_out allow_peg_in =
        (pubkeys, Inl (JSONRPCError RPC_INVALID_PARAMETER
           ''Invalid parameter combination: Sequence number(s) contradict replaceable option''))"
    by (auto simp: ConstructTransaction_def err_param_def)
next
  assume "ConstructTransaction_build U E Pb Pe inputs_in outputs_in locktime rbf assets_in
      output_pubkeys_out allow_peg_in = (pubkeys, Inr rawTx) \<and> (\<not> rbf \<or> vin rawTx = [])"
  then show "ConstructTransaction U E Pb Pe inputs_in outputs_in locktime rbf assets_in
        output_pubkeys_out allow_peg_in = (pubkeys, Inr rawTx)"
    by (auto simp: ConstructTransaction_def)
next
  assume a: "snd (ConstructTransaction U E Pb Pe inputs_in outputs_in locktime rbf assets_in
           output_pubkeys_out allow_peg_in) = Inr tx \<and> rbf \<and> vin tx \<noteq> []"
  then have "\<not> (rbf \<and> length (vin tx) > 0 \<and> \<not> SignalsOptInRBF (vin tx))"
    using ConstructTransaction_Inr(2) by blast
  with a have "SignalsOptInRBF (vin tx)" by simp
  then show "\<exists>txin\<in>set (vin tx). nSequence txin \<le> MAX_BIP125_RBF_SEQUENCE"
    by (simp add: SignalsOptInRBF_iff)
qed

lemma example_construct_final:
  "ConstructTransaction_build example_util example_env example_ops example_ops
     (VARR [input_final]) outputs_fee_zero VNULL rbf VNULL None False =
   (None, Inr \<lparr>vin =
         [\<lparr>prevout = \<lparr>outpoint_hash = 11, outpoint_n = 1\<rparr>, scriptSig = [],
             nSequence = 4294967295, m_is_pegin = False\<rparr>],
         vout =
           [\<lparr>nAsset = ConfExplicit 1, nValue = ConfExplicit 300000000,
               nNonce = ConfNull, scriptPubKey = [0, 2, 170, 1]\<rparr>,
            \<lparr>nAsset = ConfExplicit 1, nValue = ConfExplicit 100000000,
               nNonce = ConfNull, scriptPubKey = [106]\<rparr>],
         vtxinwit = [], nLockTime = 0\<rparr>)"
  by (simp add: construct_defs json_defs example_util_defs example_env_def example_script_for_def
      input_final_def outputs_fee_zero_def)

lemma example_construct_rbf:
  "ConstructTransaction example_util example_env example_ops example_ops
     (VARR [input_final, input_seq5]) outputs_fee_zero VNULL True VNULL None False =
   (None, Inr \<lparr>vin =
         [\<lparr>prevout = \<lparr>outpoint_hash = 11, outpoint_n = 1\<rparr>, scriptSig = [],
             nSequence = 4294967295, m_is_pegin = False\<rparr>,
          \<lparr>prevout = \<lparr>outpoint_hash = 12, outpoint_n = 2\<rparr>, scriptSig = [],
             nSequence = 5, m_is_pegin = False\<rparr>],
         vout =
           [\<lparr>nAsset = ConfExplicit 1, nValue = ConfExplicit 300000000,
               nNonce = ConfNull, scriptPubKey = [0, 2, 170, 1]\<rparr>,
            \<lparr>nAsset = ConfExplicit 1, nValue = ConfExplicit 100000000,
               nNonce = ConfNull, scriptPubKey = [106]\<rparr>],
         vtxinwit = [], nLockTime = 0\<rparr>)"
  by (simp add: construct_defs json_defs example_util_defs example_env_def example_script_for_def
      input_final_def input_seq5_def outputs_fee_zero_def)

theorem ConstructTransaction_rbf_check_witness:
  "ConstructTransaction example_util example_env example_ops example_ops
     (VARR [input_final]) outputs_fee_zero VNULL True VNULL None False =
     (None, Inl (JSONRPCError RPC_INVALID_PARAMETER
        ''Invalid parameter combination: Sequence number(s) contradict replaceable option'')) \<and>
   ConstructTransaction example_util example_env example_ops example_ops
     (VARR [input_final]) outputs_fee_zero VNULL False VNULL None False =
     (None, Inr (example_built_tx\<lparr>vin := [vin example_built_tx ! 1], nLockTime := 0\<rparr>)) \<and>
   nSequence (vin example_built_tx ! 2) \<le> MAX_BIP125_RBF_SEQUENCE"
proof -
  let ?tx = "example_built_tx\<lparr>vin := [vin example_built_tx ! 1], nLockTime := 0\<rparr>"
  have b: "ConstructTransaction_build example_util example_env example_ops example_ops
     (VARR [input_final]) outputs_fee_zero VNULL rbf VNULL None False = (None, Inr ?tx)" for rbf
    by (simp add: example_construct_final example_built_tx_def)
  have n: "vin ?tx \<noteq> []" "\<not> SignalsOptInRBF (vin ?tx)"
    by (simp_all add: example_built_tx_def MAX_BIP125_RBF_SEQUENCE_def)
  let ?tx2 = "example_built_tx\<lparr>vin := tl (vin example_built_tx), nLockTime := 0\<rparr>"
  have r: "snd (ConstructTransaction example_util example_env example_ops example_ops
     (VARR [input_final, input_seq5]) outputs_fee_zero VNULL True VNULL None False) = Inr ?tx2"
    by (simp add: example_construct_rbf example_built_tx_def)
  note t = ConstructTransaction_rbf_check
    [where U = example_util and E = example_env and Pb = example_ops and Pe = example_ops
       and outputs_in = outputs_fee_zero and locktime = VNULL
       and assets_in = VNULL and output_pubkeys_out = None
       and allow_peg_in = False and pubkeys = None]
  from t [where rbf = True and inputs_in = "VARR [input_final]" and rawTx = ?tx] b [of True] n
  have 1: "ConstructTransaction example_util example_env example_ops example_ops
     (VARR [input_final]) outputs_fee_zero VNULL True VNULL None False =
     (None, Inl (JSONRPCError RPC_INVALID_PARAMETER
        ''Invalid parameter combination: Sequence number(s) contradict replaceable option''))"
    by blast
  from t [where rbf = False and inputs_in = "VARR [input_final]" and rawTx = ?tx] b [of False]
  have 2: "ConstructTransaction example_util example_env example_ops example_ops
     (VARR [input_final]) outputs_fee_zero VNULL False VNULL None False = (None, Inr ?tx)"
    by blast
  from t [where rbf = True and inputs_in = "VARR [input_final, input_seq5]" and tx = ?tx2] r
  have "\<exists>txin\<in>set (vin ?tx2). nSequence txin \<le> MAX_BIP125_RBF_SEQUENCE"
    by (simp add: example_built_tx_def)
  then have 3: "nSequence (vin example_built_tx ! 2) \<le> MAX_BIP125_RBF_SEQUENCE"
    by (simp add: example_built_tx_def MAX_BIP125_RBF_SEQUENCE_def)
  from 1 2 3 show ?thesis by simp
qed

text \<open>
  C10. An input that \<open>CreatePegInInput\<close> has populated has the sequence number
  \<open>0xffffffff\<close> and, alone, does not signal replaceability. In a transaction that
  \<open>ConstructTransaction\<close> returns, every input built as a peg-in has that sequence number,
  whatever the RBF flag, the lock-time and the input's \<open>sequence\<close> field are. With the
  RBF flag set, at least one input, and only peg-in inputs, \<open>ConstructTransaction\<close>
  returns no transaction: if the construction gets as far as the last check, that check
  throws.
\<close>

theorem pegin_input_sequence_is_final:
  "(CreatePegInInput E P mtx input_idx claim_scripts txData txOutProofData = (mtx', Inr r) \<longrightarrow>
      unat input_idx < length (vin mtx') \<and>
      nSequence (vin mtx' ! unat input_idx) = 0xffffffff \<and>
      \<not> SignalsOptInRBF [vin mtx' ! unat input_idx]) \<and>
   (snd (ConstructTransaction U E Pb Pe inputs_in outputs_in locktime rbf assets_in
           output_pubkeys_out allow_peg_in) = Inr tx \<and>
    length (uv_values inputs_in) \<le> 2 ^ 32 \<and> i < length (uv_values inputs_in) \<and>
    has_pegin_fields (uv_values inputs_in ! i) \<and> allow_peg_in \<longrightarrow>
      nSequence (vin tx ! i) = 0xffffffff \<and> m_is_pegin (vin tx ! i)) \<and>
   (rbf \<and> uv_values inputs_in \<noteq> [] \<and> length (uv_values inputs_in) \<le> 2 ^ 32 \<and> allow_peg_in \<and>
    (\<forall>input\<in>set (uv_values inputs_in). has_pegin_fields input) \<longrightarrow>
      (\<exists>e. snd (ConstructTransaction U E Pb Pe inputs_in outputs_in locktime rbf assets_in
                  output_pubkeys_out allow_peg_in) = Inl e) \<and>
      (\<forall>pubkeys rawTx.
          ConstructTransaction_build U E Pb Pe inputs_in outputs_in locktime rbf assets_in
            output_pubkeys_out allow_peg_in = (pubkeys, Inr rawTx) \<longrightarrow>
          ConstructTransaction U E Pb Pe inputs_in outputs_in locktime rbf assets_in
            output_pubkeys_out allow_peg_in =
            (pubkeys, Inl (JSONRPCError RPC_INVALID_PARAMETER
               ''Invalid parameter combination: Sequence number(s) contradict replaceable option''))))"
proof (intro conjI impI allI)
  assume a: "CreatePegInInput E P mtx input_idx claim_scripts txData txOutProofData = (mtx', Inr r)"
  note f = CreatePegInInput_Inr [OF a]
  show "unat input_idx < length (vin mtx')" by (rule f(1))
  show "nSequence (vin mtx' ! unat input_idx) = 0xffffffff" by (rule f(2))
  show "\<not> SignalsOptInRBF [vin mtx' ! unat input_idx]"
    by (simp add: f(2) MAX_BIP125_RBF_SEQUENCE_def)
next
  assume a: "snd (ConstructTransaction U E Pb Pe inputs_in outputs_in locktime rbf assets_in
           output_pubkeys_out allow_peg_in) = Inr tx \<and>
    length (uv_values inputs_in) \<le> 2 ^ 32 \<and> i < length (uv_values inputs_in) \<and>
    has_pegin_fields (uv_values inputs_in ! i) \<and> allow_peg_in"
  then have "input_result U rbf allow_peg_in (nLockTime tx) (uv_values inputs_in ! i) (vin tx ! i)"
    using ConstructTransaction_vin(2) by blast
  with a show "nSequence (vin tx ! i) = 0xffffffff" and "m_is_pegin (vin tx ! i)"
    by (simp_all add: input_result_def)
next
  assume a: "rbf \<and> uv_values inputs_in \<noteq> [] \<and> length (uv_values inputs_in) \<le> 2 ^ 32 \<and>
    allow_peg_in \<and> (\<forall>input\<in>set (uv_values inputs_in). has_pegin_fields input)"
  let ?ct = "ConstructTransaction U E Pb Pe inputs_in outputs_in locktime rbf assets_in
                  output_pubkeys_out allow_peg_in"
  have "snd ?ct \<noteq> Inr tx" for tx
  proof
    assume s: "snd ?ct = Inr tx"
    note c = ConstructTransaction_Inr [OF s]
    from a have "\<not> SignalsOptInRBF (vin tx)"
      using only_pegins_do_not_signal [OF c(1)] by blast
    moreover from a have "length (vin tx) > 0"
      using ConstructTransaction_build_vin(1) [OF c(1)] by simp
    ultimately show False using c(2) a by blast
  qed
  then show "\<exists>e. snd ?ct = Inl e" by (cases "snd ?ct") auto
next
  fix pubkeys rawTx
  assume a: "rbf \<and> uv_values inputs_in \<noteq> [] \<and> length (uv_values inputs_in) \<le> 2 ^ 32 \<and>
    allow_peg_in \<and> (\<forall>input\<in>set (uv_values inputs_in). has_pegin_fields input)"
  assume b: "ConstructTransaction_build U E Pb Pe inputs_in outputs_in locktime rbf assets_in
            output_pubkeys_out allow_peg_in = (pubkeys, Inr rawTx)"
  then have s: "snd (ConstructTransaction_build U E Pb Pe inputs_in outputs_in locktime rbf
            assets_in output_pubkeys_out allow_peg_in) = Inr rawTx" by simp
  from a have "\<not> SignalsOptInRBF (vin rawTx)"
    using only_pegins_do_not_signal [OF s] by blast
  moreover from a have "length (vin rawTx) > 0"
    using ConstructTransaction_build_vin(1) [OF s] by simp
  ultimately show "ConstructTransaction U E Pb Pe inputs_in outputs_in locktime rbf assets_in
            output_pubkeys_out allow_peg_in =
            (pubkeys, Inl (JSONRPCError RPC_INVALID_PARAMETER
               ''Invalid parameter combination: Sequence number(s) contradict replaceable option''))"
    using a b by (simp add: ConstructTransaction_def err_param_def)
qed

lemma example_match_B:
  "match_claim_scripts example_env (map fst (ex_vout example_parent_tx)) example_fedpegscripts
     [claim_B] = (1, claim_B)"
  by (simp add: example_vout) (simp add: example_defs)

lemma example_pegin_B:
  "CreatePegInInput example_env example_ops
     (CMutableTransaction_default\<lparr>vin := [txin]\<rparr>) 0 [claim_B] [1] [2] =
   (if scriptSig txin \<noteq> [] then (CMutableTransaction_default\<lparr>vin := [txin]\<rparr>, Inl err_already_used)
    else (example_pegin_tx, Inr (example_parent_tx, example_merkle_block)))"
proof -
  have m: "vout_scriptPubKeys example_ops example_parent_tx = map fst (ex_vout example_parent_tx)"
    "fedpegscripts example_env = example_fedpegscripts"
    by (simp_all add: example_ops_def example_env_def)
  show ?thesis
    unfolding CreatePegInInput_def CreatePegInInputInner_def
    apply (simp only: example_decode_tx example_decode_mb m example_match_B option.case prod.case)
    apply (simp add: example_ops_def example_env_def example_merkle_block_def claim_B_def
        example_IsWitnessProgram_def example_parent_tx_def install_pegin_input_def
        example_IsValidPeginWitness_def CMutableTransaction_default_def example_pegin_tx_def
        CTxIn_new_def CTxInWitness_default_def resize_def)
    done
qed

lemma example_pegin_B_default:
  "CreatePegInInput example_env example_ops CMutableTransaction_default 0 [claim_B] [1] [2] =
     (example_pegin_tx, Inr (example_parent_tx, example_merkle_block))"
proof -
  have m: "vout_scriptPubKeys example_ops example_parent_tx = map fst (ex_vout example_parent_tx)"
    "fedpegscripts example_env = example_fedpegscripts"
    by (simp_all add: example_ops_def example_env_def)
  show ?thesis
    unfolding CreatePegInInput_def CreatePegInInputInner_def
    apply (simp only: example_decode_tx example_decode_mb m example_match_B option.case prod.case)
    apply (simp add: example_ops_def example_env_def example_merkle_block_def claim_B_def
        example_IsWitnessProgram_def example_parent_tx_def install_pegin_input_def
        example_IsValidPeginWitness_def CMutableTransaction_default_def example_pegin_tx_def
        CTxIn_new_def CTxInWitness_default_def resize_def CTxIn_default_def)
    done
qed

lemma example_construct_pegin:
  "ConstructTransaction_build example_util example_env example_ops example_ops
     (VARR [input_pegin_B]) (VOBJ []) VNULL rbf VNULL None True = (None, Inr example_pegin_tx)"
proof -
  have p: "pegin_call example_env example_ops
     (CMutableTransaction_default\<lparr>vin := [CTxIn_new op [] sq]\<rparr>) 0 [claim_B] [1] [2] =
     Inr example_pegin_tx" for op sq
    by (simp add: pegin_call_def example_pegin_B CTxIn_new_def)
       (simp add: example_ops_def example_merkle_block_def)
  have i: "ConstructTransaction_input example_util example_env example_ops example_ops rbf True
     CMutableTransaction_default 0 input_pegin_B = Inr example_pegin_tx"
    unfolding ConstructTransaction_input_def input_pegin_def
    apply (simp add: json_defs example_util_defs input_pegin_B_def input_sequence_def
        SEQUENCE_FINAL_def err_param_def example_env_def)
    apply (simp add: p [unfolded CMutableTransaction_default_def claim_B_def, simplified]
        CMutableTransaction_default_def flip: example_env_def)
    done
  show ?thesis
    unfolding ConstructTransaction_build_def
    by (simp add: parse_inputs_def parse_outputs_def parse_locktime_def parse_assets_def
        json_defs i [unfolded CMutableTransaction_default_def, simplified]
        CMutableTransaction_default_def add_fee_output_def conf_IsNull_def CTxOut_default_def
        example_pegin_tx_def)
qed

theorem pegin_input_sequence_is_final_witness:
  "CreatePegInInput example_env example_ops CMutableTransaction_default 0 [claim_B] [1] [2] =
     (example_pegin_tx, Inr (example_parent_tx, example_merkle_block)) \<and>
   nSequence (vin example_pegin_tx ! 0) = 0xffffffff \<and>
   get_int64 example_util (find_value input_pegin_B ''sequence'') = Inr 5 \<and>
   ConstructTransaction example_util example_env example_ops example_ops
     (VARR [input_pegin_B]) (VOBJ []) VNULL False VNULL None True = (None, Inr example_pegin_tx) \<and>
   ConstructTransaction example_util example_env example_ops example_ops
     (VARR [input_pegin_B]) (VOBJ []) VNULL True VNULL None True =
     (None, Inl (JSONRPCError RPC_INVALID_PARAMETER
        ''Invalid parameter combination: Sequence number(s) contradict replaceable option''))"
proof -
  note c = example_pegin_B_default
  have q: "get_int64 example_util (find_value input_pegin_B ''sequence'') = Inr 5"
    by (simp add: json_defs input_pegin_B_def example_util_defs)
  have v: "uv_values (VARR [input_pegin_B]) = [input_pegin_B]" by (simp add: uv_values_def)
  have f: "ConstructTransaction example_util example_env example_ops example_ops
     (VARR [input_pegin_B]) (VOBJ []) VNULL False VNULL None True = (None, Inr example_pegin_tx)"
    by (simp add: ConstructTransaction_def example_construct_pegin)
  note t = pegin_input_sequence_is_final
    [where U = example_util and E = example_env and Pb = example_ops and Pe = example_ops
       and P = example_ops and mtx = CMutableTransaction_default and input_idx = 0
       and claim_scripts = "[claim_B]" and txData = "[1]" and txOutProofData = "[2]"
       and mtx' = example_pegin_tx and r = "(example_parent_tx, example_merkle_block)"
       and inputs_in = "VARR [input_pegin_B]" and outputs_in = "VOBJ []" and locktime = VNULL
       and assets_in = VNULL and output_pubkeys_out = None and allow_peg_in = True
       and tx = example_pegin_tx and i = 0]
  from t [where rbf = False] c f v example_has_no_pegin_fields(4)
  have 1: "nSequence (vin example_pegin_tx ! 0) = 0xffffffff" by simp
  from t [where rbf = True] v example_has_no_pegin_fields(4)
    example_construct_pegin [of True]
  have 2: "ConstructTransaction example_util example_env example_ops example_ops
     (VARR [input_pegin_B]) (VOBJ []) VNULL True VNULL None True =
     (None, Inl (JSONRPCError RPC_INVALID_PARAMETER
        ''Invalid parameter combination: Sequence number(s) contradict replaceable option''))"
    by simp
  from c 1 q f 2 show ?thesis by simp
qed
































section \<open>Properties of the previous-output reconciler\<close>

lemma new_coin_cases:
  "(uv_exists prevOut ''amount'' \<and> AmountFromValue U (find_value prevOut ''amount'') = Inr a \<longrightarrow>
      new_coin U prevOut spk = Inr (synthetic_coin spk (ConfExplicit a))) \<and>
   (\<not> uv_exists prevOut ''amount'' \<and> uv_exists prevOut ''amountcommitment'' \<and>
    ParseHexO U prevOut ''amountcommitment'' = Inr c \<longrightarrow>
      new_coin U prevOut spk = Inr (synthetic_coin spk (ConfCommitment c))) \<and>
   (\<not> uv_exists prevOut ''amount'' \<and> \<not> uv_exists prevOut ''amountcommitment'' \<longrightarrow>
      new_coin U prevOut spk = Inr (synthetic_coin spk (ConfExplicit MAX_MONEY)))"
  by (simp add: new_coin_def synthetic_coin_def Coin_default_def CTxOut_default_def)

lemma prevout_coin_parsed:
  assumes "isObject p"
    and "RPCTypeCheckObj U p [(''txid'', TSTR), (''vout'', TNUM), (''scriptPubKey'', TSTR)] False = None"
    and "ParseHashO U p ''txid'' = Inr txid"
    and "get_int U (find_value p ''vout'') = Inr nOut" and "0 \<le> nOut"
    and "ParseHexO U p ''scriptPubKey'' = Inr spk"
  shows "prevout_coin U coins p =
     (let outp = \<lparr>outpoint_hash = txid, outpoint_n = word_of_int nOut\<rparr>
      in case coins outp of
            None \<Rightarrow> (case new_coin U p spk of
                       Inl e \<Rightarrow> Inl e
                     | Inr newcoin \<Rightarrow> Inr (coins(outp \<mapsto> newcoin), p, spk))
          | Some coin \<Rightarrow>
              if \<not> IsSpent U coin \<and> scriptPubKey (coin_out coin) \<noteq> spk
              then Inl (err_script_mismatch U (scriptPubKey (coin_out coin)) spk)
              else (case new_coin U p spk of
                      Inl e \<Rightarrow> Inl e
                    | Inr newcoin \<Rightarrow> Inr (coins(outp \<mapsto> newcoin), p, spk)))"
proof -
  from assms(1) have g: "get_obj p = Inr p"
    by (auto simp: isObject_def get_obj_def split: UniValue.splits)
  show ?thesis
    unfolding prevout_coin_def
    using assms by (simp add: g)
qed

text \<open>
  C9. For a record whose fields parse (transaction id, non-negative index, script), one
  iteration of \<open>ParsePrevouts\<close> does the following. If the coin map has a coin for the
  outpoint that is unspent and has another script, the iteration throws the
  deserialization error whose message holds the disassembly of both scripts, and the key
  store and the coin map are unchanged. Otherwise the coin map it leaves has, at the
  outpoint, the coin with the supplied script, height 1 and the value: the explicit
  \<open>amount\<close> when the record has one, else the \<open>amountcommitment\<close> when it has one, else
  explicit \<open>MAX_MONEY\<close>; this holds whatever the later checks on redeem and witness
  scripts do.
\<close>

theorem ParsePrevouts_entry_coin:
  assumes "isObject p"
    and "RPCTypeCheckObj U p [(''txid'', TSTR), (''vout'', TNUM), (''scriptPubKey'', TSTR)] False = None"
    and "ParseHashO U p ''txid'' = Inr txid"
    and "get_int U (find_value p ''vout'') = Inr nOut" and "0 \<le> nOut"
    and "ParseHexO U p ''scriptPubKey'' = Inr spk"
    and "outp = \<lparr>outpoint_hash = txid, outpoint_n = word_of_int nOut\<rparr>"
  shows "(\<forall>coin. coins outp = Some coin \<and> \<not> IsSpent U coin \<and> scriptPubKey (coin_out coin) \<noteq> spk \<longrightarrow>
            ParsePrevouts_entry U E (keystore, coins) p =
              ((keystore, coins),
               Some (JSONRPCError RPC_DESERIALIZATION_ERROR
                 (''Previous output scriptPubKey mismatch:'' @ [CHR 0x0A] @
                  ScriptToAsmStr U (scriptPubKey (coin_out coin)) @ [CHR 0x0A] @ ''vs:'' @
                  [CHR 0x0A] @ ScriptToAsmStr U spk)))) \<and>
         (\<not> (\<exists>coin. coins outp = Some coin \<and> \<not> IsSpent U coin \<and>
                scriptPubKey (coin_out coin) \<noteq> spk) \<longrightarrow>
            (uv_exists p ''amount'' \<and> AmountFromValue U (find_value p ''amount'') = Inr a \<longrightarrow>
               snd (fst (ParsePrevouts_entry U E (keystore, coins) p)) =
                 coins(outp \<mapsto> synthetic_coin spk (ConfExplicit a))) \<and>
            (\<not> uv_exists p ''amount'' \<and> uv_exists p ''amountcommitment'' \<and>
             ParseHexO U p ''amountcommitment'' = Inr c \<longrightarrow>
               snd (fst (ParsePrevouts_entry U E (keystore, coins) p)) =
                 coins(outp \<mapsto> synthetic_coin spk (ConfCommitment c))) \<and>
            (\<not> uv_exists p ''amount'' \<and> \<not> uv_exists p ''amountcommitment'' \<longrightarrow>
               snd (fst (ParsePrevouts_entry U E (keystore, coins) p)) =
                 coins(outp \<mapsto> synthetic_coin spk (ConfExplicit MAX_MONEY))))"
proof -
  note pc = prevout_coin_parsed [OF assms(1-6), of coins, folded assms(7)]
  have mismatch: "ParsePrevouts_entry U E (keystore, coins) p =
              ((keystore, coins),
               Some (JSONRPCError RPC_DESERIALIZATION_ERROR
                 (''Previous output scriptPubKey mismatch:'' @ [CHR 0x0A] @
                  ScriptToAsmStr U (scriptPubKey (coin_out coin)) @ [CHR 0x0A] @ ''vs:'' @
                  [CHR 0x0A] @ ScriptToAsmStr U spk)))"
    if "coins outp = Some coin \<and> \<not> IsSpent U coin \<and> scriptPubKey (coin_out coin) \<noteq> spk" for coin
    using that unfolding ParsePrevouts_entry_def
    by (simp add: pc Let_def err_script_mismatch_def err_deser_def)
  have recorded: "snd (fst (ParsePrevouts_entry U E (keystore, coins) p)) = coins(outp \<mapsto> newcoin)"
    if "\<not> (\<exists>coin. coins outp = Some coin \<and> \<not> IsSpent U coin \<and>
                scriptPubKey (coin_out coin) \<noteq> spk)"
      and "new_coin U p spk = Inr newcoin" for newcoin
    using that unfolding ParsePrevouts_entry_def
    by (cases "coins outp") (auto simp: pc Let_def split: prod.splits)
  from mismatch recorded new_coin_cases [of p U a spk c] show ?thesis
    by blast
qed

theorem ParsePrevouts_entry_coin_witness:
  "snd (fst (ParsePrevouts_entry example_util example_env (None, Map.empty) prevout_first)) =
     [\<lparr>outpoint_hash = 10, outpoint_n = 0\<rparr> \<mapsto> synthetic_coin [0x51] (ConfExplicit 300000000)] \<and>
   ParsePrevouts_entry example_util example_env
     (None, [\<lparr>outpoint_hash = 10, outpoint_n = 0\<rparr> \<mapsto>
               synthetic_coin [0x51] (ConfExplicit 300000000)]) prevout_other_script =
     ((None, [\<lparr>outpoint_hash = 10, outpoint_n = 0\<rparr> \<mapsto>
                synthetic_coin [0x51] (ConfExplicit 300000000)]),
      Some (JSONRPCError RPC_DESERIALIZATION_ERROR
        (''Previous output scriptPubKey mismatch:'' @ [CHR 0x0A] @ ''Q'' @ [CHR 0x0A] @ ''vs:'' @
         [CHR 0x0A] @ ''R''))) \<and>
   ParsePrevouts example_util example_env (VARR [prevout_first, prevout_other_script]) None
     Map.empty =
     ((None, [\<lparr>outpoint_hash = 10, outpoint_n = 0\<rparr> \<mapsto>
                synthetic_coin [0x51] (ConfExplicit 300000000)]),
      Some (JSONRPCError RPC_DESERIALIZATION_ERROR
        (''Previous output scriptPubKey mismatch:'' @ [CHR 0x0A] @ ''Q'' @ [CHR 0x0A] @ ''vs:'' @
         [CHR 0x0A] @ ''R'')))"
proof -
  let ?op = "\<lparr>outpoint_hash = 10, outpoint_n = 0\<rparr>"
  let ?coin = "synthetic_coin [0x51] (ConfExplicit 300000000)"
  have p1: "isObject prevout_first"
    "RPCTypeCheckObj example_util prevout_first
       [(''txid'', TSTR), (''vout'', TNUM), (''scriptPubKey'', TSTR)] False = None"
    "ParseHashO example_util prevout_first ''txid'' = Inr 10"
    "get_int example_util (find_value prevout_first ''vout'') = Inr 0"
    "ParseHexO example_util prevout_first ''scriptPubKey'' = Inr [0x51]"
    "uv_exists prevout_first ''amount''"
    "AmountFromValue example_util (find_value prevout_first ''amount'') = Inr 300000000"
    by (simp_all add: prevout_first_def json_defs example_util_defs MAX_MONEY_def)
  have p2: "isObject prevout_other_script"
    "RPCTypeCheckObj example_util prevout_other_script
       [(''txid'', TSTR), (''vout'', TNUM), (''scriptPubKey'', TSTR)] False = None"
    "ParseHashO example_util prevout_other_script ''txid'' = Inr 10"
    "get_int example_util (find_value prevout_other_script ''vout'') = Inr 0"
    "ParseHexO example_util prevout_other_script ''scriptPubKey'' = Inr [0x52]"
    by (simp_all add: prevout_other_script_def json_defs example_util_defs)
  have z: "(0 :: int) \<le> 0" by simp
  have o: "?op = \<lparr>outpoint_hash = 10, outpoint_n = word_of_int 0\<rparr>" by simp
  have c: "[?op \<mapsto> ?coin] ?op = Some ?coin" "\<not> IsSpent example_util ?coin"
    "scriptPubKey (coin_out ?coin) \<noteq> [0x52]"
    "ScriptToAsmStr example_util (scriptPubKey (coin_out ?coin)) = ''Q''"
    "ScriptToAsmStr example_util [0x52] = ''R''"
    by (simp_all add: example_util_def synthetic_coin_def example_CTxOut_IsNull_def
        conf_IsNull_def char_of_def bit_0)
  from ParsePrevouts_entry_coin [OF p1(1-4) z p1(5) o,
      where coins = Map.empty and a = 300000000 and E = example_env and keystore = None]
    p1(6,7)
  have 1: "snd (fst (ParsePrevouts_entry example_util example_env (None, Map.empty)
      prevout_first)) = [?op \<mapsto> ?coin]"
    by simp
  from ParsePrevouts_entry_coin [OF p2(1-4) z p2(5) o,
      where coins = "[?op \<mapsto> ?coin]" and E = example_env and keystore = None] c
  have 2: "ParsePrevouts_entry example_util example_env (None, [?op \<mapsto> ?coin])
      prevout_other_script =
     ((None, [?op \<mapsto> ?coin]),
      Some (JSONRPCError RPC_DESERIALIZATION_ERROR
        (''Previous output scriptPubKey mismatch:'' @ [CHR 0x0A] @ ''Q'' @ [CHR 0x0A] @ ''vs:'' @
         [CHR 0x0A] @ ''R'')))"
    by simp
  have "fst (fst (ParsePrevouts_entry example_util example_env (None, Map.empty) prevout_first)) =
      None \<and>
    snd (ParsePrevouts_entry example_util example_env (None, Map.empty) prevout_first) = None"
    unfolding ParsePrevouts_entry_def
    by (simp add: prevout_coin_parsed [OF p1(1-4) z p1(5)] new_coin_cases p1(6,7)
        prevout_scripts_def)
  with 1 have 3: "ParsePrevouts_entry example_util example_env (None, Map.empty) prevout_first =
      ((None, [?op \<mapsto> ?coin]), None)"
    by (simp add: prod_eq_iff)
  have 4: "ParsePrevouts example_util example_env (VARR [prevout_first, prevout_other_script])
      None Map.empty =
     ((None, [?op \<mapsto> ?coin]),
      Some (JSONRPCError RPC_DESERIALIZATION_ERROR
        (''Previous output scriptPubKey mismatch:'' @ [CHR 0x0A] @ ''Q'' @ [CHR 0x0A] @ ''vs:'' @
         [CHR 0x0A] @ ''R'')))"
    unfolding ParsePrevouts_def
    by (simp add: isNull_def get_array_def uv_values_def 3 2)
  from 1 2 4 show ?thesis by simp
qed

section \<open>Properties of the signing orchestrator\<close>

lemma std_map_set_keys: "fst ` set (std_map_set k v m) = insert k (fst ` set m)"
  by (induction m) auto

lemma validate_pegin_loop_append:
  "validate_pegin_loop E mtx i0 (xs @ ys) imm errs0 =
     (case validate_pegin_loop E mtx i0 xs imm errs0 of
        (errs1, Inl e) \<Rightarrow> (errs1, Inl e)
      | (errs1, Inr imm1) \<Rightarrow> validate_pegin_loop E mtx (i0 + length xs) ys imm1 errs1)"
  by (induction xs arbitrary: i0 imm errs0) (auto split: option.splits)

lemma validate_pegin_loop_keys:
  "validate_pegin_loop E mtx i0 xs imm errs0 = (errs, r) \<Longrightarrow>
   fst ` set errs \<subseteq> fst ` set errs0 \<union> {int j | j. i0 \<le> j \<and> j < i0 + length xs}"
proof (induction xs arbitrary: i0 imm errs0)
  case Nil
  then show ?case by auto
next
  case (Cons x xs)
  have sub: "{int j | j. Suc i0 \<le> j \<and> j < Suc i0 + length xs} \<subseteq>
      {int j | j. i0 \<le> j \<and> j < i0 + length (x # xs)}" by auto
  have i0: "int i0 \<in> {int j | j. i0 \<le> j \<and> j < i0 + length (x # xs)}" by auto
  from Cons.prems consider
    (inv) "validate_pegin_loop E mtx (Suc i0) xs imm
             (std_map_set (int i0) ''Peg-in input has invalid proof.'' errs0) = (errs, r)"
    | (ok) imm1 where "validate_pegin_loop E mtx (Suc i0) xs imm1 errs0 = (errs, r)"
    | (thr) "errs = errs0"
    by (auto split: if_splits option.splits)
  then show ?case
  proof cases
    case inv
    from Cons.IH [OF inv] sub i0 show ?thesis
      by (auto simp: std_map_set_keys)
  next
    case ok
    from Cons.IH [OF ok] sub show ?thesis by blast
  next
    case thr
    then show ?thesis by auto
  qed
qed

lemma validate_pegin_loop_mono:
  "validate_pegin_loop E mtx i0 xs True errs0 = (errs, Inr imm') \<Longrightarrow> imm'"
  by (induction xs arbitrary: i0 errs0) (auto split: if_splits option.splits)

lemma validate_immature_input:
  assumes i: "i < length (vin mtx)" and p: "m_is_pegin (vin mtx ! i)"
    and w: "i < length (vtxinwit mtx)"
    and v0: "IsValidPeginWitness E (m_pegin_witness (vtxinwit mtx ! i)) (fedpegscripts E)
               (prevout (vin mtx ! i)) False = None"
    and v1: "IsValidPeginWitness E (m_pegin_witness (vtxinwit mtx ! i)) (fedpegscripts E)
               (prevout (vin mtx ! i)) True = Some Needs_more_confirmations"
    and r: "ValidateTransactionPeginInputs E mtx [] = (input_errors, Inr immature_pegin)"
  shows "immature_pegin" and "int i \<notin> fst ` set input_errors"
proof -
  let ?pre = "take i (vin mtx)" and ?post = "drop (Suc i) (vin mtx)"
  from i have s: "vin mtx = ?pre @ (vin mtx ! i) # ?post"
    by (simp add: id_take_nth_drop)
  from i have lp: "length ?pre = i" by simp
  obtain errs1 r1 where a: "validate_pegin_loop E mtx 0 ?pre False [] = (errs1, r1)"
    by (cases "validate_pegin_loop E mtx 0 ?pre False []") auto
  from r have r': "validate_pegin_loop E mtx 0 (?pre @ (vin mtx ! i) # ?post) False [] =
      (input_errors, Inr immature_pegin)"
    unfolding ValidateTransactionPeginInputs_def using s by simp
  from r' have "(case validate_pegin_loop E mtx 0 ?pre False [] of
        (errs1, Inl e) \<Rightarrow> (errs1, Inl e)
      | (errs1, Inr imm1) \<Rightarrow>
          validate_pegin_loop E mtx (0 + length ?pre) ((vin mtx ! i) # ?post) imm1 errs1) =
      (input_errors, Inr immature_pegin)"
    by (simp only: validate_pegin_loop_append)
  then have "(case r1 of
        Inl e \<Rightarrow> (errs1, Inl e)
      | Inr imm1 \<Rightarrow> validate_pegin_loop E mtx i ((vin mtx ! i) # ?post) imm1 errs1) =
      (input_errors, Inr immature_pegin)"
    by (simp only: a prod.case lp add_0)
  then obtain imm1 where
    r1: "r1 = Inr imm1" and
    b: "validate_pegin_loop E mtx i ((vin mtx ! i) # ?post) imm1 errs1 =
          (input_errors, Inr immature_pegin)"
    by (cases r1) simp_all
  have "validate_pegin_loop E mtx i ((vin mtx ! i) # ?post) imm1 errs1 =
      validate_pegin_loop E mtx (Suc i) ?post True errs1"
    using p w v0 v1 by simp
  with b have c: "validate_pegin_loop E mtx (Suc i) ?post True errs1 =
          (input_errors, Inr immature_pegin)"
    by simp
  from validate_pegin_loop_mono [OF c] show "immature_pegin" .
  from validate_pegin_loop_keys [OF a] lp
  have k1: "fst ` set errs1 \<subseteq> {int j | j. j < i}" by auto
  from validate_pegin_loop_keys [OF c]
  have "fst ` set input_errors \<subseteq> fst ` set errs1 \<union> {int j | j. Suc i \<le> j}" by auto
  with k1 have "fst ` set input_errors \<subseteq> {int j | j. j < i} \<union> {int j | j. Suc i \<le> j}"
    by blast
  moreover have "int i \<notin> {int j | j. j < i} \<union> {int j | j. Suc i \<le> j}" by auto
  ultimately show "int i \<notin> fst ` set input_errors" by blast
qed

lemma map_of_replace_first:
  "map_of (replace_first k v kvs) k' =
     (if k' = k \<and> k \<in> set (map fst kvs) then Some v else map_of kvs k')"
  by (induction kvs) (auto simp: rev_image_eqI)

lemma find_value_pushKV:
  "isObject r \<Longrightarrow> find_value (pushKV r k v) k' = (if k' = k then v else find_value r k')"
  by (cases r)
     (auto simp: isObject_def pushKV_def find_value_def map_of_replace_first
        map_of_eq_None_iff [symmetric] split: option.splits)

lemma isObject_pushKV: "isObject r \<Longrightarrow> isObject (pushKV r k v)"
  by (cases r) (auto simp: isObject_def pushKV_def)

lemma SignTransactionResultToJSON_immature:
  assumes "SignTransactionResultToJSON S mtx complete coins input_errors True result = (result', None)"
    and "isObject result"
  shows "find_value result' ''warning'' = VSTR immature_warning"
    and "find_value result' ''hex'' = VSTR (EncodeHexTx S mtx)"
    and "find_value result' ''complete'' = VBOOL complete"
proof -
  let ?r2 = "pushKV (pushKV result ''hex'' (VSTR (EncodeHexTx S mtx))) ''complete'' (VBOOL complete)"
  have o2: "isObject ?r2" using assms(2) by (simp add: isObject_pushKV)
  from assms(1) obtain r3 where
    r: "result' = pushKV r3 ''warning'' (VSTR immature_warning)" and
    c: "r3 = ?r2 \<or> (\<exists>x. r3 = pushKV ?r2 ''errors'' x)"
    unfolding SignTransactionResultToJSON_def Let_def
    by (auto split: sum.splits if_splits)
  from c o2 have o3: "isObject r3" by (auto simp: isObject_pushKV)
  from c o2 assms(2) have
    "find_value r3 ''hex'' = VSTR (EncodeHexTx S mtx)"
    "find_value r3 ''complete'' = VBOOL complete"
    by (auto simp: find_value_pushKV isObject_pushKV)
  with r o3 show "find_value result' ''warning'' = VSTR immature_warning"
    and "find_value result' ''hex'' = VSTR (EncodeHexTx S mtx)"
    and "find_value result' ''complete'' = VBOOL complete"
    by (simp_all add: find_value_pushKV)
qed

text \<open>
  C5. Let input \<open>i\<close> be a peg-in input with a witness slot whose peg-in witness the
  verifier accepts without the depth check and rejects with it, with exactly the message
  ``Needs more confirmations.'', and let validation return (no input trips
  \<^verbatim>\<open>CHECK_NONFATAL\<close>). Then validation sets the immaturity flag and records no error for
  input \<open>i\<close>. Whenever the orchestrating \<open>SignTransaction\<close> returns, the transaction is the
  signer's, and \<open>result\<close> (an object) holds the warning, the transaction hex and, under
  \<open>complete\<close>, the signer's completeness result. It does return when the signer reports
  no input error; so with signing successful the completeness flag is true.
\<close>

theorem immature_pegin_is_a_warning:
  assumes "i < length (vin mtx)" and "m_is_pegin (vin mtx ! i)" and "i < length (vtxinwit mtx)"
    and "IsValidPeginWitness E (m_pegin_witness (vtxinwit mtx ! i)) (fedpegscripts E)
           (prevout (vin mtx ! i)) False = None"
    and "IsValidPeginWitness E (m_pegin_witness (vtxinwit mtx ! i)) (fedpegscripts E)
           (prevout (vin mtx ! i)) True = Some ''Needs more confirmations.''"
    and "ValidateTransactionPeginInputs E mtx [] = (input_errors, Inr immature_pegin)"
    and "ParseSighashString S hashType = Inr nHashType"
    and "sign S mtx keystore coins nHashType input_errors = (mtx', complete, input_errors')"
    and "isObject result"
  shows "immature_pegin \<and> int i \<notin> fst ` set input_errors \<and>
         (\<forall>final. SignTransaction E S mtx keystore coins hashType result = (final, None) \<longrightarrow>
            fst final = mtx' \<and>
            find_value (snd final) ''warning'' =
              VSTR ''Possibly immature peg-in input(s) detected, signed anyways.'' \<and>
            find_value (snd final) ''hex'' = VSTR (EncodeHexTx S mtx') \<and>
            find_value (snd final) ''complete'' = VBOOL complete) \<and>
         (input_errors' = [] \<longrightarrow>
            SignTransaction E S mtx keystore coins hashType result =
              ((mtx', pushKV (pushKV (pushKV result ''hex'' (VSTR (EncodeHexTx S mtx')))
                                ''complete'' (VBOOL complete))
                        ''warning''
                        (VSTR ''Possibly immature peg-in input(s) detected, signed anyways.'')),
               None))"
proof (intro conjI allI impI)
  note v = validate_immature_input [OF assms(1-4) assms(5) [folded Needs_more_confirmations_def]
      assms(6)]
  show imm: "immature_pegin" by (rule v(1))
  show "int i \<notin> fst ` set input_errors" by (rule v(2))
  have st: "SignTransaction E S mtx keystore coins hashType result =
      (case SignTransactionResultToJSON S mtx' complete coins input_errors' True result of
         (result', err) \<Rightarrow> ((mtx', result'), err))"
    unfolding SignTransaction_def using imm by (simp add: assms(6,7,8))
  {
    fix final
    assume f: "SignTransaction E S mtx keystore coins hashType result = (final, None)"
    with st obtain result' where
      j: "SignTransactionResultToJSON S mtx' complete coins input_errors' True result =
            (result', None)" and
      e: "final = (mtx', result')"
      by (auto split: prod.splits)
    note r = SignTransactionResultToJSON_immature [OF j assms(9)]
    from e show "fst final = mtx'" by simp
    from e r(1) show "find_value (snd final) ''warning'' =
        VSTR ''Possibly immature peg-in input(s) detected, signed anyways.''"
      by (simp add: immature_warning_def)
    from e r(2) show "find_value (snd final) ''hex'' = VSTR (EncodeHexTx S mtx')" by simp
    from e r(3) show "find_value (snd final) ''complete'' = VBOOL complete" by simp
  }
  {
    assume "input_errors' = []"
    then show "SignTransaction E S mtx keystore coins hashType result =
              ((mtx', pushKV (pushKV (pushKV result ''hex'' (VSTR (EncodeHexTx S mtx')))
                                ''complete'' (VBOOL complete))
                        ''warning''
                        (VSTR ''Possibly immature peg-in input(s) detected, signed anyways.'')),
               None)"
      by (simp add: st SignTransactionResultToJSON_def uv_values_def immature_warning_def)
  }
qed

theorem immature_pegin_is_a_warning_witness:
  "ValidateTransactionPeginInputs example_env example_immature_mtx [] = ([], Inr True) \<and>
   SignTransaction example_env example_signer example_immature_mtx () Map.empty VNULL (VOBJ []) =
     ((example_immature_mtx,
       VOBJ [(''hex'', VSTR ''00''), (''complete'', VBOOL True),
             (''warning'', VSTR ''Possibly immature peg-in input(s) detected, signed anyways.'')]),
      None)"
proof -
  let ?m = example_immature_mtx
  have m: "0 < length (vin ?m)" "m_is_pegin (vin ?m ! 0)" "0 < length (vtxinwit ?m)"
    "IsValidPeginWitness example_env (m_pegin_witness (vtxinwit ?m ! 0)) (fedpegscripts example_env)
           (prevout (vin ?m ! 0)) False = None"
    "IsValidPeginWitness example_env (m_pegin_witness (vtxinwit ?m ! 0)) (fedpegscripts example_env)
           (prevout (vin ?m ! 0)) True = Some ''Needs more confirmations.''"
    by (simp_all add: example_immature_mtx_def example_pegin_tx_def CTxInWitness_default_def
        example_env_def example_IsValidPeginWitness_def)
  have v: "ValidateTransactionPeginInputs example_env ?m [] = ([], Inr True)"
    unfolding ValidateTransactionPeginInputs_def
    by (simp add: example_immature_mtx_def example_pegin_tx_def CTxInWitness_default_def
        example_env_def example_IsValidPeginWitness_def Needs_more_confirmations_def)
  have p: "ParseSighashString example_signer VNULL = Inr 1"
    by (simp add: example_signer_def isNull_def)
  have s: "sign example_signer ?m () Map.empty 1 [] = (?m, True, [])"
    by (simp add: example_signer_def)
  have ob: "isObject (VOBJ [])" by (simp add: isObject_def)
  from immature_pegin_is_a_warning [OF m v p s ob]
  have "SignTransaction example_env example_signer ?m () Map.empty VNULL (VOBJ []) =
      ((?m, pushKV (pushKV (pushKV (VOBJ []) ''hex'' (VSTR (EncodeHexTx example_signer ?m)))
                                ''complete'' (VBOOL True))
                        ''warning''
                        (VSTR ''Possibly immature peg-in input(s) detected, signed anyways.'')),
               None)"
    by simp
  then show ?thesis
    by (simp add: v pushKV_def example_signer_def)
qed

section \<open>Order of the claim scripts\<close>

lemma std_set_insert_set_total:
  "strict_total_order lt \<Longrightarrow> set (std_set_insert lt x s) = insert x (set s)"
  unfolding strict_total_order_def
  by (induction s) auto

lemma std_set_insert_sorted:
  assumes "strict_total_order lt" and "sorted_wrt lt s"
  shows "sorted_wrt lt (std_set_insert lt x s)"
  using assms(2)
proof (induction s)
  case Nil
  then show ?case by simp
next
  case (Cons y ys)
  from assms(1) have tr: "\<And>a b c. lt a b \<Longrightarrow> lt b c \<Longrightarrow> lt a c"
    and tot: "\<And>a b. a \<noteq> b \<Longrightarrow> lt a b \<or> lt b a"
    unfolding strict_total_order_def by blast+
  show ?case
  proof (cases "lt x y")
    case True
    with Cons.prems tr show ?thesis by auto
  next
    case False
    show ?thesis
    proof (cases "lt y x")
      case True
      with False Cons std_set_insert_set_total [OF assms(1), of x ys] show ?thesis
        by auto
    next
      case f: False
      with False Cons.prems show ?thesis by simp
    qed
  qed
qed

lemma std_set_of_snoc: "std_set_of lt (xs @ [x]) = std_set_insert lt x (std_set_of lt xs)"
  by (simp add: std_set_of_def)

lemma std_set_of_sorted:
  assumes "strict_total_order lt"
  shows "sorted_wrt lt (std_set_of lt xs) \<and> set (std_set_of lt xs) = set xs"
proof (induction xs rule: rev_induct)
  case Nil
  then show ?case by (simp add: std_set_of_def)
next
  case (snoc x xs)
  then show ?case
    by (simp add: std_set_of_snoc std_set_insert_sorted [OF assms]
        std_set_insert_set_total [OF assms])
qed

lemma sorted_wrt_unique:
  assumes "strict_total_order lt"
  shows "sorted_wrt lt xs \<Longrightarrow> sorted_wrt lt ys \<Longrightarrow> set xs = set ys \<Longrightarrow> xs = ys"
proof (induction xs arbitrary: ys)
  case Nil
  then show ?case by simp
next
  case (Cons x xs)
  from assms have irr: "\<And>a. \<not> lt a a" and tr: "\<And>a b c. lt a b \<Longrightarrow> lt b c \<Longrightarrow> lt a c"
    unfolding strict_total_order_def by blast+
  from Cons.prems(3) obtain y ys' where ys: "ys = y # ys'" by (cases ys) auto
  have xy: "x = y"
  proof (rule ccontr)
    assume n: "x \<noteq> y"
    with Cons.prems(3) ys have "x \<in> set ys'" by auto
    with Cons.prems(2) ys have 1: "lt y x" by auto
    from n Cons.prems(3) ys have "y \<in> set xs" by auto
    with Cons.prems(1) have "lt x y" by auto
    with 1 tr irr show False by blast
  qed
  from Cons.prems(1) irr have "x \<notin> set xs" by auto
  moreover from Cons.prems(2) ys irr have "y \<notin> set ys'" by auto
  ultimately have "set xs = set ys'" using Cons.prems(3) ys xy by auto
  with Cons.IH [of ys'] Cons.prems(1,2) ys xy show ?case by simp
qed

lemma std_set_of_order_irrelevant:
  assumes "strict_total_order lt" and "set xs = set ys"
  shows "std_set_of lt xs = std_set_of lt ys"
  using std_set_of_sorted [OF assms(1), of xs] std_set_of_sorted [OF assms(1), of ys] assms(2)
  by (auto intro: sorted_wrt_unique [OF assms(1)])

lemma match_claim_scripts_first:
  assumes "\<forall>c\<in>set pre. GetPeginTxnOutputIndex E txn_vout c fps = length txn_vout"
    and "GetPeginTxnOutputIndex E txn_vout script fps \<noteq> length txn_vout"
  shows "match_claim_scripts E txn_vout fps (pre @ script # post) =
           (GetPeginTxnOutputIndex E txn_vout script fps, script)"
  using assms by (induction pre) (simp_all add: Let_def)

lemma CreatePegInInput_Inr_match:
  assumes "CreatePegInInput E P mtx input_idx claim_scripts txData txOutProofData =
             (mtx', Inr (tx, mb))"
  shows "\<exists>nOut witness_script val.
           match_claim_scripts E (vout_scriptPubKeys P tx) (fedpegscripts E) claim_scripts =
             (nOut, witness_script) \<and>
           GetAmountFromParentChainPegin P tx nOut = Some val \<and>
           outpoint_n (prevout (vin mtx' ! unat input_idx)) = of_nat nOut \<and>
           m_pegin_witness (vtxinwit mtx' ! unat input_idx) =
             CreatePeginWitness P val witness_script tx mb"
proof -
  from assms obtain tx0 mb0 h nOut ws val where
    m: "match_claim_scripts E (vout_scriptPubKeys P tx0) (fedpegscripts E) claim_scripts = (nOut, ws)"
    and g: "GetAmountFromParentChainPegin P tx0 nOut = Some val"
    and i: "install_pegin_input E P mtx input_idx tx0 mb0 h nOut ws val = (mtx', Inr (tx, mb))"
    unfolding CreatePegInInput_def CreatePegInInputInner_def
    by (auto split: if_splits option.splits prod.splits)
  note f = install_pegin_input_Inr [OF i]
  from f(8) have e: "tx0 = tx" "mb0 = mb" by simp_all
  from f(2) have "outpoint_n (prevout (vin mtx' ! unat input_idx)) = of_nat nOut" by simp
  moreover from f(7) have "m_pegin_witness (vtxinwit mtx' ! unat input_idx) =
      CreatePeginWitness P val ws tx mb"
    by (simp add: e CTxInWitness_default_def)
  ultimately show ?thesis using m g e by blast
qed

lemma example_less_order: "strict_total_order example_less"
proof -
  let ?r = "{(x :: nat, y). x < y}"
  have irr: "\<not> example_less a a" for a
    using lexord_irreflexive [of ?r "map unat a"] by (auto simp: example_less_def)
  have tr: "example_less a c" if "example_less a b" "example_less b c" for a b c
  proof -
    have t: "trans ?r" by (auto simp: trans_def)
    from that show ?thesis
      unfolding example_less_def
      by (auto intro: lexord_trans [OF _ _ t])
  qed
  have tot: "example_less a b \<or> example_less b a" if "a \<noteq> b" for a b
  proof (cases "length a = length b")
    case True
    have "(map unat a, map unat b) \<in> lexord ?r \<or> map unat a = map unat b \<or>
        (map unat b, map unat a) \<in> lexord ?r"
      by (rule lexord_linear) auto
    moreover have "map unat a \<noteq> map unat b"
    proof -
      have "inj (unat :: byte \<Rightarrow> nat)" by (rule injI) (simp add: word_unat_eq_iff)
      then show ?thesis using that by simp
    qed
    ultimately show ?thesis using True by (auto simp: example_less_def)
  next
    case False
    then show ?thesis by (auto simp: example_less_def)
  qed
  from irr tr tot show ?thesis unfolding strict_total_order_def by blast
qed

lemma example_set_of_BA:
  "std_set_of (CScript_less example_env) [claim_B, claim_A] = [claim_A, claim_B]"
  "std_set_of (CScript_less example_env) [claim_A, claim_B] = [claim_A, claim_B]"
  by (simp_all add: std_set_of_def example_env_def example_less_def claim_A_def claim_B_def)

lemma example_vout_length: "length (ex_vout example_parent_tx) = 3"
  by (simp add: example_parent_tx_def)

lemma example_index_A:
  "GetPeginTxnOutputIndex example_env (map fst (ex_vout example_parent_tx)) claim_A
     example_fedpegscripts = 2"
  by (simp add: example_vout) (simp add: example_defs)

lemma example_index_B:
  "GetPeginTxnOutputIndex example_env (map fst (ex_vout example_parent_tx)) claim_B
     example_fedpegscripts = 1"
  by (simp add: example_vout) (simp add: example_defs)

lemma example_pegin_AB:
  "CreatePegInInput example_env example_ops CMutableTransaction_default 0 [claim_A, claim_B]
     [1] [2] = (example_pegin_tx_A, Inr (example_parent_tx, example_merkle_block))"
proof -
  have m: "vout_scriptPubKeys example_ops example_parent_tx = map fst (ex_vout example_parent_tx)"
    "fedpegscripts example_env = example_fedpegscripts"
    by (simp_all add: example_ops_def example_env_def)
  have ma: "match_claim_scripts example_env (map fst (ex_vout example_parent_tx))
      example_fedpegscripts [claim_A, claim_B] = (2, claim_A)"
    by (simp add: example_index_A example_vout_length)
  show ?thesis
    unfolding CreatePegInInput_def CreatePegInInputInner_def
    apply (simp only: example_decode_tx example_decode_mb m ma option.case prod.case)
    apply (simp add: example_ops_def example_env_def example_merkle_block_def claim_A_def
        example_IsWitnessProgram_def example_parent_tx_def install_pegin_input_def
        example_IsValidPeginWitness_def CMutableTransaction_default_def example_pegin_tx_A_def
        CTxIn_new_def CTxInWitness_default_def resize_def CTxIn_default_def)
    done
qed

text \<open>
  C3, as stated, fails. The caller inserts \<open>claim_B\<close>, then \<open>claim_A\<close>. Both match an
  output of the parent transaction (\<open>claim_B\<close> output 1, \<open>claim_A\<close> output 2, of 3
  outputs), and the set iterates \<open>claim_A\<close> first: the input built points at output 2 and
  its witness holds \<open>claim_A\<close>, not the script the caller supplied first.
\<close>

theorem claim_script_order_counterexample:
  "std_set_of (CScript_less example_env) [claim_B, claim_A] = [claim_A, claim_B] \<and>
   length (vout_scriptPubKeys example_ops example_parent_tx) = 3 \<and>
   GetPeginTxnOutputIndex example_env (vout_scriptPubKeys example_ops example_parent_tx) claim_B
     (fedpegscripts example_env) = 1 \<and>
   GetPeginTxnOutputIndex example_env (vout_scriptPubKeys example_ops example_parent_tx) claim_A
     (fedpegscripts example_env) = 2 \<and>
   CreatePegInInput example_env example_ops CMutableTransaction_default 0
     (std_set_of (CScript_less example_env) [claim_B, claim_A]) [1] [2] =
     (example_pegin_tx_A, Inr (example_parent_tx, example_merkle_block)) \<and>
   outpoint_n (prevout (vin example_pegin_tx_A ! 0)) = 2 \<and>
   m_pegin_witness (vtxinwit example_pegin_tx_A ! 0) =
     CreatePeginWitness example_ops 40 claim_A example_parent_tx example_merkle_block \<and>
   claim_A \<noteq> claim_B"
proof -
  have m: "vout_scriptPubKeys example_ops example_parent_tx = map fst (ex_vout example_parent_tx)"
    "fedpegscripts example_env = example_fedpegscripts"
    by (simp_all add: example_ops_def example_env_def)
  have l: "length (map fst (ex_vout example_parent_tx)) = 3" by (simp add: example_vout_length)
  have w: "outpoint_n (prevout (vin example_pegin_tx_A ! 0)) = 2"
    "m_pegin_witness (vtxinwit example_pegin_tx_A ! 0) =
       CreatePeginWitness example_ops 40 claim_A example_parent_tx example_merkle_block"
    "claim_A \<noteq> claim_B"
    by (simp_all add: example_pegin_tx_A_def example_ops_def claim_A_def claim_B_def)
  show ?thesis
    by (simp only: example_set_of_BA m l example_index_A example_index_B example_pegin_AB w)
       simp
qed

text \<open>
  C3, amended. The claim scripts are tried in the iteration order of the set, and the
  first script in that order that matches an output under some configuration is
  selected; the input built by \<open>CreatePegInInput\<close> points at the output index found for
  that script and its peg-in witness is built from that script. The iteration order is
  that of the comparison (a strict total order): the set built from a list of scripts is
  ascending and does not depend on the order of the insertions.
\<close>

theorem claim_scripts_tried_in_set_order:
  "(claim_scripts = pre @ script # post \<and>
    (\<forall>c\<in>set pre. GetPeginTxnOutputIndex E txn_vout c fps = length txn_vout) \<and>
    GetPeginTxnOutputIndex E txn_vout script fps \<noteq> length txn_vout \<longrightarrow>
      match_claim_scripts E txn_vout fps claim_scripts =
        (GetPeginTxnOutputIndex E txn_vout script fps, script)) \<and>
   (CreatePegInInput E P mtx input_idx claim_scripts txData txOutProofData =
      (mtx', Inr (tx, mb)) \<and>
    claim_scripts = pre @ script # post \<and>
    (\<forall>c\<in>set pre. GetPeginTxnOutputIndex E (vout_scriptPubKeys P tx) c (fedpegscripts E) =
                   length (vout_scriptPubKeys P tx)) \<and>
    GetPeginTxnOutputIndex E (vout_scriptPubKeys P tx) script (fedpegscripts E) \<noteq>
      length (vout_scriptPubKeys P tx) \<longrightarrow>
      outpoint_n (prevout (vin mtx' ! unat input_idx)) =
        of_nat (GetPeginTxnOutputIndex E (vout_scriptPubKeys P tx) script (fedpegscripts E)) \<and>
      (\<exists>val. GetAmountFromParentChainPegin P tx
                (GetPeginTxnOutputIndex E (vout_scriptPubKeys P tx) script (fedpegscripts E)) =
                Some val \<and>
             m_pegin_witness (vtxinwit mtx' ! unat input_idx) =
               CreatePeginWitness P val script tx mb)) \<and>
   (strict_total_order lt \<and> set xs = set ys \<longrightarrow>
      std_set_of lt xs = std_set_of lt ys \<and> sorted_wrt lt (std_set_of lt xs) \<and>
      set (std_set_of lt xs) = set xs)"
proof (intro conjI impI)
  assume "claim_scripts = pre @ script # post \<and>
    (\<forall>c\<in>set pre. GetPeginTxnOutputIndex E txn_vout c fps = length txn_vout) \<and>
    GetPeginTxnOutputIndex E txn_vout script fps \<noteq> length txn_vout"
  then show "match_claim_scripts E txn_vout fps claim_scripts =
        (GetPeginTxnOutputIndex E txn_vout script fps, script)"
    using match_claim_scripts_first by blast
next
  assume a: "CreatePegInInput E P mtx input_idx claim_scripts txData txOutProofData =
      (mtx', Inr (tx, mb)) \<and>
    claim_scripts = pre @ script # post \<and>
    (\<forall>c\<in>set pre. GetPeginTxnOutputIndex E (vout_scriptPubKeys P tx) c (fedpegscripts E) =
                   length (vout_scriptPubKeys P tx)) \<and>
    GetPeginTxnOutputIndex E (vout_scriptPubKeys P tx) script (fedpegscripts E) \<noteq>
      length (vout_scriptPubKeys P tx)"
  let ?n = "GetPeginTxnOutputIndex E (vout_scriptPubKeys P tx) script (fedpegscripts E)"
  from a have c: "CreatePegInInput E P mtx input_idx claim_scripts txData txOutProofData =
      (mtx', Inr (tx, mb))" by blast
  from a have m: "match_claim_scripts E (vout_scriptPubKeys P tx) (fedpegscripts E) claim_scripts =
      (?n, script)"
    using match_claim_scripts_first by blast
  from CreatePegInInput_Inr_match [OF c] m
  obtain val where
    v: "GetAmountFromParentChainPegin P tx ?n = Some val"
       "outpoint_n (prevout (vin mtx' ! unat input_idx)) = of_nat ?n"
       "m_pegin_witness (vtxinwit mtx' ! unat input_idx) = CreatePeginWitness P val script tx mb"
    by auto
  from v(2) show "outpoint_n (prevout (vin mtx' ! unat input_idx)) = of_nat ?n" .
  from v(1,3) show "\<exists>val. GetAmountFromParentChainPegin P tx ?n = Some val \<and>
             m_pegin_witness (vtxinwit mtx' ! unat input_idx) =
               CreatePeginWitness P val script tx mb"
    by blast
next
  assume a: "strict_total_order lt \<and> set xs = set ys"
  then show "std_set_of lt xs = std_set_of lt ys"
    using std_set_of_order_irrelevant by blast
  from a show "sorted_wrt lt (std_set_of lt xs)" using std_set_of_sorted by blast
  from a show "set (std_set_of lt xs) = set xs" using std_set_of_sorted by blast
qed

theorem claim_scripts_tried_in_set_order_witness:
  "match_claim_scripts example_env (vout_scriptPubKeys example_ops example_parent_tx)
     (fedpegscripts example_env) [claim_A, claim_B] = (2, claim_A) \<and>
   outpoint_n (prevout (vin example_pegin_tx_A ! unat (0 :: 32 word))) = 2 \<and>
   m_pegin_witness (vtxinwit example_pegin_tx_A ! unat (0 :: 32 word)) =
     CreatePeginWitness example_ops 40 claim_A example_parent_tx example_merkle_block \<and>
   std_set_of example_less [claim_B, claim_A] = std_set_of example_less [claim_A, claim_B]"
proof -
  let ?vout = "vout_scriptPubKeys example_ops example_parent_tx"
  let ?fps = "fedpegscripts example_env"
  have m: "?vout = map fst (ex_vout example_parent_tx)" "?fps = example_fedpegscripts"
    by (simp_all add: example_ops_def example_env_def)
  have s: "[claim_A, claim_B] = [] @ claim_A # [claim_B]" by simp
  have n: "GetPeginTxnOutputIndex example_env ?vout claim_A ?fps = 2"
    "GetPeginTxnOutputIndex example_env ?vout claim_A ?fps \<noteq> length ?vout"
    by (simp_all add: m example_index_A example_vout_length)
  have e: "set [claim_B, claim_A] = set [claim_A, claim_B]" by auto
  have g: "GetAmountFromParentChainPegin example_ops example_parent_tx 2 = Some 40"
    by (simp add: example_ops_def example_parent_tx_def)
  note t = claim_scripts_tried_in_set_order
    [where E = example_env and P = example_ops and claim_scripts = "[claim_A, claim_B]"
       and pre = "[]" and script = claim_A and post = "[claim_B]"
       and txn_vout = ?vout and fps = ?fps
       and mtx = CMutableTransaction_default and input_idx = 0 and txData = "[1]"
       and txOutProofData = "[2]" and mtx' = example_pegin_tx_A and tx = example_parent_tx
       and mb = example_merkle_block and lt = example_less
       and xs = "[claim_B, claim_A]" and ys = "[claim_A, claim_B]"]
  from t s n example_pegin_AB example_less_order e g show ?thesis
    by simp
qed

end
